theory Spec2Isabelle
  imports Complex_Main "HOL-Library.Multiset"
begin

section \<open>Index archival: the index views pushed to the science portal\<close>

text \<open>
  A shallow embedding of \<^verbatim>\<open>bin/index_archival.py\<close>. The script reads one night of
  alerts into a data frame, derives one index view from it (chosen by the index-kind
  identifier \<^verbatim>\<open>args.index_table\<close>) and hands the view to \<^verbatim>\<open>push_to_hbase\<close>.

  The data frame engine, the pixelisation, the classifier, the sky matcher and the
  store client are collaborators of the script. The operations of the engine the script
  calls are written out below as functions on frames; what the other collaborators
  compute is a field of the record \<open>env\<close>.
\<close>

subsection \<open>Errors\<close>

datatype error =
  AnalysisException string
  | ValueError string
  | IndexError string
  | KeyError string
  | OSError string
  | CollaboratorError string

definition ebind :: "error + 'a \<Rightarrow> ('a \<Rightarrow> error + 'b) \<Rightarrow> error + 'b" where
  "ebind m f = (case m of Inl e \<Rightarrow> Inl e | Inr x \<Rightarrow> f x)"

fun emap :: "('a \<Rightarrow> error + 'b) \<Rightarrow> 'a list \<Rightarrow> error + 'b list" where
  "emap f [] = Inr []"
| "emap f (x # xs) =
     (case f x of
        Inl e \<Rightarrow> Inl e
      | Inr y \<Rightarrow> (case emap f xs of Inl e \<Rightarrow> Inl e | Inr ys \<Rightarrow> Inr (y # ys)))"

subsection \<open>Python strings\<close>

text \<open>\<^verbatim>\<open>s.startswith(p)\<close>.\<close>

fun startswith :: "string \<Rightarrow> string \<Rightarrow> bool" where
  "startswith s [] = True"
| "startswith [] (p # ps) = False"
| "startswith (c # cs) (p # ps) = (c = p \<and> startswith cs ps)"

text \<open>\<^verbatim>\<open>sub in s\<close> on strings: \<open>sub\<close> occurs in \<open>s\<close> as a contiguous run.\<close>

fun py_in :: "string \<Rightarrow> string \<Rightarrow> bool" where
  "py_in sub [] = (sub = [])"
| "py_in sub (c # cs) = (startswith (c # cs) sub \<or> py_in sub cs)"

text \<open>
  \<^verbatim>\<open>s.split(sep)\<close> with a separator: the pieces between the non-overlapping
  occurrences of \<open>sep\<close>, scanned from the left; \<open>acc\<close> is the piece being read.
  Python raises \<^verbatim>\<open>ValueError\<close> on an empty separator.
\<close>

fun split_from :: "string \<Rightarrow> string \<Rightarrow> string \<Rightarrow> string list" where
  "split_from sep acc [] = [acc]"
| "split_from sep acc (c # cs) =
     (if startswith (c # cs) sep then acc # split_from sep [] (drop (length sep - 1) cs)
      else split_from sep (acc @ [c]) cs)"

definition py_split :: "string \<Rightarrow> string \<Rightarrow> error + string list" where
  "py_split s sep =
     (if sep = [] then Inl (ValueError ''empty separator'') else Inr (split_from sep [] s))"

text \<open>\<^verbatim>\<open>sep.join(parts)\<close>.\<close>

fun py_join :: "string \<Rightarrow> string list \<Rightarrow> string" where
  "py_join sep [] = []"
| "py_join sep [p] = p"
| "py_join sep (p # q # ps) = p @ sep @ py_join sep (q # ps)"

text \<open>
  \<^verbatim>\<open>int(s)\<close> on an ASCII string: surrounding white space is stripped, one sign is
  allowed, and at least one decimal digit must follow. (Python also allows single
  underscores between digits; the script only parses a piece of a token that was split
  at underscores, so none can occur.)
\<close>

definition is_space :: "char \<Rightarrow> bool" where
  "is_space c = (c \<in> set [CHR '' '', CHR 0x09, CHR 0x0A, CHR 0x0B, CHR 0x0C, CHR 0x0D])"

definition is_digit :: "char \<Rightarrow> bool" where
  "is_digit c = (c \<in> set ''0123456789'')"

definition digit_val :: "char \<Rightarrow> nat" where
  "digit_val c = of_char c - 48"

definition strip :: "string \<Rightarrow> string" where
  "strip s = rev (dropWhile is_space (rev (dropWhile is_space s)))"

definition digits_val :: "string \<Rightarrow> nat" where
  "digits_val ds = foldl (\<lambda>n c. 10 * n + digit_val c) 0 ds"

definition py_int :: "string \<Rightarrow> error + int" where
  "py_int s =
     (let t = strip s;
          neg = (t \<noteq> [] \<and> hd t = CHR ''-'');
          ds = (if t \<noteq> [] \<and> (hd t = CHR ''-'' \<or> hd t = CHR ''+'') then tl t else t)
      in if ds \<noteq> [] \<and> list_all is_digit ds
         then Inr (if neg then - int (digits_val ds) else int (digits_val ds))
         else Inl (ValueError ''invalid literal for int()''))"

text \<open>The decimal rendering of an integer, as the engine casts a long to a string.\<close>

definition digit_char :: "nat \<Rightarrow> char" where
  "digit_char d = ''0123456789'' ! d"

fun str_nat :: "nat \<Rightarrow> string" where
  "str_nat n =
     (if n < 10 then [digit_char n] else str_nat (n div 10) @ [digit_char (n mod 10)])"

declare str_nat.simps [simp del]

definition str_int :: "int \<Rightarrow> string" where
  "str_int i = (if i < 0 then CHR ''-'' # str_nat (nat (- i)) else str_nat (nat i))"

subsection \<open>Cells and frames\<close>

text \<open>
  A cell of a frame: SQL \<^verbatim>\<open>NULL\<close>, a string, an integer, a double (read as the
  real number it denotes), an array, or a struct with named fields. A frame is its list
  of column names and its rows, each row holding one cell per column in the order of the
  column names; a row shorter than the list of names reads as \<^verbatim>\<open>NULL\<close> beyond its end.
  Column names are compared as written.
\<close>

datatype datum =
  Null
  | Str string
  | Long int
  | Dbl real
  | Arr "datum list"
  | Struct "(string \<times> datum) list"

record frame =
  schema :: "string list"
  rows :: "datum list list"

text \<open>
  A reference to a column, \<^verbatim>\<open>col("tmp.jd")\<close> or \<^verbatim>\<open>'prv_candidates.jd'\<close>: the name of a
  column of the frame and a path of field names into it.
\<close>

datatype colref = Ref string "string list"

definition col :: "string \<Rightarrow> colref" where
  "col name = (case split_from ''.'' [] name of [] \<Rightarrow> Ref name [] | c # path \<Rightarrow> Ref c path)"

definition ref_name :: "colref \<Rightarrow> string" where
  "ref_name x = (case x of Ref c path \<Rightarrow> last (c # path))"

definition ref_column :: "colref \<Rightarrow> string" where
  "ref_column x = (case x of Ref c path \<Rightarrow> c)"

text \<open>A name resolves when exactly one column of the frame carries it.\<close>

definition resolve :: "string list \<Rightarrow> string \<Rightarrow> error + unit" where
  "resolve cs c =
     (if c \<notin> set cs then Inl (AnalysisException (''cannot resolve '' @ c))
      else if 1 < count_list cs c then Inl (AnalysisException (''ambiguous reference '' @ c))
      else Inr ())"

definition cell :: "string list \<Rightarrow> datum list \<Rightarrow> string \<Rightarrow> datum" where
  "cell cs r c = (case map_of (zip cs r) c of None \<Rightarrow> Null | Some v \<Rightarrow> v)"

text \<open>
  A field of a struct; of an array of structs it is the array of the field's values. A
  field of \<^verbatim>\<open>NULL\<close> is \<^verbatim>\<open>NULL\<close>.
\<close>

definition struct_field :: "string \<Rightarrow> datum \<Rightarrow> error + datum" where
  "struct_field f v =
     (case v of
        Null \<Rightarrow> Inr Null
      | Struct kv \<Rightarrow>
          (case map_of kv f of
             None \<Rightarrow> Inl (AnalysisException (''no such struct field '' @ f))
           | Some w \<Rightarrow> Inr w)
      | _ \<Rightarrow> Inl (AnalysisException (''cannot extract field '' @ f)))"

definition get_field :: "string \<Rightarrow> datum \<Rightarrow> error + datum" where
  "get_field f v =
     (case v of
        Arr vs \<Rightarrow> (case emap (struct_field f) vs of Inl e \<Rightarrow> Inl e | Inr ws \<Rightarrow> Inr (Arr ws))
      | _ \<Rightarrow> struct_field f v)"

fun get_path :: "datum \<Rightarrow> string list \<Rightarrow> error + datum" where
  "get_path v [] = Inr v"
| "get_path v (f # fs) = (case get_field f v of Inl e \<Rightarrow> Inl e | Inr w \<Rightarrow> get_path w fs)"

definition ref_value :: "string list \<Rightarrow> datum list \<Rightarrow> colref \<Rightarrow> error + datum" where
  "ref_value cs r x =
     (case x of Ref c path \<Rightarrow>
        (case resolve cs c of Inl e \<Rightarrow> Inl e | Inr u \<Rightarrow> get_path (cell cs r c) path))"

subsection \<open>The engine's column functions\<close>

text \<open>
  \<^verbatim>\<open>concat_ws(sep, *cols)\<close>: every argument is cast to a string (or, an array, to its
  elements' strings), \<^verbatim>\<open>NULL\<close>s are skipped, and what is left is joined with the
  separator. The rendering of a double is the engine's, \<open>shw\<close>.
\<close>

fun scalar_parts :: "(real \<Rightarrow> string) \<Rightarrow> datum \<Rightarrow> error + string list" where
  "scalar_parts shw Null = Inr []"
| "scalar_parts shw (Str s) = Inr [s]"
| "scalar_parts shw (Long n) = Inr [str_int n]"
| "scalar_parts shw (Dbl x) = Inr [shw x]"
| "scalar_parts shw (Arr vs) = Inl (AnalysisException ''concat_ws: data type mismatch'')"
| "scalar_parts shw (Struct kv) = Inl (AnalysisException ''concat_ws: data type mismatch'')"

definition ws_parts :: "(real \<Rightarrow> string) \<Rightarrow> datum \<Rightarrow> error + string list" where
  "ws_parts shw v =
     (case v of
        Arr vs \<Rightarrow> (case emap (scalar_parts shw) vs of Inl e \<Rightarrow> Inl e | Inr ps \<Rightarrow> Inr (concat ps))
      | _ \<Rightarrow> scalar_parts shw v)"

definition concat_ws :: "(real \<Rightarrow> string) \<Rightarrow> string \<Rightarrow> datum list \<Rightarrow> error + datum" where
  "concat_ws shw sep vs =
     (case emap (ws_parts shw) vs of
        Inl e \<Rightarrow> Inl e
      | Inr ps \<Rightarrow> Inr (Str (py_join sep (concat ps))))"

text \<open>
  What \<^verbatim>\<open>select\<close> is given: a column by reference, or
  \<^verbatim>\<open>concat_ws(sep, *cols).alias(name)\<close>.
\<close>

datatype item = Col colref | ConcatWs string "colref list" string

definition item_name :: "item \<Rightarrow> string" where
  "item_name it = (case it of Col x \<Rightarrow> ref_name x | ConcatWs sep xs name \<Rightarrow> name)"

definition item_refs :: "item \<Rightarrow> colref list" where
  "item_refs it = (case it of Col x \<Rightarrow> [x] | ConcatWs sep xs name \<Rightarrow> xs)"

definition item_value ::
  "(real \<Rightarrow> string) \<Rightarrow> string list \<Rightarrow> datum list \<Rightarrow> item \<Rightarrow> error + datum" where
  "item_value shw cs r it =
     (case it of
        Col x \<Rightarrow> ref_value cs r x
      | ConcatWs sep xs name \<Rightarrow>
          (case emap (ref_value cs r) xs of Inl e \<Rightarrow> Inl e | Inr vs \<Rightarrow> concat_ws shw sep vs))"

text \<open>
  \<^verbatim>\<open>df.select(items)\<close>: the references are resolved against the frame's columns
  first (so a missing column fails on a frame with no rows too), then every row is
  projected.
\<close>

definition select :: "(real \<Rightarrow> string) \<Rightarrow> item list \<Rightarrow> frame \<Rightarrow> error + frame" where
  "select shw items f =
     (case emap (\<lambda>x. resolve (schema f) (ref_column x)) (concat (map item_refs items)) of
        Inl e \<Rightarrow> Inl e
      | Inr us \<Rightarrow>
          (case emap (\<lambda>r. emap (item_value shw (schema f) r) items) (rows f) of
             Inl e \<Rightarrow> Inl e
           | Inr rs \<Rightarrow> Inr \<lparr>schema = map item_name items, rows = rs\<rparr>))"

text \<open>
  \<^verbatim>\<open>df.withColumn(c, values)\<close>, the new cells given row by row: a column of that name
  is replaced, otherwise the column is appended.
\<close>

definition put_cell :: "string list \<Rightarrow> string \<Rightarrow> datum \<Rightarrow> datum list \<Rightarrow> datum list" where
  "put_cell cs c v r = map (\<lambda>(n, x). if n = c then v else x) (zip cs r)"

definition attach_cell :: "string list \<Rightarrow> string \<Rightarrow> datum \<Rightarrow> datum list \<Rightarrow> datum list" where
  "attach_cell cs c v r = (if c \<in> set cs then put_cell cs c v r else r @ [v])"

definition withColumn :: "string \<Rightarrow> datum list \<Rightarrow> frame \<Rightarrow> frame" where
  "withColumn c vs f =
     \<lparr>schema = (if c \<in> set (schema f) then schema f else schema f @ [c]),
      rows = map (\<lambda>(r, v). attach_cell (schema f) c v r) (zip (rows f) vs)\<rparr>"

text \<open>\<^verbatim>\<open>df.drop(*cs)\<close>: every column carrying one of the names goes; other names are ignored.\<close>

definition drop_cols :: "string list \<Rightarrow> frame \<Rightarrow> frame" where
  "drop_cols cs f =
     \<lparr>schema = filter (\<lambda>n. n \<notin> set cs) (schema f),
      rows = map (\<lambda>r. map snd (filter (\<lambda>(n, x). n \<notin> set cs) (zip (schema f) r))) (rows f)\<rparr>"

text \<open>
  \<^verbatim>\<open>df.filter(cond)\<close>: a row is kept when the condition is true on it; a condition that
  is \<^verbatim>\<open>NULL\<close> (\<open>None\<close>) drops the row, as a false one does.
\<close>

definition filter_rows :: "(datum list \<Rightarrow> error + bool option) \<Rightarrow> frame \<Rightarrow> error + frame" where
  "filter_rows cond f =
     (case emap cond (rows f) of
        Inl e \<Rightarrow> Inl e
      | Inr bs \<Rightarrow> Inr (f\<lparr>rows := map fst (filter (\<lambda>(r, b). b = Some True) (zip (rows f) bs))\<rparr>))"

text \<open>
  The comparisons the script filters by. A string column against a string literal, an
  integer (or double) column against an integer literal; a \<^verbatim>\<open>NULL\<close> cell makes the
  comparison \<^verbatim>\<open>NULL\<close>. The alert schema has \<^verbatim>\<open>tracklet\<close> a string and \<^verbatim>\<open>roid\<close> an
  integer; the engine's coercions between strings and numbers are not written out, and a
  cell of another type is refused.
\<close>

definition neq_str :: "datum \<Rightarrow> string \<Rightarrow> error + bool option" where
  "neq_str v s =
     (case v of
        Null \<Rightarrow> Inr None
      | Str t \<Rightarrow> Inr (Some (t \<noteq> s))
      | _ \<Rightarrow> Inl (AnalysisException ''data type mismatch''))"

definition eq_long :: "datum \<Rightarrow> int \<Rightarrow> error + bool option" where
  "eq_long v k =
     (case v of
        Null \<Rightarrow> Inr None
      | Long n \<Rightarrow> Inr (Some (n = k))
      | Dbl x \<Rightarrow> Inr (Some (x = of_int k))
      | _ \<Rightarrow> Inl (AnalysisException ''data type mismatch''))"

definition isNotNull :: "datum \<Rightarrow> bool" where
  "isNotNull v = (v \<noteq> Null)"

text \<open>
  \<^verbatim>\<open>arrays_zip(*cols)\<close>: \<^verbatim>\<open>NULL\<close> when one of the arrays is; otherwise the array of
  structs, one per position up to the longest array, a shorter array giving
  \<^verbatim>\<open>NULL\<close> fields. The fields are named after the columns.
\<close>

definition arr_elems :: "datum \<Rightarrow> error + datum list option" where
  "arr_elems v =
     (case v of
        Null \<Rightarrow> Inr None
      | Arr vs \<Rightarrow> Inr (Some vs)
      | _ \<Rightarrow> Inl (AnalysisException ''data type mismatch''))"

definition nth_or_null :: "datum list \<Rightarrow> nat \<Rightarrow> datum" where
  "nth_or_null vs j = (if j < length vs then vs ! j else Null)"

definition arrays_zip :: "string list \<Rightarrow> datum list \<Rightarrow> error + datum" where
  "arrays_zip names vs =
     (case emap arr_elems vs of
        Inl e \<Rightarrow> Inl e
      | Inr os \<Rightarrow>
          if None \<in> set os then Inr Null
          else
            (let as = map the os; n = foldr max (map length as) 0
             in Inr (Arr (map (\<lambda>j. Struct (zip names (map (\<lambda>a. nth_or_null a j) as))) [0..<n]))))"

text \<open>
  \<^verbatim>\<open>df.withColumn(c, explode(c))\<close>: one row per element of the array in column \<open>c\<close>,
  the element in place of the array; a \<^verbatim>\<open>NULL\<close> or empty array gives no row.
\<close>

definition explode :: "string \<Rightarrow> frame \<Rightarrow> error + frame" where
  "explode c f =
     (case resolve (schema f) c of
        Inl e \<Rightarrow> Inl e
      | Inr u \<Rightarrow>
          (case emap (\<lambda>r. case cell (schema f) r c of
                             Null \<Rightarrow> Inr []
                           | Arr es \<Rightarrow> Inr (map (\<lambda>e. put_cell (schema f) c e r) es)
                           | _ \<Rightarrow> Inl (AnalysisException ''data type mismatch''))
                  (rows f) of
             Inl e \<Rightarrow> Inl e
           | Inr rss \<Rightarrow> Inr (f\<lparr>rows := concat rss\<rparr>)))"

subsection \<open>The script's arguments and collaborators\<close>

text \<open>The command-line arguments the script reads (\<^verbatim>\<open>getargs\<close>).\<close>

record args =
  index_table :: string
  night :: string
  agg_data_prefix :: string
  science_db_name :: string
  science_db_catalogs :: string
  tns_folder :: string

text \<open>A row of the downloaded catalogue: the columns the cross-match reads.\<close>

record tns_entry =
  tns_ra :: datum
  tns_declination :: datum
  tns_type :: "string option"

text \<open>
  What the script calls and does not define. \<open>portal_select\<close> is
  \<^verbatim>\<open>df.select(cols_i + cols_d + cols_b)\<close> for the three lists of
  \<^verbatim>\<open>load_science_portal_column_names()\<close>, and \<open>assign_column_family_names\<close> the
  column families computed from the same lists. \<open>match_to_catalog_sky env a b\<close> is
  \<^verbatim>\<open>a.match_to_catalog_sky(b)\<close> on two lists of (ra, dec) positions: for every
  position of \<open>a\<close> the index of the nearest position of \<open>b\<close> and the angular separation
  in degrees. \<open>arrow_batch_sizes\<close> gives, for a number of rows, the sizes of the
  batches the engine cuts them into for a vectorised user function.
\<close>

record env =
  load_parquet_files :: "string \<Rightarrow> error + frame"
  portal_select :: "frame \<Rightarrow> error + frame"
  assign_column_family_names :: "frame \<Rightarrow> error + (string \<times> string) list"
  attach_rowkey :: "frame \<Rightarrow> error + frame"
  ang2pix :: "datum \<Rightarrow> datum \<Rightarrow> int \<Rightarrow> error + datum"
  extract_fink_classification :: "datum list \<Rightarrow> error + datum"
  show_double :: "real \<Rightarrow> string"
  read_file :: "string \<Rightarrow> error + string"
  environ :: "string \<Rightarrow> string option"
  download_catalog :: "string \<Rightarrow> string \<Rightarrow> error + tns_entry list"
  match_to_catalog_sky ::
    "(datum \<times> datum) list \<Rightarrow> (datum \<times> datum) list \<Rightarrow> error + (nat \<times> real) list"
  arrow_batch_sizes :: "nat \<Rightarrow> nat list"

text \<open>
  The batches of a frame's rows: consecutive runs of the rows, in order, each of at
  least one row and of the size the engine chose (a size of 0 cuts one row); the rows
  left when the sizes are used up are one last batch.
\<close>

fun cut :: "nat list \<Rightarrow> 'a list \<Rightarrow> 'a list list" where
  "cut ns [] = []"
| "cut [] (x # xs) = [x # xs]"
| "cut (n # ns) (x # xs) = (x # take (n - 1) xs) # cut ns (drop (n - 1) xs)"

definition arrow_batches :: "env \<Rightarrow> datum list list \<Rightarrow> datum list list list" where
  "arrow_batches env rs = cut (arrow_batch_sizes env (length rs)) rs"

text \<open>The arguments \<^verbatim>\<open>push_to_hbase\<close> is called with: the result of a run.\<close>

record push_call =
  push_df :: frame
  table_name :: string
  rowkeyname :: string
  cf :: "(string \<times> string) list"
  catfolder :: string

subsection \<open>The script\<close>

definition data_path :: "args \<Rightarrow> string" where
  "data_path a =
     agg_data_prefix a @ ''/science/year='' @ take 4 (night a)
       @ ''/month='' @ take 2 (drop 4 (night a))
       @ ''/day='' @ take 2 (drop 6 (night a))"

definition common_cols :: "string list" where
  "common_cols =
     [''objectId'', ''candid'', ''publisher'', ''rcid'', ''chipsf'', ''distnr'',
      ''ra'', ''dec'', ''jd'', ''fid'', ''nid'', ''field'', ''xpos'', ''ypos'', ''rb'',
      ''ssdistnr'', ''ssmagnr'', ''ssnamenr'', ''jdstarthist'', ''jdendhist'', ''tooflag'',
      ''sgscore1'', ''distpsnr1'', ''neargaia'', ''maggaia'', ''nmtchps'', ''diffmaglim'',
      ''magpsf'', ''sigmapsf'', ''magnr'', ''sigmagnr'', ''magzpsci'', ''isdiffpos'',
      ''cdsxmatch'',
      ''roid'',
      ''mulens'',
      ''DR3Name'',
      ''Plx'',
      ''e_Plx'',
      ''gcvs'',
      ''vsx'',
      ''snn_snia_vs_nonia'', ''snn_sn_vs_all'', ''rf_snia_vs_nonia'',
      ''classtar'', ''drb'', ''ndethist'', ''rf_kn_vs_nonkn'', ''tracklet'']"

text \<open>
  The restriction of the input to the wanted columns, lines 91 to 101: the test is
  \<^verbatim>\<open>'upper' in args.index_table\<close>, on the whole identifier.
\<close>

definition upper_cols :: "item list" where
  "upper_cols =
     [Col (col ''objectId''),
      Col (col ''prv_candidates.jd''),
      Col (col ''prv_candidates.fid''),
      Col (col ''prv_candidates.magpsf''),
      Col (col ''prv_candidates.sigmapsf''),
      Col (col ''prv_candidates.diffmaglim'')]"

definition restrict_columns :: "env \<Rightarrow> string \<Rightarrow> frame \<Rightarrow> error + frame" where
  "restrict_columns env index_table_name df =
     (if py_in ''upper'' index_table_name then select (show_double env) upper_cols df
      else portal_select env df)"

text \<open>
  \<^verbatim>\<open>[concat_ws('_', *names).alias(index_row_key_name)] + cols\<close>, with
  \<^verbatim>\<open>names = [col(i) for i in columns]\<close>.
\<close>

definition key_and :: "string \<Rightarrow> string list \<Rightarrow> string list \<Rightarrow> item list" where
  "key_and index_row_key_name columns cols =
     ConcatWs ''_'' (map col columns) index_row_key_name # map (\<lambda>c. Col (col c)) cols"

text \<open>The value of \<^verbatim>\<open>concat_ws('_', *names)\<close> on one row of a frame with columns \<open>cs\<close>.\<close>

definition row_key ::
  "(real \<Rightarrow> string) \<Rightarrow> string list \<Rightarrow> string list \<Rightarrow> datum list \<Rightarrow> error + datum" where
  "row_key shw cs columns r =
     ebind (emap (ref_value cs r) (map col columns)) (concat_ws shw ''_'')"

text \<open>
  The pixel branch, lines 124 to 138: the frame with the pixel column attached, then the
  projection.
\<close>

definition pixel_source :: "env \<Rightarrow> string list \<Rightarrow> frame \<Rightarrow> error + frame" where
  "pixel_source env columns df =
     ebind (py_split (hd columns) ''pixel'') (\<lambda>pieces.
     ebind (case pieces of a # b # others \<Rightarrow> py_int b
            | _ \<Rightarrow> Inl (IndexError ''list index out of range'')) (\<lambda>nside.
     ebind (resolve (schema df) ''ra'') (\<lambda>u.
     ebind (resolve (schema df) ''dec'') (\<lambda>u.
     ebind (emap (\<lambda>r. ang2pix env (cell (schema df) r ''ra'') (cell (schema df) r ''dec'') nside)
              (rows df)) (\<lambda>pix.
     Inr (withColumn (hd columns) pix df))))))"

definition pixel_index ::
  "env \<Rightarrow> string \<Rightarrow> string list \<Rightarrow> frame \<Rightarrow> error + frame" where
  "pixel_index env index_row_key_name columns df =
     ebind (pixel_source env columns df)
       (select (show_double env) (key_and index_row_key_name columns [''objectId'']))"

text \<open>The classification branch, lines 139 to 161: the columns handed to the classifier.\<close>

definition class_inputs :: "string list" where
  "class_inputs =
     [''cdsxmatch'', ''roid'', ''mulens'', ''snn_snia_vs_nonia'', ''snn_sn_vs_all'',
      ''rf_snia_vs_nonia'', ''ndethist'', ''drb'', ''classtar'', ''jd'', ''jdstarthist'',
      ''rf_kn_vs_nonkn'', ''tracklet'']"

definition class_source :: "env \<Rightarrow> frame \<Rightarrow> error + frame" where
  "class_source env df =
     ebind (emap (resolve (schema df)) class_inputs) (\<lambda>us.
     ebind (emap (\<lambda>r. extract_fink_classification env (map (cell (schema df) r) class_inputs))
              (rows df)) (\<lambda>labels.
     Inr (withColumn ''class'' labels df)))"

definition class_index ::
  "env \<Rightarrow> string \<Rightarrow> string list \<Rightarrow> frame \<Rightarrow> error + frame" where
  "class_index env index_row_key_name columns df =
     ebind (class_source env df)
       (select (show_double env) (key_and index_row_key_name columns common_cols))"

text \<open>The minor-planet branch, lines 162 to 170.\<close>

definition ssnamenr_source :: "frame \<Rightarrow> error + frame" where
  "ssnamenr_source df =
     ebind (resolve (schema df) ''roid'') (\<lambda>u.
     filter_rows (\<lambda>r. eq_long (cell (schema df) r ''roid'') 3) df)"

definition ssnamenr_index ::
  "env \<Rightarrow> string \<Rightarrow> string list \<Rightarrow> frame \<Rightarrow> error + frame" where
  "ssnamenr_index env index_row_key_name columns df =
     ebind (ssnamenr_source df)
       (select (show_double env) (key_and index_row_key_name columns common_cols))"

text \<open>The tracklet branch, lines 171 to 181.\<close>

definition tracklet_source :: "frame \<Rightarrow> error + frame" where
  "tracklet_source df =
     ebind (resolve (schema df) ''tracklet'') (\<lambda>u.
     ebind (filter_rows (\<lambda>r. neq_str (cell (schema df) r ''tracklet'') ''null'') df) (\<lambda>df1.
     filter_rows (\<lambda>r. neq_str (cell (schema df) r ''tracklet'') []) df1))"

definition tracklet_index ::
  "env \<Rightarrow> string \<Rightarrow> string list \<Rightarrow> frame \<Rightarrow> error + frame" where
  "tracklet_index env index_row_key_name columns df =
     ebind (tracklet_source df)
       (select (show_double env) (key_and index_row_key_name columns common_cols))"

text \<open>
  The history exploded to one row per earlier detection: the statement the branches
  \<^verbatim>\<open>upper\<close> (lines 187 to 198) and \<^verbatim>\<open>uppervalid\<close> (lines 209 to 220) both run.
\<close>

definition history_cols :: "string list" where
  "history_cols = [''magpsf'', ''sigmapsf'', ''diffmaglim'', ''jd'', ''fid'']"

definition exploded_key :: "colref list" where
  "exploded_key = [col ''objectId'', col ''tmp.jd'']"

definition exploded_items :: "item list" where
  "exploded_items =
     [ConcatWs ''_'' exploded_key ''objectId_jd'',
      Col (col ''objectId''),
      Col (col ''tmp.jd''),
      Col (col ''tmp.fid''),
      Col (col ''tmp.magpsf''),
      Col (col ''tmp.sigmapsf''),
      Col (col ''tmp.diffmaglim'')]"

definition exploded_source :: "frame \<Rightarrow> error + frame" where
  "exploded_source df =
     ebind (emap (resolve (schema df)) history_cols) (\<lambda>us.
     ebind (emap (\<lambda>r. arrays_zip history_cols (map (cell (schema df) r) history_cols))
              (rows df)) (\<lambda>tmp.
     explode ''tmp'' (withColumn ''tmp'' tmp df)))"

definition explode_history :: "env \<Rightarrow> frame \<Rightarrow> error + frame" where
  "explode_history env df =
     ebind (exploded_source df) (select (show_double env) exploded_items)"

definition upper_index :: "env \<Rightarrow> frame \<Rightarrow> error + frame" where
  "upper_index env df =
     ebind (explode_history env df) (\<lambda>df_ex.
     ebind (resolve (schema df_ex) ''magpsf'') (\<lambda>u.
     ebind (filter_rows (\<lambda>r. Inr (Some (\<not> isNotNull (cell (schema df_ex) r ''magpsf'')))) df_ex)
       (\<lambda>df_index.
     Inr (drop_cols [''magpsf'', ''sigmapsf''] df_index))))"

definition uppervalid_index :: "env \<Rightarrow> frame \<Rightarrow> error + frame" where
  "uppervalid_index env df =
     ebind (explode_history env df) (\<lambda>df_ex.
     ebind (resolve (schema df_ex) ''magpsf'') (\<lambda>u.
     filter_rows (\<lambda>r. Inr (Some (isNotNull (cell (schema df_ex) r ''magpsf'')))) df_ex))"

text \<open>
  The cross-match with the catalogue, lines 236 to 275, on one batch: the columns
  \<^verbatim>\<open>objectId\<close>, \<^verbatim>\<open>ra\<close> and \<^verbatim>\<open>dec\<close> of the batch's rows. \<open>tns_label\<close> is the
  cell of \<^verbatim>\<open>sub_pdf['TNS']\<close> for one alert: the type of the nearest catalogue entry
  when the separation passes \<^verbatim>\<open>d2d2.degree < 1.5 / 3600\<close>, the empty string otherwise.
  \<open>to_return\<close> is the function applied to every object identifier: the label of the
  first row of the batch that carries this identifier. (A comparison of the identifiers
  with \<^verbatim>\<open>None\<close> selects no row, and \<^verbatim>\<open>.values[0]\<close> then fails.)
\<close>

definition tns_label :: "string option list \<Rightarrow> nat \<times> real \<Rightarrow> error + datum" where
  "tns_label type2 m =
     (case m of (idx2, d2d2) \<Rightarrow>
        if d2d2 < 1.5 / 3600
        then (if idx2 < length type2
              then Inr (case type2 ! idx2 of None \<Rightarrow> Null | Some t \<Rightarrow> Str t)
              else Inl (IndexError ''index out of bounds''))
        else Inr (Str []))"

definition to_return :: "(datum \<times> datum) list \<Rightarrow> datum \<Rightarrow> error + datum" where
  "to_return sub_pdf x =
     (if x \<notin> set (map fst sub_pdf) then Inr (Str [])
      else (case filter (\<lambda>(oid, label). x \<noteq> Null \<and> oid = x) sub_pdf of
              [] \<Rightarrow> Inl (IndexError ''index 0 is out of bounds'')
            | (oid, label) # others \<Rightarrow> Inr label))"

definition crossmatch_with_tns ::
  "env \<Rightarrow> tns_entry list \<Rightarrow> datum list \<Rightarrow> datum list \<Rightarrow> datum list \<Rightarrow> error + datum list" where
  "crossmatch_with_tns env pdf objectid ra dec =
     (let type2 = map tns_type pdf;
          catalog_ztf = zip ra dec;
          catalog_tns = zip (map tns_ra pdf) (map tns_declination pdf)
      in ebind (match_to_catalog_sky env catalog_tns catalog_ztf) (\<lambda>m1.
         ebind (match_to_catalog_sky env catalog_ztf catalog_tns) (\<lambda>m2.
         if length m2 \<noteq> length objectid then Inl (ValueError ''mask of another length'')
         else ebind (emap (tns_label type2) m2) (\<lambda>tns.
              emap (to_return (zip objectid tns)) objectid))))"

text \<open>
  The external-catalogue branch, lines 224 to 292: the catalogue, the frame with the
  label column attached, and the index view.
\<close>

definition tns_catalog :: "env \<Rightarrow> args \<Rightarrow> error + tns_entry list" where
  "tns_catalog env a =
     ebind (read_file env (tns_folder a @ ''/tns_marker.txt'')) (\<lambda>contents.
     let tns_marker = filter (\<lambda>c. c \<noteq> CHR 0x0A) contents in
     ebind (case environ env ''TNS_API_KEY'' of
              None \<Rightarrow> Inl (KeyError ''TNS_API_KEY'')
            | Some k \<Rightarrow> Inr k) (\<lambda>api_key.
     ebind (download_catalog env api_key tns_marker) (\<lambda>pdf_tns.
     Inr (filter (\<lambda>t. tns_type t \<noteq> None) pdf_tns))))"

definition tns_labels :: "env \<Rightarrow> tns_entry list \<Rightarrow> frame \<Rightarrow> error + datum list list" where
  "tns_labels env pdf_tns_filt df =
     emap (\<lambda>batch. crossmatch_with_tns env pdf_tns_filt
              (map (\<lambda>r. cell (schema df) r ''objectId'') batch)
              (map (\<lambda>r. cell (schema df) r ''ra'') batch)
              (map (\<lambda>r. cell (schema df) r ''dec'') batch))
       (arrow_batches env (rows df))"

definition tns_source :: "env \<Rightarrow> args \<Rightarrow> frame \<Rightarrow> error + frame" where
  "tns_source env a df =
     ebind (tns_catalog env a) (\<lambda>pdf_tns_filt.
     ebind (emap (resolve (schema df)) [''objectId'', ''ra'', ''dec'']) (\<lambda>us.
     ebind (tns_labels env pdf_tns_filt df) (\<lambda>labels.
     Inr (withColumn ''tns'' (concat labels) df))))"

definition tns_index ::
  "env \<Rightarrow> args \<Rightarrow> string \<Rightarrow> string list \<Rightarrow> frame \<Rightarrow> error + frame" where
  "tns_index env a index_row_key_name columns df =
     ebind (tns_source env a df) (\<lambda>labelled.
     ebind (select (show_double env)
              (key_and index_row_key_name columns (common_cols @ [''tns''])) labelled) (\<lambda>df1.
     ebind (resolve (schema df1) ''tns'') (\<lambda>u.
     ebind (filter_rows (\<lambda>r. neq_str (cell (schema df1) r ''tns'') []) df1) (\<lambda>kept.
     Inr (drop_cols [''tns''] kept)))))"

text \<open>The default branch, lines 293 to 298.\<close>

definition default_index ::
  "env \<Rightarrow> string \<Rightarrow> string list \<Rightarrow> frame \<Rightarrow> error + frame" where
  "default_index env index_row_key_name columns df =
     select (show_double env) (key_and index_row_key_name columns common_cols) df"

text \<open>
  The dispatch, lines 124 to 298, on the frame as it is after
  \<^verbatim>\<open>attach_rowkey\<close>: the index view and the name of its row-key column.
  \<open>first\<close> is \<^verbatim>\<open>columns[0]\<close>.
\<close>

definition first :: "string list \<Rightarrow> error + string" where
  "first columns =
     (case columns of [] \<Rightarrow> Inl (IndexError ''list index out of range'') | c # cs \<Rightarrow> Inr c)"

definition named :: "string \<Rightarrow> error + frame \<Rightarrow> error + frame \<times> string" where
  "named index_row_key_name res = ebind res (\<lambda>df_index. Inr (df_index, index_row_key_name))"

definition build_index :: "env \<Rightarrow> args \<Rightarrow> frame \<Rightarrow> error + frame \<times> string" where
  "build_index env a df =
     (let index_row_key_name = index_table a in
      ebind (py_split index_row_key_name ''_'') (\<lambda>columns.
      ebind (first columns) (\<lambda>c0.
      if startswith c0 ''pixel'' then
        named index_row_key_name (pixel_index env index_row_key_name columns df)
      else if c0 = ''class'' then
        named index_row_key_name (class_index env index_row_key_name columns df)
      else if c0 = ''ssnamenr'' then
        named index_row_key_name (ssnamenr_index env index_row_key_name columns df)
      else if c0 = ''tracklet'' then
        named index_row_key_name (tracklet_index env index_row_key_name columns df)
      else if c0 = ''upper'' then
        named ''objectId_jd'' (upper_index env df)
      else if c0 = ''uppervalid'' then
        named ''objectId_jd'' (uppervalid_index env df)
      else if c0 = ''tns'' then
        named index_row_key_name (tns_index env a index_row_key_name columns df)
      else
        named index_row_key_name (default_index env index_row_key_name columns df))))"

text \<open>
  The run, lines 50 to 306: the arguments of the call of \<^verbatim>\<open>push_to_hbase\<close>, or the
  error the run stops with.
\<close>

definition main :: "env \<Rightarrow> args \<Rightarrow> error + push_call" where
  "main env a =
     ebind (load_parquet_files env (data_path a)) (\<lambda>df0.
     let index_row_key_name = index_table a in
     ebind (py_split index_row_key_name ''_'') (\<lambda>columns.
     ebind (first columns) (\<lambda>c0.
     let index_name = ''.'' @ c0;
         df1 = drop_cols [''day''] (drop_cols [''month''] (drop_cols [''year''] df0)) in
     ebind (assign_column_family_names env df1) (\<lambda>families.
     ebind (restrict_columns env (index_table a) df1) (\<lambda>df2.
     ebind (attach_rowkey env df2) (\<lambda>df3.
     ebind (build_index env a df3) (\<lambda>(df_index, key_name).
     Inr \<lparr>push_df = df_index,
          table_name = science_db_name a @ index_name,
          rowkeyname = key_name,
          cf = families,
          catfolder = science_db_catalogs a\<rparr>)))))))"

subsection \<open>Words of the specification\<close>

text \<open>The first underscore-delimited token of an identifier.\<close>

definition first_token :: "string \<Rightarrow> string" where
  "first_token ident = takeWhile (\<lambda>c. c \<noteq> CHR ''_'') ident"

text \<open>
  The index kinds the specification lists, and the kind it gives an identifier's first
  token: \<^verbatim>\<open>pixel<N>\<close> is any token that starts with \<^verbatim>\<open>pixel\<close>, the other kinds are
  named by the whole token, and every other token is of the default kind.
\<close>

datatype kind = Pixel | Class | Ssnamenr | Tracklet | Upper | Uppervalid | Tns | Default

definition kind_of :: "string \<Rightarrow> kind" where
  "kind_of t =
     (if take 5 t = ''pixel'' then Pixel
      else if t = ''class'' then Class
      else if t = ''ssnamenr'' then Ssnamenr
      else if t = ''tracklet'' then Tracklet
      else if t = ''upper'' then Upper
      else if t = ''uppervalid'' then Uppervalid
      else if t = ''tns'' then Tns
      else Default)"

text \<open>
  The cut the cross-match makes on one batch, in the words of the amended claim C4: the
  matcher answers for every alert of the batch; the label recorded for an alert is the
  type of the catalogue entry nearest to it when that entry lies at a separation below
  1.5/3600 degrees, and the empty string otherwise; and where no two alerts of the batch
  carry the same object identifier, the label of an alert is the one recorded for it.
\<close>

definition labelled_within_tolerance ::
  "env \<Rightarrow> tns_entry list \<Rightarrow> datum list \<Rightarrow> datum list \<Rightarrow> datum list \<Rightarrow> datum list \<Rightarrow> bool" where
  "labelled_within_tolerance env pdf objectid ra dec labels =
     (\<exists>m2 recorded.
        match_to_catalog_sky env (zip ra dec) (zip (map tns_ra pdf) (map tns_declination pdf)) =
          Inr m2 \<and>
        length m2 = length objectid \<and> length recorded = length objectid \<and>
        length labels = length objectid \<and>
        (\<forall>i<length objectid.
           (snd (m2 ! i) < 1.5 / 3600 \<longrightarrow> fst (m2 ! i) < length pdf) \<and>
           recorded ! i =
             (if snd (m2 ! i) < 1.5 / 3600
              then (case tns_type (pdf ! fst (m2 ! i)) of None \<Rightarrow> Null | Some t \<Rightarrow> Str t)
              else Str [])) \<and>
        (distinct objectid \<longrightarrow> labels = recorded))"

text \<open>
  The row key and the fields it is built from. \<open>ref_key\<close> is
  \<^verbatim>\<open>concat_ws('_', *refs)\<close> on one row; \<open>key_parts\<close> are the strings every referenced
  column contributes to it (none for a \<^verbatim>\<open>NULL\<close>); \<open>plain_parts\<close> says that every
  column contributes exactly one string and that no string contains the separator.
  \<open>key_source\<close> is, for every kind, the frame whose rows the keys are computed from (the
  receiver of the last \<^verbatim>\<open>select\<close> that builds the key) and the columns the key is
  built from.
\<close>

definition ref_key ::
  "(real \<Rightarrow> string) \<Rightarrow> string list \<Rightarrow> colref list \<Rightarrow> datum list \<Rightarrow> error + datum" where
  "ref_key shw cs refs r = ebind (emap (ref_value cs r) refs) (concat_ws shw ''_'')"

definition key_parts ::
  "(real \<Rightarrow> string) \<Rightarrow> string list \<Rightarrow> colref list \<Rightarrow> datum list \<Rightarrow> error + string list list" where
  "key_parts shw cs refs r = emap (\<lambda>x. ebind (ref_value cs r x) (ws_parts shw)) refs"

definition plain_parts :: "string list list \<Rightarrow> bool" where
  "plain_parts ps = list_all (\<lambda>p. case p of [s] \<Rightarrow> CHR ''_'' \<notin> set s | _ \<Rightarrow> False) ps"

definition key_source :: "env \<Rightarrow> args \<Rightarrow> frame \<Rightarrow> error + frame \<times> colref list" where
  "key_source env a df =
     (let columns = split_from ''_'' [] (index_table a) in
      case kind_of (first_token (index_table a)) of
        Pixel \<Rightarrow> ebind (pixel_source env columns df) (\<lambda>src. Inr (src, map col columns))
      | Class \<Rightarrow> ebind (class_source env df) (\<lambda>src. Inr (src, map col columns))
      | Ssnamenr \<Rightarrow> ebind (ssnamenr_source df) (\<lambda>src. Inr (src, map col columns))
      | Tracklet \<Rightarrow> ebind (tracklet_source df) (\<lambda>src. Inr (src, map col columns))
      | Upper \<Rightarrow> ebind (exploded_source df) (\<lambda>src. Inr (src, exploded_key))
      | Uppervalid \<Rightarrow> ebind (exploded_source df) (\<lambda>src. Inr (src, exploded_key))
      | Tns \<Rightarrow> ebind (tns_source env a df) (\<lambda>src. Inr (src, map col columns))
      | Default \<Rightarrow> Inr (df, map col columns))"

subsection \<open>An example night\<close>

text \<open>
  Collaborators to run the script on: a pixelisation that answers pixel 64270 everywhere,
  a classifier that answers one label, a store that holds one frame, identity for the
  portal projection and the row-key attachment, one batch per frame, and a sky matcher
  given as a table of the separations it reports.
\<close>

definition example_env :: "frame \<Rightarrow> (nat \<times> real) list \<Rightarrow> env" where
  "example_env night_frame separations =
     \<lparr>load_parquet_files = (\<lambda>path. Inr night_frame),
      portal_select = (\<lambda>df. Inr df),
      assign_column_family_names = (\<lambda>df. Inr []),
      attach_rowkey = (\<lambda>df. Inr df),
      ang2pix = (\<lambda>ra dec nside. Inr (Long 64270)),
      extract_fink_classification = (\<lambda>inputs. Inr (Str ''SN candidate'')),
      show_double = (\<lambda>x. str_int (floor x)),
      read_file = (\<lambda>path. Inr ''marker''),
      environ = (\<lambda>name. Some ''key''),
      download_catalog = (\<lambda>api_key marker.
        Inr [\<lparr>tns_ra = Dbl 10, tns_declination = Dbl 20, tns_type = Some ''SN Ia''\<rparr>]),
      match_to_catalog_sky = (\<lambda>a b. Inr (take (length a) separations)),
      arrow_batch_sizes = (\<lambda>n. [])\<rparr>"

definition example_args :: "string \<Rightarrow> args" where
  "example_args kind =
     \<lparr>index_table = kind,
      night = ''20211011'',
      agg_data_prefix = ''/data'',
      science_db_name = ''ztf'',
      science_db_catalogs = ''/catalogs'',
      tns_folder = ''/tns''\<rparr>"

text \<open>One alert at ra = 10.0, dec = 20.0.\<close>

definition one_alert :: frame where
  "one_alert =
     \<lparr>schema = [''objectId'', ''ra'', ''dec''],
      rows = [[Str ''ZTF21abcdefg'', Dbl 10, Dbl 20]]\<rparr>"

text \<open>One object with two earlier detections: an upper limit and a measurement.\<close>

definition one_history :: frame where
  "one_history =
     \<lparr>schema = [''objectId'', ''prv_candidates''],
      rows =
        [[Str ''ZTF21abcdefg'',
          Arr [Struct [(''jd'', Dbl 2459490), (''fid'', Long 1), (''magpsf'', Null),
                       (''sigmapsf'', Null), (''diffmaglim'', Dbl 20)],
               Struct [(''jd'', Dbl 2459495), (''fid'', Long 2), (''magpsf'', Dbl 18),
                       (''sigmapsf'', Dbl 1), (''diffmaglim'', Dbl 21)]]]]\<rparr>"

text \<open>The same object after the restriction to the history columns.\<close>

definition narrowed_history :: frame where
  "narrowed_history =
     \<lparr>schema = [''objectId'', ''jd'', ''fid'', ''magpsf'', ''sigmapsf'', ''diffmaglim''],
      rows = [[Str ''ZTF21abcdefg'', Arr [Dbl 2459490, Dbl 2459495], Arr [Long 1, Long 2],
               Arr [Null, Dbl 18], Arr [Null, Dbl 1], Arr [Dbl 20, Dbl 21]]]\<rparr>"

text \<open>
  A night of four alerts with all the columns of the common projection; the columns not
  listed are \<^verbatim>\<open>NULL\<close>. The first two alerts are of the same object, one and two
  arcseconds north of the catalogue entry of \<open>example_env\<close>.
\<close>

definition alert_row :: "(string \<times> datum) list \<Rightarrow> datum list" where
  "alert_row kv = map (\<lambda>c. case map_of kv c of None \<Rightarrow> Null | Some v \<Rightarrow> v) common_cols"

definition alert1 :: "(string \<times> datum) list" where
  "alert1 =
     [(''objectId'', Str ''ZTF21aaaaaaa''), (''candid'', Long 1), (''ra'', Dbl 10),
      (''dec'', Dbl (20 + 1 / 3600)), (''jd'', Dbl 2459499), (''ssnamenr'', Str ''1234''),
      (''roid'', Long 3), (''tracklet'', Str ''TRCK_20211011_103000_00'')]"

definition alert2 :: "(string \<times> datum) list" where
  "alert2 =
     [(''objectId'', Str ''ZTF21aaaaaaa''), (''candid'', Long 2), (''ra'', Dbl 10),
      (''dec'', Dbl (20 + 2 / 3600)), (''jd'', Dbl 2459500), (''ssnamenr'', Str ''null''),
      (''roid'', Long 0), (''tracklet'', Str [])]"

definition alert3 :: "(string \<times> datum) list" where
  "alert3 =
     [(''objectId'', Str ''ZTF21bbbbbbb''), (''candid'', Long 3), (''ra'', Dbl 50),
      (''dec'', Dbl 5), (''jd'', Dbl 2459501), (''ssnamenr'', Str ''null''),
      (''roid'', Long 2), (''tracklet'', Str ''null'')]"

definition alert4 :: "(string \<times> datum) list" where
  "alert4 =
     [(''objectId'', Str ''ZTF21ccccccc''), (''candid'', Long 4), (''ra'', Dbl 60),
      (''dec'', Dbl 6), (''jd'', Dbl 2459502)]"

definition example_night :: frame where
  "example_night =
     \<lparr>schema = common_cols,
      rows = [alert_row alert1, alert_row alert2, alert_row alert3, alert_row alert4]\<rparr>"

text \<open>The same night without the second alert: every alert is of an object of its own.\<close>

definition single_visits :: frame where
  "single_visits =
     \<lparr>schema = common_cols,
      rows = [alert_row alert1, alert_row alert3, alert_row alert4]\<rparr>"

text \<open>
  A night on which keys collide: the key columns of the four alerts are pairwise
  different, a \<^verbatim>\<open>NULL\<close> is skipped in the first two, and an underscore inside a value
  reads as the separator in the last two.
\<close>

definition collide1 :: "(string \<times> datum) list" where
  "collide1 = [(''objectId'', Str ''ZTF21aaaaaaa''), (''candid'', Long 1), (''gcvs'', Str ''RRAB'')]"

definition collide2 :: "(string \<times> datum) list" where
  "collide2 = [(''objectId'', Str ''ZTF21bbbbbbb''), (''candid'', Long 2), (''cdsxmatch'', Str ''RRAB'')]"

definition collide3 :: "(string \<times> datum) list" where
  "collide3 =
     [(''objectId'', Str ''ZTF21ccccccc''), (''candid'', Long 3),
      (''cdsxmatch'', Str ''Candidate_EB*''), (''gcvs'', Str ''EA'')]"

definition collide4 :: "(string \<times> datum) list" where
  "collide4 =
     [(''objectId'', Str ''ZTF21ddddddd''), (''candid'', Long 4),
      (''cdsxmatch'', Str ''Candidate''), (''gcvs'', Str ''EB*_EA'')]"

definition colliding_night :: frame where
  "colliding_night =
     \<lparr>schema = common_cols,
      rows = [alert_row collide1, alert_row collide2, alert_row collide3, alert_row collide4]\<rparr>"

section \<open>Properties\<close>

subsection \<open>Errors and strings\<close>

lemma str_nat_example: "str_nat 64270 = ''64270''"
  by (simp add: str_nat.simps digit_char_def)

lemma py_int_example: "py_int ''128'' = Inr 128"
  by code_simp

lemma py_split_example: "py_split ''pixel128_jd_objectId'' ''_'' = Inr [''pixel128'', ''jd'', ''objectId'']"
  by code_simp

lemma ebind_Inr_iff: "ebind m f = Inr y \<longleftrightarrow> (\<exists>x. m = Inr x \<and> f x = Inr y)"
  by (cases m) (simp_all add: ebind_def)

lemma ebind_Inr [simp]: "ebind (Inr x) f = f x"
  by (simp add: ebind_def)

lemma ebind_Inl [simp]: "ebind (Inl e) f = Inl e"
  by (simp add: ebind_def)

lemma hd_split_from:
  "hd (split_from [c] acc s) = acc @ takeWhile (\<lambda>x. x \<noteq> c) s"
  by (induction s arbitrary: acc) simp_all

lemma split_from_nonempty: "split_from sep acc s \<noteq> []"
  by (induction sep acc s rule: split_from.induct) simp_all

lemma first_columns:
  "py_split ident ''_'' = Inr columns \<Longrightarrow> first columns = Inr (first_token ident)"
  using hd_split_from [of "CHR ''_''" "[]" ident] split_from_nonempty [of "''_''" "[]" ident]
  by (auto simp: py_split_def first_def first_token_def split: list.splits)

subsection \<open>The dispatch and the names of the output\<close>

lemma named_Inr_iff: "named k res = Inr (out, k') \<longleftrightarrow> res = Inr out \<and> k' = k"
  by (cases res) (auto simp: named_def)

lemma build_index_unfold:
  "build_index env a df =
     (let name = index_table a; columns = split_from ''_'' [] name; c0 = first_token name in
      if startswith c0 ''pixel'' then named name (pixel_index env name columns df)
      else if c0 = ''class'' then named name (class_index env name columns df)
      else if c0 = ''ssnamenr'' then named name (ssnamenr_index env name columns df)
      else if c0 = ''tracklet'' then named name (tracklet_index env name columns df)
      else if c0 = ''upper'' then named ''objectId_jd'' (upper_index env df)
      else if c0 = ''uppervalid'' then named ''objectId_jd'' (uppervalid_index env df)
      else if c0 = ''tns'' then named name (tns_index env a name columns df)
      else named name (default_index env name columns df))"
proof -
  have s: "py_split (index_table a) ''_'' = Inr (split_from ''_'' [] (index_table a))"
    by (simp add: py_split_def)
  have f: "first (split_from ''_'' [] (index_table a)) = Inr (first_token (index_table a))"
    using first_columns [OF s] .
  show ?thesis
    unfolding build_index_def Let_def s f ebind_Inr ..
qed

lemma build_index_key_name:
  assumes "build_index env a df = Inr (out, k)"
  shows "k = (if first_token (index_table a) = ''upper'' \<or> first_token (index_table a) = ''uppervalid''
              then ''objectId_jd'' else index_table a)"
  using assms unfolding build_index_unfold Let_def
  by (auto simp: named_Inr_iff split: if_splits)

text \<open>
  C8. The table pushed to is named by the database name, a dot and the first
  underscore-delimited token of the identifier; the row-key column is named by the whole
  identifier, except for the kinds \<^verbatim>\<open>upper\<close> and \<^verbatim>\<open>uppervalid\<close>, where it is
  \<^verbatim>\<open>objectId_jd\<close>.
\<close>

theorem table_and_rowkey_names:
  assumes "main env a = Inr call"
  shows "table_name call = science_db_name a @ ''.'' @ first_token (index_table a) \<and>
         rowkeyname call =
           (if first_token (index_table a) = ''upper'' \<or> first_token (index_table a) = ''uppervalid''
            then ''objectId_jd'' else index_table a)"
proof -
  have s: "py_split (index_table a) ''_'' = Inr (split_from ''_'' [] (index_table a))"
    by (simp add: py_split_def)
  have f: "first (split_from ''_'' [] (index_table a)) = Inr (first_token (index_table a))"
    using first_columns [OF s] .
  from assms have "\<exists>df3 out. build_index env a df3 = Inr (out, rowkeyname call) \<and>
      table_name call = science_db_name a @ ''.'' @ first_token (index_table a)"
    unfolding main_def Let_def
    by (auto simp: ebind_Inr_iff s f) blast
  then obtain df3 out where b: "build_index env a df3 = Inr (out, rowkeyname call)"
    and t: "table_name call = science_db_name a @ ''.'' @ first_token (index_table a)"
    by blast
  from build_index_key_name [OF b] t show ?thesis by simp
qed

lemmas string_evals =
  py_split_def first_def py_int_def strip_def is_space_def is_digit_def digits_val_def
  digit_val_def str_int_def str_nat.simps digit_char_def first_token_def

lemmas engine_evals =
  resolve_def cell_def select_def col_def withColumn_def item_refs_def ref_column_def
  item_value_def item_name_def ref_name_def ref_value_def concat_ws_def ws_parts_def
  put_cell_def attach_cell_def drop_cols_def filter_rows_def isNotNull_def neq_str_def eq_long_def
  get_field_def struct_field_def arrays_zip_def arr_elems_def nth_or_null_def explode_def

lemmas script_evals =
  main_def data_path_def restrict_columns_def upper_cols_def key_and_def build_index_def
  named_def pixel_index_def pixel_source_def upper_index_def uppervalid_index_def
  explode_history_def exploded_source_def exploded_items_def exploded_key_def
  history_cols_def Let_def

lemmas example_evals = example_env_def example_args_def one_alert_def one_history_def

theorem table_and_rowkey_names_witness:
  "(\<exists>call. main (example_env one_alert []) (example_args ''pixel128'') = Inr call \<and>
      table_name call = ''ztf.pixel128'' \<and> rowkeyname call = ''pixel128'') \<and>
   (\<exists>call. main (example_env one_history []) (example_args ''upper_objectId_jd'') = Inr call \<and>
      table_name call = ''ztf.upper'' \<and> rowkeyname call = ''objectId_jd'')"
proof -
  have p: "main (example_env one_alert []) (example_args ''pixel128'') =
      Inr \<lparr>push_df = \<lparr>schema = [''pixel128'', ''objectId''],
                        rows = [[Str ''64270'', Str ''ZTF21abcdefg'']]\<rparr>,
           table_name = ''ztf.pixel128'', rowkeyname = ''pixel128'', cf = [],
           catfolder = ''/catalogs''\<rparr>"
    by (simp add: script_evals engine_evals string_evals example_evals)
  have u: "main (example_env one_history []) (example_args ''upper_objectId_jd'') =
      Inr \<lparr>push_df = \<lparr>schema = [''objectId_jd'', ''objectId'', ''jd'', ''fid'', ''diffmaglim''],
                        rows = [[Str ''ZTF21abcdefg_2459490'', Str ''ZTF21abcdefg'',
                                 Dbl 2459490, Long 1, Dbl 20]]\<rparr>,
           table_name = ''ztf.upper'', rowkeyname = ''objectId_jd'', cf = [],
           catfolder = ''/catalogs''\<rparr>"
    by (simp add: script_evals engine_evals string_evals example_evals)
  from table_and_rowkey_names [OF p] table_and_rowkey_names [OF u] p u
  show ?thesis
    by (simp add: first_token_def example_args_def)
qed

subsection \<open>The engine\<close>

lemma emap_Inr_iff: "emap f xs = Inr ys \<longleftrightarrow> list_all2 (\<lambda>x y. f x = Inr y) xs ys"
proof (induction xs arbitrary: ys)
  case Nil
  then show ?case by auto
next
  case (Cons a xs)
  show ?case
  proof (cases "f a")
    case (Inl e)
    then show ?thesis by (auto simp: list_all2_Cons1)
  next
    case fa: (Inr y)
    show ?thesis
    proof (cases "emap f xs")
      case (Inl e)
      with fa Cons.IH show ?thesis by (auto simp: list_all2_Cons1)
    next
      case (Inr zs)
      have iff: "list_all2 (\<lambda>x y. f x = Inr y) xs zs' \<longleftrightarrow> zs' = zs" for zs'
        using Cons.IH [of zs'] Inr by auto
      then show ?thesis using fa Inr by (auto simp: list_all2_Cons1)
    qed
  qed
qed

lemma emap_Inr_length: "emap f xs = Inr ys \<Longrightarrow> length ys = length xs"
  by (simp add: emap_Inr_iff list_all2_lengthD)

lemma emap_Inr_all: "emap f xs = Inr ys \<Longrightarrow> x \<in> set xs \<Longrightarrow> \<exists>y. f x = Inr y"
  by (induction xs arbitrary: ys) (auto split: sum.splits)

lemma emap_map: "(\<And>x. x \<in> set xs \<Longrightarrow> f x = Inr (g x)) \<Longrightarrow> emap f xs = Inr (map g xs)"
  by (induction xs) auto

lemma kept_rows:
  "list_all2 (\<lambda>r b. cond r = Inr b) rs bs \<Longrightarrow>
   map fst (filter (\<lambda>(r, b). b = Some True) (zip rs bs)) = filter (\<lambda>r. cond r = Inr (Some True)) rs"
  by (induction rule: list_all2_induct) auto

lemma filter_rows_Inr:
  assumes "filter_rows cond f = Inr g"
  shows "schema g = schema f \<and> rows g = filter (\<lambda>r. cond r = Inr (Some True)) (rows f)"
proof -
  from assms obtain bs where bs: "emap cond (rows f) = Inr bs"
    and g: "g = f\<lparr>rows := map fst (filter (\<lambda>(r, b). b = Some True) (zip (rows f) bs))\<rparr>"
    by (auto simp: filter_rows_def split: sum.splits)
  from bs have "list_all2 (\<lambda>r b. cond r = Inr b) (rows f) bs"
    by (simp add: emap_Inr_iff)
  from kept_rows [OF this] g show ?thesis by simp
qed

lemma select_Inr:
  assumes "select shw items f = Inr g"
  shows "schema g = map item_name items"
    and "list_all2 (\<lambda>r out. emap (item_value shw (schema f) r) items = Inr out) (rows f) (rows g)"
    and "\<And>x. x \<in> set (concat (map item_refs items)) \<Longrightarrow> resolve (schema f) (ref_column x) = Inr ()"
proof -
  from assms obtain us rs where
    us: "emap (\<lambda>x. resolve (schema f) (ref_column x)) (concat (map item_refs items)) = Inr us"
    and rs: "emap (\<lambda>r. emap (item_value shw (schema f) r) items) (rows f) = Inr rs"
    and g: "g = \<lparr>schema = map item_name items, rows = rs\<rparr>"
    by (auto simp: select_def split: sum.splits)
  from g show "schema g = map item_name items" by simp
  from rs g show "list_all2 (\<lambda>r out. emap (item_value shw (schema f) r) items = Inr out) (rows f) (rows g)"
    by (simp add: emap_Inr_iff)
  fix x assume "x \<in> set (concat (map item_refs items))"
  from emap_Inr_all [OF us this] show "resolve (schema f) (ref_column x) = Inr ()"
    by auto
qed

lemma split_from_plain: "c \<notin> set s \<Longrightarrow> split_from [c] acc s = [acc @ s]"
  by (induction s arbitrary: acc) auto

lemma col_plain: "CHR ''.'' \<notin> set c \<Longrightarrow> col c = Ref c []"
  by (simp add: col_def split_from_plain)

lemma common_cols_plain: "c \<in> set common_cols \<Longrightarrow> CHR ''.'' \<notin> set c"
  by (auto simp: common_cols_def)

lemma ref_value_plain:
  "resolve cs c = Inr () \<Longrightarrow> ref_value cs r (Ref c []) = Inr (cell cs r c)"
  by (simp add: ref_value_def)

lemma key_item_value:
  "item_value shw cs r (ConcatWs ''_'' (map col columns) n) = row_key shw cs columns r"
  by (simp add: item_value_def row_key_def ebind_def)

lemma select_key_and:
  assumes "select shw (key_and n columns cols) f = Inr g"
    and "\<And>c. c \<in> set cols \<Longrightarrow> CHR ''.'' \<notin> set c"
  shows "schema g = n # cols"
    and "list_all2 (\<lambda>r out. \<exists>k. row_key shw (schema f) columns r = Inr k \<and>
             out = k # map (cell (schema f) r) cols) (rows f) (rows g)"
proof -
  have cols: "map (\<lambda>c. Col (col c)) cols = map (\<lambda>c. Col (Ref c [])) cols"
    using assms(2) by (simp add: col_plain)
  from select_Inr(1) [OF assms(1)] show "schema g = n # cols"
    by (simp add: key_and_def cols item_name_def ref_name_def comp_def)
  have res: "resolve (schema f) c = Inr ()" if "c \<in> set cols" for c
  proof -
    from that have "Ref c [] \<in> set (concat (map item_refs (key_and n columns cols)))"
      by (auto simp: key_and_def cols item_refs_def)
    from select_Inr(3) [OF assms(1) this] show ?thesis by (simp add: ref_column_def)
  qed
  have vals: "emap (item_value shw (schema f) r) (map (\<lambda>c. Col (Ref c [])) cols) =
      Inr (map (cell (schema f) r) cols)" for r
  proof -
    have "emap (item_value shw (schema f) r) (map (\<lambda>c. Col (Ref c [])) cols) =
        Inr (map (\<lambda>x. cell (schema f) r (ref_column (case x of Col y \<Rightarrow> y))) (map (\<lambda>c. Col (Ref c [])) cols))"
      by (rule emap_map) (auto simp: item_value_def ref_value_plain res ref_column_def)
    then show ?thesis by (simp add: comp_def ref_column_def)
  qed
  have row: "emap (item_value shw (schema f) r) (key_and n columns cols) = Inr out \<Longrightarrow>
      \<exists>k. row_key shw (schema f) columns r = Inr k \<and> out = k # map (cell (schema f) r) cols" for r out
    unfolding key_and_def cols
    by (auto simp: key_item_value vals split: sum.splits)
  from select_Inr(2) [OF assms(1)] show "list_all2 (\<lambda>r out. \<exists>k. row_key shw (schema f) columns r = Inr k \<and>
             out = k # map (cell (schema f) r) cols) (rows f) (rows g)"
    by (rule list_all2_mono) (use row in blast)
qed

subsection \<open>Evaluating the examples\<close>

lemma distinct_common_cols: "distinct common_cols"
  by (simp add: common_cols_def)

lemma count_list_distinct: "distinct cs \<Longrightarrow> count_list cs c \<le> 1"
  by (induction cs) (auto simp: count_list_0_iff)

lemma resolve_distinct: "distinct cs \<Longrightarrow> c \<in> set cs \<Longrightarrow> resolve cs c = Inr ()"
  using count_list_distinct [of cs c] by (simp add: resolve_def)

lemma resolve_common: "c \<in> set common_cols \<Longrightarrow> resolve common_cols c = Inr ()"
  by (simp add: resolve_distinct distinct_common_cols)

lemma cell_alert_row:
  "c \<in> set common_cols \<Longrightarrow>
   cell common_cols (alert_row kv) c = (case map_of kv c of None \<Rightarrow> Null | Some v \<Rightarrow> v)"
  by (simp add: cell_def alert_row_def map_of_zip_map)

lemma common_projection_alert_row: "map (cell common_cols (alert_row kv)) common_cols = alert_row kv"
  by (simp add: alert_row_def cell_def map_of_zip_map)

lemma common_members:
  "''objectId'' \<in> set common_cols" "''jd'' \<in> set common_cols" "''roid'' \<in> set common_cols"
  "''tracklet'' \<in> set common_cols" "''ssnamenr'' \<in> set common_cols" "''ra'' \<in> set common_cols"
  "''dec'' \<in> set common_cols" "''candid'' \<in> set common_cols"
  by (simp_all add: common_cols_def)


lemma filter_rows_total:
  assumes "\<And>r. r \<in> set (rows f) \<Longrightarrow> \<exists>b. cond r = Inr b"
  shows "filter_rows cond f = Inr (f\<lparr>rows := filter (\<lambda>r. cond r = Inr (Some True)) (rows f)\<rparr>)"
proof -
  have "emap cond (rows f) = Inr (map (\<lambda>r. case cond r of Inr b \<Rightarrow> b) (rows f))"
    by (rule emap_map) (use assms in force)
  moreover from this have "list_all2 (\<lambda>r b. cond r = Inr b) (rows f) (map (\<lambda>r. case cond r of Inr b \<Rightarrow> b) (rows f))"
    by (simp add: emap_Inr_iff)
  ultimately show ?thesis
    by (simp add: filter_rows_def kept_rows)
qed

lemma select_key_and_total:
  assumes plain: "\<And>c. c \<in> set cols \<Longrightarrow> CHR ''.'' \<notin> set c"
    and cols: "\<And>c. c \<in> set cols \<Longrightarrow> resolve (schema f) c = Inr ()"
    and refs: "\<And>t. t \<in> set columns \<Longrightarrow> resolve (schema f) (ref_column (col t)) = Inr ()"
    and keys: "list_all2 (\<lambda>r k. row_key shw (schema f) columns r = Inr k) (rows f) ks"
  shows "select shw (key_and n columns cols) f =
     Inr \<lparr>schema = n # cols, rows = map (\<lambda>(r, k). k # map (cell (schema f) r) cols) (zip (rows f) ks)\<rparr>"
proof -
  have cs: "map (\<lambda>c. Col (col c)) cols = map (\<lambda>c. Col (Ref c [])) cols"
    using plain by (simp add: col_plain)
  have names: "map item_name (key_and n columns cols) = n # cols"
    by (simp add: key_and_def cs item_name_def ref_name_def comp_def)
  have "emap (\<lambda>x. resolve (schema f) (ref_column x)) (concat (map item_refs (key_and n columns cols))) =
      Inr (map (\<lambda>x. ()) (concat (map item_refs (key_and n columns cols))))"
    by (rule emap_map) (use cols refs in \<open>auto simp: key_and_def cs item_refs_def ref_column_def\<close>)
  moreover have vals: "emap (item_value shw (schema f) r) (map (\<lambda>c. Col (Ref c [])) cols) =
      Inr (map (cell (schema f) r) cols)" for r
  proof -
    have "emap (item_value shw (schema f) r) (map (\<lambda>c. Col (Ref c [])) cols) =
        Inr (map (\<lambda>x. cell (schema f) r (ref_column (case x of Col y \<Rightarrow> y))) (map (\<lambda>c. Col (Ref c [])) cols))"
      by (rule emap_map) (auto simp: item_value_def ref_value_plain cols ref_column_def)
    then show ?thesis by (simp add: comp_def ref_column_def)
  qed
  have "list_all2 (\<lambda>r out. emap (item_value shw (schema f) r) (key_and n columns cols) = Inr out)
      (rows f) (map (\<lambda>(r, k). k # map (cell (schema f) r) cols) (zip (rows f) ks))"
    using keys
    by (induction rule: list_all2_induct) (auto simp: key_and_def cs key_item_value vals)
  then have "emap (\<lambda>r. emap (item_value shw (schema f) r) (key_and n columns cols)) (rows f) =
      Inr (map (\<lambda>(r, k). k # map (cell (schema f) r) cols) (zip (rows f) ks))"
    by (simp add: emap_Inr_iff)
  ultimately show ?thesis
    by (simp add: select_def names)
qed


lemma example_env_fields:
  "load_parquet_files (example_env f seps) = (\<lambda>path. Inr f)"
  "portal_select (example_env f seps) = Inr"
  "assign_column_family_names (example_env f seps) = (\<lambda>df. Inr [])"
  "attach_rowkey (example_env f seps) = Inr"
  "ang2pix (example_env f seps) = (\<lambda>ra dec nside. Inr (Long 64270))"
  "extract_fink_classification (example_env f seps) = (\<lambda>inputs. Inr (Str ''SN candidate''))"
  "show_double (example_env f seps) = (\<lambda>x. str_int (floor x))"
  "read_file (example_env f seps) = (\<lambda>path. Inr ''marker'')"
  "environ (example_env f seps) = (\<lambda>name. Some ''key'')"
  "download_catalog (example_env f seps) = (\<lambda>api_key marker.
      Inr [\<lparr>tns_ra = Dbl 10, tns_declination = Dbl 20, tns_type = Some ''SN Ia''\<rparr>])"
  "match_to_catalog_sky (example_env f seps) = (\<lambda>a b. Inr (take (length a) seps))"
  "arrow_batch_sizes (example_env f seps) = (\<lambda>n. [])"
  by (simp_all add: example_env_def fun_eq_iff)

lemma example_night_fields:
  "schema example_night = common_cols"
  "rows example_night = [alert_row alert1, alert_row alert2, alert_row alert3, alert_row alert4]"
  by (simp_all add: example_night_def)

lemmas alerts = alert1_def alert2_def alert3_def alert4_def

subsection \<open>The filtered kinds\<close>

lemma eq_long_True: "eq_long v k = Inr (Some True) \<longleftrightarrow> v = Long k \<or> v = Dbl (of_int k)"
  by (cases v) (auto simp: eq_long_def)

lemma neq_str_True: "neq_str v s = Inr (Some True) \<longleftrightarrow> (\<exists>t. v = Str t \<and> t \<noteq> s)"
  by (cases v) (auto simp: neq_str_def)

text \<open>
  C6. For the minor-planet kind the rows of the output are, in order, the projections of
  exactly those input records whose \<^verbatim>\<open>roid\<close> flag is 3: every such record is kept
  and every record with another flag (or none) is excluded.
\<close>

theorem ssnamenr_rows:
  assumes "first_token (index_table a) = ''ssnamenr''"
    and "build_index env a df = Inr (out, k)"
  shows "schema out = index_table a # common_cols \<and>
     list_all2
       (\<lambda>r out_row. \<exists>key.
          row_key (show_double env) (schema df) (split_from ''_'' [] (index_table a)) r = Inr key \<and>
          out_row = key # map (cell (schema df) r) common_cols)
       (filter (\<lambda>r. cell (schema df) r ''roid'' = Long 3 \<or> cell (schema df) r ''roid'' = Dbl 3) (rows df))
       (rows out)"
proof -
  from assms have "ssnamenr_index env (index_table a) (split_from ''_'' [] (index_table a)) df = Inr out"
    unfolding build_index_unfold Let_def by (simp add: named_Inr_iff)
  then obtain kept where src: "ssnamenr_source df = Inr kept"
    and sel: "select (show_double env)
        (key_and (index_table a) (split_from ''_'' [] (index_table a)) common_cols) kept = Inr out"
    by (auto simp: ssnamenr_index_def ebind_Inr_iff)
  from src have "filter_rows (\<lambda>r. eq_long (cell (schema df) r ''roid'') 3) df = Inr kept"
    by (auto simp: ssnamenr_source_def ebind_Inr_iff)
  from filter_rows_Inr [OF this]
  have kept: "schema kept = schema df"
    "rows kept = filter (\<lambda>r. cell (schema df) r ''roid'' = Long 3 \<or> cell (schema df) r ''roid'' = Dbl 3) (rows df)"
    by (simp_all add: eq_long_True)
  from select_key_and [OF sel common_cols_plain] kept show ?thesis by simp
qed

theorem ssnamenr_rows_witness:
  "first_token (index_table (example_args ''ssnamenr_jd'')) = ''ssnamenr'' \<and>
   build_index (example_env example_night []) (example_args ''ssnamenr_jd'') example_night =
     Inr (\<lparr>schema = ''ssnamenr_jd'' # common_cols,
           rows = [Str ''1234_2459499'' # alert_row alert1]\<rparr>, ''ssnamenr_jd'') \<and>
   filter (\<lambda>r. cell common_cols r ''roid'' = Long 3 \<or> cell common_cols r ''roid'' = Dbl 3)
     (rows example_night) = [alert_row alert1]"
proof -
  let ?a = "example_args ''ssnamenr_jd''" and ?env = "example_env example_night []"
  have t: "first_token (index_table ?a) = ''ssnamenr''"
    by (simp add: example_args_def first_token_def)
  have cols: "split_from ''_'' [] (index_table ?a) = [''ssnamenr'', ''jd'']"
    by (simp add: example_args_def)
  have f: "filter (\<lambda>r. cell common_cols r ''roid'' = Long 3 \<or> cell common_cols r ''roid'' = Dbl 3)
     (rows example_night) = [alert_row alert1]"
    by (simp add: example_night_fields cell_alert_row common_members alerts)
  have src: "ssnamenr_source example_night = Inr (example_night\<lparr>rows := [alert_row alert1]\<rparr>)"
    unfolding ssnamenr_source_def
    by (subst filter_rows_total)
       (auto simp: example_night_fields resolve_common common_members cell_alert_row eq_long_def alerts)
  have key: "row_key (show_double ?env) common_cols [''ssnamenr'', ''jd''] (alert_row alert1) =
      Inr (Str ''1234_2459499'')"
    by (simp add: row_key_def col_def ref_value_def resolve_common common_members cell_alert_row
        alert1_def concat_ws_def ws_parts_def example_env_fields str_int_def str_nat.simps digit_char_def)
  have sel: "select (show_double ?env) (key_and ''ssnamenr_jd'' [''ssnamenr'', ''jd''] common_cols)
        (example_night\<lparr>rows := [alert_row alert1]\<rparr>) =
      Inr \<lparr>schema = ''ssnamenr_jd'' # common_cols, rows = [Str ''1234_2459499'' # alert_row alert1]\<rparr>"
    by (subst select_key_and_total [where ks = "[Str ''1234_2459499'']"])
       (auto simp: example_night_fields common_cols_plain resolve_common col_def ref_column_def
          common_members key common_projection_alert_row)
  have b: "build_index ?env ?a example_night =
     Inr (\<lparr>schema = ''ssnamenr_jd'' # common_cols,
           rows = [Str ''1234_2459499'' # alert_row alert1]\<rparr>, ''ssnamenr_jd'')"
    unfolding build_index_unfold Let_def t cols
    by (simp add: named_def ssnamenr_index_def src sel example_args_def)
  from ssnamenr_rows [OF t b] t b f show ?thesis by simp
qed

text \<open>
  C5. For the tracklet kind the rows of the output are, in order, the projections of
  exactly those input records whose tracklet is a string other than the empty string and
  other than \<^verbatim>\<open>null\<close>: a record with a sentinel (or with no tracklet at all) never
  appears, every other record does.
\<close>

theorem tracklet_rows:
  assumes "first_token (index_table a) = ''tracklet''"
    and "build_index env a df = Inr (out, k)"
  shows "schema out = index_table a # common_cols \<and>
     list_all2
       (\<lambda>r out_row. \<exists>key.
          row_key (show_double env) (schema df) (split_from ''_'' [] (index_table a)) r = Inr key \<and>
          out_row = key # map (cell (schema df) r) common_cols)
       (filter (\<lambda>r. case cell (schema df) r ''tracklet'' of
                        Str t \<Rightarrow> t \<noteq> [] \<and> t \<noteq> ''null''
                      | _ \<Rightarrow> False) (rows df))
       (rows out)"
proof -
  from assms have "tracklet_index env (index_table a) (split_from ''_'' [] (index_table a)) df = Inr out"
    unfolding build_index_unfold Let_def by (simp add: named_Inr_iff)
  then obtain kept where src: "tracklet_source df = Inr kept"
    and sel: "select (show_double env)
        (key_and (index_table a) (split_from ''_'' [] (index_table a)) common_cols) kept = Inr out"
    by (auto simp: tracklet_index_def ebind_Inr_iff)
  from src obtain df1 where
    f1: "filter_rows (\<lambda>r. neq_str (cell (schema df) r ''tracklet'') ''null'') df = Inr df1" and
    f2: "filter_rows (\<lambda>r. neq_str (cell (schema df) r ''tracklet'') []) df1 = Inr kept"
    by (auto simp: tracklet_source_def ebind_Inr_iff)
  have p: "(neq_str v ''null'' = Inr (Some True) \<and> neq_str v [] = Inr (Some True)) =
      (case v of Str t \<Rightarrow> t \<noteq> [] \<and> t \<noteq> ''null'' | _ \<Rightarrow> False)" for v
    by (cases v) (auto simp: neq_str_def)
  from filter_rows_Inr [OF f1] filter_rows_Inr [OF f2]
  have kept: "schema kept = schema df"
    "rows kept = filter (\<lambda>r. case cell (schema df) r ''tracklet'' of
                        Str t \<Rightarrow> t \<noteq> [] \<and> t \<noteq> ''null''
                      | _ \<Rightarrow> False) (rows df)"
    by (simp_all add: p)
  from select_key_and [OF sel common_cols_plain] kept show ?thesis by simp
qed

theorem tracklet_rows_witness:
  "first_token (index_table (example_args ''tracklet_objectId'')) = ''tracklet'' \<and>
   build_index (example_env example_night []) (example_args ''tracklet_objectId'') example_night =
     Inr (\<lparr>schema = ''tracklet_objectId'' # common_cols,
           rows = [Str ''TRCK_20211011_103000_00_ZTF21aaaaaaa'' # alert_row alert1]\<rparr>,
          ''tracklet_objectId'') \<and>
   filter (\<lambda>r. case cell common_cols r ''tracklet'' of
                  Str t \<Rightarrow> t \<noteq> [] \<and> t \<noteq> ''null''
                | _ \<Rightarrow> False) (rows example_night) = [alert_row alert1]"
proof -
  let ?a = "example_args ''tracklet_objectId''" and ?env = "example_env example_night []"
  have t: "first_token (index_table ?a) = ''tracklet''"
    by (simp add: example_args_def first_token_def)
  have cols: "split_from ''_'' [] (index_table ?a) = [''tracklet'', ''objectId'']"
    by (simp add: example_args_def)
  have f: "filter (\<lambda>r. case cell common_cols r ''tracklet'' of
                  Str t \<Rightarrow> t \<noteq> [] \<and> t \<noteq> ''null''
                | _ \<Rightarrow> False) (rows example_night) = [alert_row alert1]"
    by (simp add: example_night_fields cell_alert_row common_members alerts)
  have f1: "filter_rows (\<lambda>r. neq_str (cell common_cols r ''tracklet'') ''null'') example_night =
      Inr (example_night\<lparr>rows := [alert_row alert1, alert_row alert2]\<rparr>)"
    by (subst filter_rows_total)
       (auto simp: example_night_fields cell_alert_row common_members neq_str_def alerts)
  have f2: "filter_rows (\<lambda>r. neq_str (cell common_cols r ''tracklet'') [])
        (example_night\<lparr>rows := [alert_row alert1, alert_row alert2]\<rparr>) =
      Inr (example_night\<lparr>rows := [alert_row alert1]\<rparr>)"
    by (subst filter_rows_total)
       (auto simp: example_night_fields cell_alert_row common_members neq_str_def alerts)
  have src: "tracklet_source example_night = Inr (example_night\<lparr>rows := [alert_row alert1]\<rparr>)"
    unfolding tracklet_source_def
    by (simp add: f1 f2 example_night_fields resolve_common common_members)
  have key: "row_key (show_double ?env) common_cols [''tracklet'', ''objectId''] (alert_row alert1) =
      Inr (Str ''TRCK_20211011_103000_00_ZTF21aaaaaaa'')"
    by (simp add: row_key_def col_def ref_value_def resolve_common common_members cell_alert_row
        alert1_def concat_ws_def ws_parts_def)
  have sel: "select (show_double ?env) (key_and ''tracklet_objectId'' [''tracklet'', ''objectId''] common_cols)
        (example_night\<lparr>rows := [alert_row alert1]\<rparr>) =
      Inr \<lparr>schema = ''tracklet_objectId'' # common_cols,
           rows = [Str ''TRCK_20211011_103000_00_ZTF21aaaaaaa'' # alert_row alert1]\<rparr>"
    by (subst select_key_and_total [where ks = "[Str ''TRCK_20211011_103000_00_ZTF21aaaaaaa'']"])
       (auto simp: example_night_fields common_cols_plain resolve_common col_def ref_column_def
          common_members key common_projection_alert_row)
  have b: "build_index ?env ?a example_night =
     Inr (\<lparr>schema = ''tracklet_objectId'' # common_cols,
           rows = [Str ''TRCK_20211011_103000_00_ZTF21aaaaaaa'' # alert_row alert1]\<rparr>,
          ''tracklet_objectId'')"
    unfolding build_index_unfold Let_def t cols
    by (simp add: named_def tracklet_index_def src sel example_args_def)
  from tracklet_rows [OF t b] t b f show ?thesis by simp
qed

subsection \<open>The dispatch\<close>

lemma startswith_iff: "startswith s p \<longleftrightarrow> (\<exists>t. s = p @ t)"
  by (induction s p rule: startswith.induct) auto

lemma startswith_take: "startswith s p \<longleftrightarrow> take (length p) s = p"
  by (induction s p rule: startswith.induct) auto

lemma py_in_iff: "py_in sub s \<longleftrightarrow> (\<exists>pre post. s = pre @ sub @ post)"
proof (induction s)
  case Nil
  then show ?case by auto
next
  case (Cons c cs)
  have "(\<exists>pre post. c # cs = pre @ sub @ post) \<longleftrightarrow>
      (\<exists>post. c # cs = sub @ post) \<or> (\<exists>pre post. cs = pre @ sub @ post)"
    by (auto simp: Cons_eq_append_conv)
  with Cons show ?case by (simp add: startswith_iff)
qed

text \<open>
  C3. The branch the dispatch runs is the one of the kind of the identifier's first
  underscore-delimited token. An identifier whose first token is of none of the
  recognised kinds runs the default branch: on success the row-key column carries the
  identifier's name, the columns are the row key and the common projection, and every
  input record gives one output row, whose key is built from the columns named by all
  the tokens.
\<close>

theorem dispatch_on_first_token:
  "build_index env a df =
     (case kind_of (first_token (index_table a)) of
        Pixel \<Rightarrow> named (index_table a)
          (pixel_index env (index_table a) (split_from ''_'' [] (index_table a)) df)
      | Class \<Rightarrow> named (index_table a)
          (class_index env (index_table a) (split_from ''_'' [] (index_table a)) df)
      | Ssnamenr \<Rightarrow> named (index_table a)
          (ssnamenr_index env (index_table a) (split_from ''_'' [] (index_table a)) df)
      | Tracklet \<Rightarrow> named (index_table a)
          (tracklet_index env (index_table a) (split_from ''_'' [] (index_table a)) df)
      | Upper \<Rightarrow> named ''objectId_jd'' (upper_index env df)
      | Uppervalid \<Rightarrow> named ''objectId_jd'' (uppervalid_index env df)
      | Tns \<Rightarrow> named (index_table a)
          (tns_index env a (index_table a) (split_from ''_'' [] (index_table a)) df)
      | Default \<Rightarrow> named (index_table a)
          (default_index env (index_table a) (split_from ''_'' [] (index_table a)) df)) \<and>
   (kind_of (first_token (index_table a)) = Default \<longrightarrow>
      (\<forall>out k. build_index env a df = Inr (out, k) \<longrightarrow>
         k = index_table a \<and>
         schema out = index_table a # common_cols \<and>
         list_all2
           (\<lambda>r out_row. \<exists>key.
              row_key (show_double env) (schema df) (split_from ''_'' [] (index_table a)) r = Inr key \<and>
              out_row = key # map (cell (schema df) r) common_cols)
           (rows df) (rows out)))"
proof -
  have eq: "build_index env a df =
     (case kind_of (first_token (index_table a)) of
        Pixel \<Rightarrow> named (index_table a)
          (pixel_index env (index_table a) (split_from ''_'' [] (index_table a)) df)
      | Class \<Rightarrow> named (index_table a)
          (class_index env (index_table a) (split_from ''_'' [] (index_table a)) df)
      | Ssnamenr \<Rightarrow> named (index_table a)
          (ssnamenr_index env (index_table a) (split_from ''_'' [] (index_table a)) df)
      | Tracklet \<Rightarrow> named (index_table a)
          (tracklet_index env (index_table a) (split_from ''_'' [] (index_table a)) df)
      | Upper \<Rightarrow> named ''objectId_jd'' (upper_index env df)
      | Uppervalid \<Rightarrow> named ''objectId_jd'' (uppervalid_index env df)
      | Tns \<Rightarrow> named (index_table a)
          (tns_index env a (index_table a) (split_from ''_'' [] (index_table a)) df)
      | Default \<Rightarrow> named (index_table a)
          (default_index env (index_table a) (split_from ''_'' [] (index_table a)) df))"
    unfolding build_index_unfold Let_def kind_of_def
    by (simp add: startswith_take eval_nat_numeral)
  have dflt: "k = index_table a \<and>
         schema out = index_table a # common_cols \<and>
         list_all2
           (\<lambda>r out_row. \<exists>key.
              row_key (show_double env) (schema df) (split_from ''_'' [] (index_table a)) r = Inr key \<and>
              out_row = key # map (cell (schema df) r) common_cols)
           (rows df) (rows out)"
    if d: "kind_of (first_token (index_table a)) = Default"
      and b: "build_index env a df = Inr (out, k)" for out k
  proof -
    from b have "named (index_table a)
          (default_index env (index_table a) (split_from ''_'' [] (index_table a)) df) = Inr (out, k)"
      unfolding eq d by simp
    then have k: "k = index_table a" and
      sel: "select (show_double env)
        (key_and (index_table a) (split_from ''_'' [] (index_table a)) common_cols) df = Inr out"
      by (simp_all add: named_Inr_iff default_index_def)
    from select_key_and [OF sel common_cols_plain] k show ?thesis by simp
  qed
  from eq dflt show ?thesis by blast
qed

theorem dispatch_on_first_token_witness:
  "kind_of (first_token (index_table (example_args ''objectId_jd''))) = Default \<and>
   build_index (example_env example_night []) (example_args ''objectId_jd'') example_night =
     Inr (\<lparr>schema = ''objectId_jd'' # common_cols,
           rows = [Str ''ZTF21aaaaaaa_2459499'' # alert_row alert1,
                   Str ''ZTF21aaaaaaa_2459500'' # alert_row alert2,
                   Str ''ZTF21bbbbbbb_2459501'' # alert_row alert3,
                   Str ''ZTF21ccccccc_2459502'' # alert_row alert4]\<rparr>,
          ''objectId_jd'')"
proof -
  let ?a = "example_args ''objectId_jd''" and ?env = "example_env example_night []"
  have k: "kind_of (first_token (index_table ?a)) = Default"
    by (simp add: kind_of_def first_token_def example_args_def)
  have cols: "split_from ''_'' [] (index_table ?a) = [''objectId'', ''jd'']"
    by (simp add: example_args_def)
  have keys:
    "row_key (\<lambda>x. str_int (floor x)) common_cols [''objectId'', ''jd''] (alert_row alert1) =
       Inr (Str ''ZTF21aaaaaaa_2459499'')"
    "row_key (\<lambda>x. str_int (floor x)) common_cols [''objectId'', ''jd''] (alert_row alert2) =
       Inr (Str ''ZTF21aaaaaaa_2459500'')"
    "row_key (\<lambda>x. str_int (floor x)) common_cols [''objectId'', ''jd''] (alert_row alert3) =
       Inr (Str ''ZTF21bbbbbbb_2459501'')"
    "row_key (\<lambda>x. str_int (floor x)) common_cols [''objectId'', ''jd''] (alert_row alert4) =
       Inr (Str ''ZTF21ccccccc_2459502'')"
    by (simp_all add: row_key_def col_def ref_value_def resolve_common common_members cell_alert_row
        alerts concat_ws_def ws_parts_def str_int_def str_nat.simps digit_char_def)
  have sel: "select (show_double ?env) (key_and ''objectId_jd'' [''objectId'', ''jd''] common_cols)
        example_night =
      Inr \<lparr>schema = ''objectId_jd'' # common_cols,
           rows = [Str ''ZTF21aaaaaaa_2459499'' # alert_row alert1,
                   Str ''ZTF21aaaaaaa_2459500'' # alert_row alert2,
                   Str ''ZTF21bbbbbbb_2459501'' # alert_row alert3,
                   Str ''ZTF21ccccccc_2459502'' # alert_row alert4]\<rparr>"
    by (subst select_key_and_total [where ks = "[Str ''ZTF21aaaaaaa_2459499'',
          Str ''ZTF21aaaaaaa_2459500'', Str ''ZTF21bbbbbbb_2459501'', Str ''ZTF21ccccccc_2459502'']"])
       (auto simp: example_night_fields example_env_fields common_cols_plain resolve_common col_def
          ref_column_def common_members keys common_projection_alert_row)
  have "build_index ?env ?a example_night =
     Inr (\<lparr>schema = ''objectId_jd'' # common_cols,
           rows = [Str ''ZTF21aaaaaaa_2459499'' # alert_row alert1,
                   Str ''ZTF21aaaaaaa_2459500'' # alert_row alert2,
                   Str ''ZTF21bbbbbbb_2459501'' # alert_row alert3,
                   Str ''ZTF21ccccccc_2459502'' # alert_row alert4]\<rparr>,
          ''objectId_jd'')"
    unfolding dispatch_on_first_token [of ?env ?a example_night, THEN conjunct1] k kind.case cols
    by (simp add: named_def default_index_def sel example_args_def)
  with k show ?thesis by simp
qed

subsection \<open>The restriction of the columns\<close>

lemma upper_cols_refs:
  "upper_cols =
     [Col (Ref ''objectId'' []), Col (Ref ''prv_candidates'' [''jd'']),
      Col (Ref ''prv_candidates'' [''fid'']), Col (Ref ''prv_candidates'' [''magpsf'']),
      Col (Ref ''prv_candidates'' [''sigmapsf'']), Col (Ref ''prv_candidates'' [''diffmaglim''])]"
  by (simp add: upper_cols_def col_def)

lemma item_value_Col: "item_value shw cs r (Col x) = ref_value cs r x"
  by (simp add: item_value_def)

lemma emap_Col:
  "emap (item_value shw cs r) (map Col xs) = emap (ref_value cs r) xs"
  by (induction xs) (auto simp: item_value_Col split: sum.splits)

lemma restriction_narrows:
  assumes "index_table a = pre @ ''upper'' @ post"
  shows "restrict_columns env (index_table a) df = select (show_double env) upper_cols df \<and>
    (\<forall>narrowed. restrict_columns env (index_table a) df = Inr narrowed \<longrightarrow>
       schema narrowed = [''objectId'', ''jd'', ''fid'', ''magpsf'', ''sigmapsf'', ''diffmaglim''] \<and>
       list_all2
         (\<lambda>r out_row.
            emap (ref_value (schema df) r)
              [Ref ''objectId'' [], Ref ''prv_candidates'' [''jd''],
               Ref ''prv_candidates'' [''fid''], Ref ''prv_candidates'' [''magpsf''],
               Ref ''prv_candidates'' [''sigmapsf''], Ref ''prv_candidates'' [''diffmaglim'']] =
            Inr out_row)
         (rows df) (rows narrowed) \<and>
       (first_token (index_table a) = ''class'' \<longrightarrow>
          build_index env a narrowed = Inl (AnalysisException ''cannot resolve cdsxmatch'')))"
proof -
  from assms have "py_in ''upper'' (index_table a)"
    unfolding py_in_iff by blast
  then have eq: "restrict_columns env (index_table a) df = select (show_double env) upper_cols df"
    by (simp add: restrict_columns_def)
  have rest: "schema narrowed = [''objectId'', ''jd'', ''fid'', ''magpsf'', ''sigmapsf'', ''diffmaglim''] \<and>
       list_all2
         (\<lambda>r out_row.
            emap (ref_value (schema df) r)
              [Ref ''objectId'' [], Ref ''prv_candidates'' [''jd''],
               Ref ''prv_candidates'' [''fid''], Ref ''prv_candidates'' [''magpsf''],
               Ref ''prv_candidates'' [''sigmapsf''], Ref ''prv_candidates'' [''diffmaglim'']] =
            Inr out_row)
         (rows df) (rows narrowed) \<and>
       (first_token (index_table a) = ''class'' \<longrightarrow>
          build_index env a narrowed = Inl (AnalysisException ''cannot resolve cdsxmatch''))"
    if n: "restrict_columns env (index_table a) df = Inr narrowed" for narrowed
  proof -
    from n eq have sel: "select (show_double env) upper_cols df = Inr narrowed" by simp
    have sch: "schema narrowed = [''objectId'', ''jd'', ''fid'', ''magpsf'', ''sigmapsf'', ''diffmaglim'']"
      using select_Inr(1) [OF sel] by (simp add: upper_cols_refs item_name_def ref_name_def)
    have items: "upper_cols = map Col
              [Ref ''objectId'' [], Ref ''prv_candidates'' [''jd''],
               Ref ''prv_candidates'' [''fid''], Ref ''prv_candidates'' [''magpsf''],
               Ref ''prv_candidates'' [''sigmapsf''], Ref ''prv_candidates'' [''diffmaglim'']]"
      by (simp add: upper_cols_refs)
    have rws: "list_all2
         (\<lambda>r out_row.
            emap (ref_value (schema df) r)
              [Ref ''objectId'' [], Ref ''prv_candidates'' [''jd''],
               Ref ''prv_candidates'' [''fid''], Ref ''prv_candidates'' [''magpsf''],
               Ref ''prv_candidates'' [''sigmapsf''], Ref ''prv_candidates'' [''diffmaglim'']] =
            Inr out_row)
         (rows df) (rows narrowed)"
      using select_Inr(2) [OF sel] unfolding items emap_Col .
    have cls: "build_index env a narrowed = Inl (AnalysisException ''cannot resolve cdsxmatch'')"
      if "first_token (index_table a) = ''class''"
    proof -
      have "class_source env narrowed = Inl (AnalysisException ''cannot resolve cdsxmatch'')"
        by (simp add: class_source_def class_inputs_def sch resolve_def)
      then show ?thesis
        unfolding build_index_unfold Let_def that
        by (simp add: named_def class_index_def)
    qed
    from sch rws cls show ?thesis by blast
  qed
  from eq rest show ?thesis by blast
qed

lemma restriction_keeps:
  assumes "\<nexists>pre post. index_table a = pre @ ''upper'' @ post"
  shows "restrict_columns env (index_table a) df = portal_select env df"
proof -
  from assms have "\<not> py_in ''upper'' (index_table a)"
    unfolding py_in_iff .
  then show ?thesis by (simp add: restrict_columns_def)
qed

text \<open>
  C10. The restriction tests whether \<^verbatim>\<open>upper\<close> occurs anywhere in the identifier,
  and nothing else. Every identifier that contains it has the frame narrowed to the
  object identifier and the five arrays of \<^verbatim>\<open>prv_candidates\<close>, whatever its first
  token is; when the first token is \<^verbatim>\<open>class\<close>, as in \<^verbatim>\<open>class_upper\<close>, the
  classification branch then runs on the narrowed frame and stops at the first column
  it misses. Every identifier that does not contain it keeps the projection on the
  columns of the science portal.
\<close>

theorem restriction_tests_substring:
  "((\<exists>pre post. index_table a = pre @ ''upper'' @ post) \<longrightarrow>
      restrict_columns env (index_table a) df = select (show_double env) upper_cols df \<and>
      (\<forall>narrowed. restrict_columns env (index_table a) df = Inr narrowed \<longrightarrow>
         schema narrowed = [''objectId'', ''jd'', ''fid'', ''magpsf'', ''sigmapsf'', ''diffmaglim''] \<and>
         list_all2
           (\<lambda>r out_row.
              emap (ref_value (schema df) r)
                [Ref ''objectId'' [], Ref ''prv_candidates'' [''jd''],
                 Ref ''prv_candidates'' [''fid''], Ref ''prv_candidates'' [''magpsf''],
                 Ref ''prv_candidates'' [''sigmapsf''], Ref ''prv_candidates'' [''diffmaglim'']] =
              Inr out_row)
           (rows df) (rows narrowed) \<and>
         (first_token (index_table a) = ''class'' \<longrightarrow>
            build_index env a narrowed = Inl (AnalysisException ''cannot resolve cdsxmatch'')))) \<and>
   ((\<nexists>pre post. index_table a = pre @ ''upper'' @ post) \<longrightarrow>
      restrict_columns env (index_table a) df = portal_select env df)"
proof (rule conjI; rule impI)
  assume "\<exists>pre post. index_table a = pre @ ''upper'' @ post"
  then obtain pre post where "index_table a = pre @ ''upper'' @ post" by blast
  then show "restrict_columns env (index_table a) df = select (show_double env) upper_cols df \<and>
      (\<forall>narrowed. restrict_columns env (index_table a) df = Inr narrowed \<longrightarrow>
         schema narrowed = [''objectId'', ''jd'', ''fid'', ''magpsf'', ''sigmapsf'', ''diffmaglim''] \<and>
         list_all2
           (\<lambda>r out_row.
              emap (ref_value (schema df) r)
                [Ref ''objectId'' [], Ref ''prv_candidates'' [''jd''],
                 Ref ''prv_candidates'' [''fid''], Ref ''prv_candidates'' [''magpsf''],
                 Ref ''prv_candidates'' [''sigmapsf''], Ref ''prv_candidates'' [''diffmaglim'']] =
              Inr out_row)
           (rows df) (rows narrowed) \<and>
         (first_token (index_table a) = ''class'' \<longrightarrow>
            build_index env a narrowed = Inl (AnalysisException ''cannot resolve cdsxmatch'')))"
    by (rule restriction_narrows)
next
  assume "\<nexists>pre post. index_table a = pre @ ''upper'' @ post"
  then show "restrict_columns env (index_table a) df = portal_select env df"
    by (rule restriction_keeps)
qed

lemma example_args_fields:
  "index_table (example_args kind) = kind"
  "night (example_args kind) = ''20211011''"
  "agg_data_prefix (example_args kind) = ''/data''"
  "science_db_name (example_args kind) = ''ztf''"
  "science_db_catalogs (example_args kind) = ''/catalogs''"
  "tns_folder (example_args kind) = ''/tns''"
  by (simp_all add: example_args_def)

theorem restriction_tests_substring_witness:
  "index_table (example_args ''class_upper'') = ''class_'' @ ''upper'' @ [] \<and>
   first_token (index_table (example_args ''class_upper'')) = ''class'' \<and>
   restrict_columns (example_env one_history []) (index_table (example_args ''class_upper''))
       one_history =
     Inr \<lparr>schema = [''objectId'', ''jd'', ''fid'', ''magpsf'', ''sigmapsf'', ''diffmaglim''],
          rows = [[Str ''ZTF21abcdefg'', Arr [Dbl 2459490, Dbl 2459495], Arr [Long 1, Long 2],
                   Arr [Null, Dbl 18], Arr [Null, Dbl 1], Arr [Dbl 20, Dbl 21]]]\<rparr> \<and>
   main (example_env one_history []) (example_args ''class_upper'') =
     Inl (AnalysisException ''cannot resolve cdsxmatch'') \<and>
   (\<nexists>pre post. index_table (example_args ''objectId_candid'') = pre @ ''upper'' @ post) \<and>
   restrict_columns (example_env one_alert []) (index_table (example_args ''objectId_candid''))
       one_alert = Inr one_alert"
proof -
  let ?a = "example_args ''class_upper''" and ?env = "example_env one_history []"
  let ?n = "\<lparr>schema = [''objectId'', ''jd'', ''fid'', ''magpsf'', ''sigmapsf'', ''diffmaglim''],
          rows = [[Str ''ZTF21abcdefg'', Arr [Dbl 2459490, Dbl 2459495], Arr [Long 1, Long 2],
                   Arr [Null, Dbl 18], Arr [Null, Dbl 1], Arr [Dbl 20, Dbl 21]]]\<rparr>"
  have i: "index_table ?a = ''class_'' @ ''upper'' @ []"
    by (simp add: example_args_fields)
  then have i': "\<exists>pre post. index_table ?a = pre @ ''upper'' @ post"
    by blast
  have t: "first_token (index_table ?a) = ''class''"
    by (simp add: example_args_fields first_token_def)
  note inst = restriction_tests_substring [of ?a ?env one_history, THEN conjunct1, rule_format, OF i']
  have s: "select (show_double ?env) upper_cols one_history = Inr ?n"
    by (simp add: upper_cols_refs one_history_def engine_evals)
  from inst [THEN conjunct1] s
  have r: "restrict_columns ?env (index_table ?a) one_history = Inr ?n"
    by simp
  from inst [THEN conjunct2, rule_format, OF r] t
  have c: "build_index ?env ?a ?n = Inl (AnalysisException ''cannot resolve cdsxmatch'')"
    by blast
  have d: "drop_cols [''day''] (drop_cols [''month''] (drop_cols [''year''] one_history)) = one_history"
    by (simp add: drop_cols_def one_history_def)
  have sp: "py_split (index_table ?a) ''_'' = Inr [''class'', ''upper'']"
    by (simp add: py_split_def example_args_fields)
  have m: "main ?env ?a = Inl (AnalysisException ''cannot resolve cdsxmatch'')"
    unfolding main_def Let_def sp
    by (simp add: first_def example_env_fields d r c)
  have "\<not> py_in ''upper'' (index_table (example_args ''objectId_candid''))"
    by (simp add: example_args_fields)
  then have n: "\<nexists>pre post. index_table (example_args ''objectId_candid'') = pre @ ''upper'' @ post"
    unfolding py_in_iff .
  from restriction_tests_substring [of "example_args ''objectId_candid''" "example_env one_alert []"
      one_alert, THEN conjunct2, rule_format, OF n]
  have k: "restrict_columns (example_env one_alert []) (index_table (example_args ''objectId_candid''))
       one_alert = Inr one_alert"
    by (simp add: example_env_fields)
  from i t r m n k show ?thesis by blast
qed

subsection \<open>The exploded history\<close>

lemma exploded_schema:
  "map item_name exploded_items =
     [''objectId_jd'', ''objectId'', ''jd'', ''fid'', ''magpsf'', ''sigmapsf'', ''diffmaglim'']"
  by (simp add: exploded_items_def exploded_key_def col_def item_name_def ref_name_def)

lemma explode_history_schema:
  assumes "explode_history env df = Inr ex"
  shows "schema ex =
     [''objectId_jd'', ''objectId'', ''jd'', ''fid'', ''magpsf'', ''sigmapsf'', ''diffmaglim'']"
proof -
  from assms obtain src where "select (show_double env) exploded_items src = Inr ex"
    by (auto simp: explode_history_def ebind_Inr_iff)
  from select_Inr(1) [OF this] show ?thesis by (simp add: exploded_schema)
qed

lemma mset_filter_partition:
  "mset (filter P xs) + mset (filter (\<lambda>x. \<not> P x) xs) = mset xs"
  by (induction xs) auto

text \<open>
  C2. The kinds \<^verbatim>\<open>upper\<close> and \<^verbatim>\<open>uppervalid\<close> partition the exploded rows: the output
  of \<^verbatim>\<open>upper\<close> is made of exactly the exploded rows whose \<^verbatim>\<open>magpsf\<close> is null (less
  the two magnitude columns), the output of \<^verbatim>\<open>uppervalid\<close> of exactly those whose
  \<^verbatim>\<open>magpsf\<close> is present; together they are all the exploded rows, and none is in both.
\<close>

theorem upper_uppervalid_partition:
  assumes "first_token (index_table a) = ''upper''"
    and "first_token (index_table a') = ''uppervalid''"
    and "explode_history env df = Inr ex"
  shows "build_index env a df =
       Inr (drop_cols [''magpsf'', ''sigmapsf'']
              (ex\<lparr>rows := filter (\<lambda>r. cell (schema ex) r ''magpsf'' = Null) (rows ex)\<rparr>),
            ''objectId_jd'') \<and>
     build_index env a' df =
       Inr (ex\<lparr>rows := filter (\<lambda>r. cell (schema ex) r ''magpsf'' \<noteq> Null) (rows ex)\<rparr>,
            ''objectId_jd'') \<and>
     mset (filter (\<lambda>r. cell (schema ex) r ''magpsf'' = Null) (rows ex)) +
       mset (filter (\<lambda>r. cell (schema ex) r ''magpsf'' \<noteq> Null) (rows ex)) = mset (rows ex) \<and>
     set (filter (\<lambda>r. cell (schema ex) r ''magpsf'' = Null) (rows ex)) \<inter>
       set (filter (\<lambda>r. cell (schema ex) r ''magpsf'' \<noteq> Null) (rows ex)) = {}"
proof -
  have res: "resolve (schema ex) ''magpsf'' = Inr ()"
    by (simp add: explode_history_schema [OF assms(3)] resolve_def)
  have up: "upper_index env df =
       Inr (drop_cols [''magpsf'', ''sigmapsf'']
              (ex\<lparr>rows := filter (\<lambda>r. cell (schema ex) r ''magpsf'' = Null) (rows ex)\<rparr>))"
    unfolding upper_index_def assms(3) ebind_Inr res
    by (subst filter_rows_total) (simp_all add: isNotNull_def)
  have val: "uppervalid_index env df =
       Inr (ex\<lparr>rows := filter (\<lambda>r. cell (schema ex) r ''magpsf'' \<noteq> Null) (rows ex)\<rparr>)"
    unfolding uppervalid_index_def assms(3) ebind_Inr res
    by (subst filter_rows_total) (simp_all add: isNotNull_def)
  have b1: "build_index env a df =
       Inr (drop_cols [''magpsf'', ''sigmapsf'']
              (ex\<lparr>rows := filter (\<lambda>r. cell (schema ex) r ''magpsf'' = Null) (rows ex)\<rparr>),
            ''objectId_jd'')"
    unfolding build_index_unfold Let_def assms(1) by (simp add: named_def up)
  have b2: "build_index env a' df =
       Inr (ex\<lparr>rows := filter (\<lambda>r. cell (schema ex) r ''magpsf'' \<noteq> Null) (rows ex)\<rparr>,
            ''objectId_jd'')"
    unfolding build_index_unfold Let_def assms(2) by (simp add: named_def val)
  have p: "mset (filter (\<lambda>r. cell (schema ex) r ''magpsf'' = Null) (rows ex)) +
       mset (filter (\<lambda>r. cell (schema ex) r ''magpsf'' \<noteq> Null) (rows ex)) = mset (rows ex)"
    by (rule mset_filter_partition)
  have d: "set (filter (\<lambda>r. cell (schema ex) r ''magpsf'' = Null) (rows ex)) \<inter>
       set (filter (\<lambda>r. cell (schema ex) r ''magpsf'' \<noteq> Null) (rows ex)) = {}"
    by auto
  from b1 b2 p d show ?thesis by blast
qed

theorem upper_uppervalid_partition_witness:
  "first_token (index_table (example_args ''upper_objectId_jd'')) = ''upper'' \<and>
   first_token (index_table (example_args ''uppervalid_objectId_jd'')) = ''uppervalid'' \<and>
   explode_history (example_env narrowed_history []) narrowed_history =
     Inr \<lparr>schema = [''objectId_jd'', ''objectId'', ''jd'', ''fid'', ''magpsf'', ''sigmapsf'',
                    ''diffmaglim''],
          rows = [[Str ''ZTF21abcdefg_2459490'', Str ''ZTF21abcdefg'', Dbl 2459490, Long 1, Null,
                   Null, Dbl 20],
                  [Str ''ZTF21abcdefg_2459495'', Str ''ZTF21abcdefg'', Dbl 2459495, Long 2, Dbl 18,
                   Dbl 1, Dbl 21]]\<rparr> \<and>
   build_index (example_env narrowed_history []) (example_args ''upper_objectId_jd'')
       narrowed_history =
     Inr (\<lparr>schema = [''objectId_jd'', ''objectId'', ''jd'', ''fid'', ''diffmaglim''],
           rows = [[Str ''ZTF21abcdefg_2459490'', Str ''ZTF21abcdefg'', Dbl 2459490, Long 1,
                    Dbl 20]]\<rparr>, ''objectId_jd'') \<and>
   build_index (example_env narrowed_history []) (example_args ''uppervalid_objectId_jd'')
       narrowed_history =
     Inr (\<lparr>schema = [''objectId_jd'', ''objectId'', ''jd'', ''fid'', ''magpsf'', ''sigmapsf'',
                     ''diffmaglim''],
           rows = [[Str ''ZTF21abcdefg_2459495'', Str ''ZTF21abcdefg'', Dbl 2459495, Long 2,
                    Dbl 18, Dbl 1, Dbl 21]]\<rparr>, ''objectId_jd'')"
proof -
  let ?env = "example_env narrowed_history []"
  have t1: "first_token (index_table (example_args ''upper_objectId_jd'')) = ''upper''"
    by (simp add: example_args_fields first_token_def)
  have t2: "first_token (index_table (example_args ''uppervalid_objectId_jd'')) = ''uppervalid''"
    by (simp add: example_args_fields first_token_def)
  have ex: "explode_history ?env narrowed_history =
     Inr \<lparr>schema = [''objectId_jd'', ''objectId'', ''jd'', ''fid'', ''magpsf'', ''sigmapsf'',
                    ''diffmaglim''],
          rows = [[Str ''ZTF21abcdefg_2459490'', Str ''ZTF21abcdefg'', Dbl 2459490, Long 1, Null,
                   Null, Dbl 20],
                  [Str ''ZTF21abcdefg_2459495'', Str ''ZTF21abcdefg'', Dbl 2459495, Long 2, Dbl 18,
                   Dbl 1, Dbl 21]]\<rparr>"
    by (simp add: explode_history_def exploded_source_def exploded_items_def exploded_key_def
        history_cols_def narrowed_history_def engine_evals example_env_fields
        str_int_def str_nat.simps digit_char_def)
  from upper_uppervalid_partition [OF t1 t2 ex] t1 t2 ex show ?thesis
    by (simp add: drop_cols_def cell_def)
qed

subsection \<open>Attached columns\<close>

lemma withColumn_schema:
  "schema (withColumn c vs f) = (if c \<in> set (schema f) then schema f else schema f @ [c])"
  by (simp add: withColumn_def)

lemma withColumn_rows:
  assumes "list_all2 P (rows f) vs"
  shows "list_all2 (\<lambda>r r'. \<exists>v. P r v \<and> r' = attach_cell (schema f) c v r)
           (rows f) (rows (withColumn c vs f))"
proof -
  have "list_all2 (\<lambda>r r'. \<exists>v. P r v \<and> r' = attach_cell cs c v r)
          rs (map (\<lambda>(r, v). attach_cell cs c v r) (zip rs vs))" if "list_all2 P rs vs" for rs cs
    using that by (induction rule: list_all2_induct) auto
  from this [OF assms] show ?thesis by (simp add: withColumn_def)
qed

lemma cell_put_same:
  "c \<in> set cs \<Longrightarrow> length r = length cs \<Longrightarrow> cell cs (put_cell cs c v r) c = v"
proof (induction cs arbitrary: r)
  case Nil
  then show ?case by simp
next
  case (Cons n cs)
  then obtain x xs where r: "r = x # xs" by (cases r) auto
  with Cons show ?case
    by (auto simp: cell_def put_cell_def)
qed

lemma cell_put_other:
  "c' \<noteq> c \<Longrightarrow> cell cs (put_cell cs c v r) c' = cell cs r c'"
proof (induction cs arbitrary: r)
  case Nil
  then show ?case by (simp add: cell_def put_cell_def)
next
  case (Cons n cs)
  show ?case
  proof (cases r)
    case Nil
    then show ?thesis by (simp add: cell_def put_cell_def)
  next
    case (Cons x xs)
    with Cons.IH [of xs] Cons.prems show ?thesis
      by (auto simp: cell_def put_cell_def)
  qed
qed

lemma cell_append_new:
  assumes "length r = length cs"
  shows "cell (cs @ [c]) (r @ [v]) c' =
     (if c' \<in> set cs then cell cs r c' else if c' = c then v else Null)"
proof -
  from assms have "fst ` set (zip cs r) = set cs"
    by (metis map_fst_zip set_map)
  then have dom: "map_of (zip cs r) x = None \<longleftrightarrow> x \<notin> set cs" for x
    by (simp add: map_of_eq_None_iff)
  from assms have "zip (cs @ [c]) (r @ [v]) = zip cs r @ [(c, v)]"
    by simp
  then show ?thesis
    using dom [of c'] by (auto simp: cell_def map_of_append split: option.splits)
qed

lemma cell_absent: "c \<notin> set cs \<Longrightarrow> cell cs r c = Null"
proof -
  assume "c \<notin> set cs"
  then have "c \<notin> fst ` set (zip cs r)"
    by (auto dest: set_zip_leftD)
  then have "map_of (zip cs r) c = None"
    by (simp add: map_of_eq_None_iff)
  then show ?thesis by (simp add: cell_def)
qed

lemma cell_attach_same:
  "length r = length cs \<Longrightarrow>
   cell (if c \<in> set cs then cs else cs @ [c]) (attach_cell cs c v r) c = v"
  by (simp add: attach_cell_def cell_put_same cell_append_new)

lemma cell_attach_other:
  "c' \<noteq> c \<Longrightarrow> length r = length cs \<Longrightarrow>
   cell (if c \<in> set cs then cs else cs @ [c]) (attach_cell cs c v r) c' = cell cs r c'"
  by (simp add: attach_cell_def cell_put_other cell_append_new cell_absent)

lemma list_all2_compose:
  "list_all2 R xs ys \<Longrightarrow> list_all2 S ys zs \<Longrightarrow> list_all2 (\<lambda>x z. \<exists>y. R x y \<and> S y z) xs zs"
proof (induction arbitrary: zs rule: list_all2_induct)
  case Nil
  then show ?case by simp
next
  case (Cons x xs y ys)
  then show ?case by (auto simp: list_all2_Cons1)
qed

lemma row_key_single:
  assumes "row_key shw cs [c] r = Inr key" and "CHR ''.'' \<notin> set c"
  shows "\<exists>ps. ws_parts shw (cell cs r c) = Inr ps \<and> key = Str (py_join ''_'' ps)"
  using assms
  by (auto simp: row_key_def col_plain ref_value_def concat_ws_def ebind_def split: sum.splits)

subsection \<open>The pixel kind\<close>

lemma first_token_hd: "hd (split_from ''_'' [] ident) = first_token ident"
  using hd_split_from [of "CHR ''_''" "[]" ident] by (simp add: first_token_def)

lemma pixel_source_Inr:
  assumes "pixel_source env columns df = Inr src"
  shows "\<exists>a0 piece others nside pix.
      split_from ''pixel'' [] (hd columns) = a0 # piece # others \<and> py_int piece = Inr nside \<and>
      list_all2 (\<lambda>r p. ang2pix env (cell (schema df) r ''ra'') (cell (schema df) r ''dec'') nside = Inr p)
        (rows df) pix \<and>
      src = withColumn (hd columns) pix df"
proof -
  from assms obtain pieces nside pix where
    p: "py_split (hd columns) ''pixel'' = Inr pieces" and
    n: "(case pieces of a # b # others \<Rightarrow> py_int b
            | _ \<Rightarrow> Inl (IndexError ''list index out of range'')) = Inr nside" and
    x: "emap (\<lambda>r. ang2pix env (cell (schema df) r ''ra'') (cell (schema df) r ''dec'') nside)
              (rows df) = Inr pix" and
    s: "src = withColumn (hd columns) pix df"
    unfolding pixel_source_def by (auto simp: ebind_Inr_iff)
  from p have pieces: "pieces = split_from ''pixel'' [] (hd columns)"
    by (simp add: py_split_def)
  from n obtain a0 piece others where ps: "pieces = a0 # piece # others"
    and pi: "py_int piece = Inr nside"
    by (auto split: list.splits)
  from ps pieces have sp: "split_from ''pixel'' [] (hd columns) = a0 # piece # others"
    by simp
  from x have la: "list_all2
      (\<lambda>r p. ang2pix env (cell (schema df) r ''ra'') (cell (schema df) r ''dec'') nside = Inr p)
      (rows df) pix"
    by (simp add: emap_Inr_iff)
  from sp pi la s show ?thesis by blast
qed

text \<open>
  C1, as amended. For the pixel kind, on success, the row-key column carries the
  identifier's name and the output has exactly that column and \<^verbatim>\<open>objectId\<close>. Every input
  record gives one output row: the pixel index is computed from its \<^verbatim>\<open>ra\<close> and
  \<^verbatim>\<open>dec\<close> at the resolution read from the first token and stored in the column named
  by the first token, and the key is \<^verbatim>\<open>concat_ws\<close> of the values of the columns the tokens
  name. The tokens themselves are no part of the key: when the identifier is one token,
  the key is the rendering of the pixel index alone.
\<close>

theorem pixel_rows:
  assumes "kind_of (first_token (index_table a)) = Pixel"
    and "build_index env a df = Inr (out, k)"
  shows "k = index_table a \<and> schema out = [index_table a, ''objectId''] \<and>
    (\<exists>a0 piece others nside.
       split_from ''pixel'' [] (first_token (index_table a)) = a0 # piece # others \<and>
       py_int piece = Inr nside \<and>
       list_all2
         (\<lambda>r out_row. \<exists>pix key.
            ang2pix env (cell (schema df) r ''ra'') (cell (schema df) r ''dec'') nside = Inr pix \<and>
            row_key (show_double env)
              (if first_token (index_table a) \<in> set (schema df) then schema df
               else schema df @ [first_token (index_table a)])
              (split_from ''_'' [] (index_table a))
              (attach_cell (schema df) (first_token (index_table a)) pix r) = Inr key \<and>
            out_row =
              [key,
               cell (if first_token (index_table a) \<in> set (schema df) then schema df
                     else schema df @ [first_token (index_table a)])
                 (attach_cell (schema df) (first_token (index_table a)) pix r) ''objectId''] \<and>
            (split_from ''_'' [] (index_table a) = [index_table a] \<longrightarrow>
             CHR ''.'' \<notin> set (index_table a) \<longrightarrow> length r = length (schema df) \<longrightarrow>
               (\<exists>ps. ws_parts (show_double env) pix = Inr ps \<and> key = Str (py_join ''_'' ps))))
         (rows df) (rows out))"
proof -
  let ?name = "index_table a" and ?c0 = "first_token (index_table a)"
  let ?columns = "split_from ''_'' [] (index_table a)"
  let ?cs = "if ?c0 \<in> set (schema df) then schema df else schema df @ [?c0]"
  from assms(1) have "startswith ?c0 ''pixel''"
    by (auto simp: kind_of_def startswith_take eval_nat_numeral split: if_splits)
  with assms(2) have "named ?name (pixel_index env ?name ?columns df) = Inr (out, k)"
    unfolding build_index_unfold Let_def by simp
  then have k: "k = ?name" and "pixel_index env ?name ?columns df = Inr out"
    by (simp_all add: named_Inr_iff)
  then obtain src where src: "pixel_source env ?columns df = Inr src"
    and sel: "select (show_double env) (key_and ?name ?columns [''objectId'']) src = Inr out"
    by (auto simp: pixel_index_def ebind_Inr_iff)
  from pixel_source_Inr [OF src] obtain a0 piece others nside pix where
    sp: "split_from ''pixel'' [] ?c0 = a0 # piece # others" and
    pi: "py_int piece = Inr nside" and
    la: "list_all2 (\<lambda>r p. ang2pix env (cell (schema df) r ''ra'') (cell (schema df) r ''dec'') nside = Inr p)
        (rows df) pix" and
    s: "src = withColumn ?c0 pix df"
    unfolding first_token_hd by blast
  have sch: "schema src = ?cs"
    by (simp add: s withColumn_schema)
  have rs: "list_all2 (\<lambda>r r'. \<exists>v.
       ang2pix env (cell (schema df) r ''ra'') (cell (schema df) r ''dec'') nside = Inr v \<and>
       r' = attach_cell (schema df) ?c0 v r) (rows df) (rows src)"
    unfolding s by (rule withColumn_rows [OF la])
  have plain: "CHR ''.'' \<notin> set c" if "c \<in> set [''objectId'']" for c
    using that by auto
  from select_key_and [OF sel plain]
  have so: "schema out = [?name, ''objectId'']"
    and ro: "list_all2 (\<lambda>r out_row. \<exists>key. row_key (show_double env) ?cs ?columns r = Inr key \<and>
             out_row = key # map (cell ?cs r) [''objectId'']) (rows src) (rows out)"
    unfolding sch by simp_all
  have "list_all2
         (\<lambda>r out_row. \<exists>pix key.
            ang2pix env (cell (schema df) r ''ra'') (cell (schema df) r ''dec'') nside = Inr pix \<and>
            row_key (show_double env) ?cs ?columns (attach_cell (schema df) ?c0 pix r) = Inr key \<and>
            out_row = [key, cell ?cs (attach_cell (schema df) ?c0 pix r) ''objectId''] \<and>
            (?columns = [?name] \<longrightarrow> CHR ''.'' \<notin> set ?name \<longrightarrow> length r = length (schema df) \<longrightarrow>
               (\<exists>ps. ws_parts (show_double env) pix = Inr ps \<and> key = Str (py_join ''_'' ps))))
         (rows df) (rows out)"
  proof (rule list_all2_mono [OF list_all2_compose [OF rs ro]])
    fix r out_row
    assume "\<exists>r'. (\<exists>v. ang2pix env (cell (schema df) r ''ra'') (cell (schema df) r ''dec'') nside = Inr v \<and>
          r' = attach_cell (schema df) ?c0 v r) \<and>
        (\<exists>key. row_key (show_double env) ?cs ?columns r' = Inr key \<and>
             out_row = key # map (cell ?cs r') [''objectId''])"
    then obtain v key where
      v: "ang2pix env (cell (schema df) r ''ra'') (cell (schema df) r ''dec'') nside = Inr v" and
      key: "row_key (show_double env) ?cs ?columns (attach_cell (schema df) ?c0 v r) = Inr key" and
      o: "out_row = [key, cell ?cs (attach_cell (schema df) ?c0 v r) ''objectId'']"
      by auto
    have single: "\<exists>ps. ws_parts (show_double env) v = Inr ps \<and> key = Str (py_join ''_'' ps)"
      if one: "?columns = [?name]" and dot: "CHR ''.'' \<notin> set ?name"
        and len: "length r = length (schema df)"
    proof -
      from one have c0: "?c0 = ?name"
        using first_token_hd [of ?name] by simp
      from key one have "row_key (show_double env) ?cs [?name] (attach_cell (schema df) ?c0 v r) = Inr key"
        by simp
      from row_key_single [OF this dot] obtain ps where
        "ws_parts (show_double env) (cell ?cs (attach_cell (schema df) ?c0 v r) ?name) = Inr ps"
        and "key = Str (py_join ''_'' ps)"
        by blast
      moreover have "cell ?cs (attach_cell (schema df) ?c0 v r) ?name = v"
        using cell_attach_same [OF len, of ?c0 v] c0 by simp
      ultimately show ?thesis by simp
    qed
    from v key o single
    show "\<exists>pix key.
            ang2pix env (cell (schema df) r ''ra'') (cell (schema df) r ''dec'') nside = Inr pix \<and>
            row_key (show_double env) ?cs ?columns (attach_cell (schema df) ?c0 pix r) = Inr key \<and>
            out_row = [key, cell ?cs (attach_cell (schema df) ?c0 pix r) ''objectId''] \<and>
            (?columns = [?name] \<longrightarrow> CHR ''.'' \<notin> set ?name \<longrightarrow> length r = length (schema df) \<longrightarrow>
               (\<exists>ps. ws_parts (show_double env) pix = Inr ps \<and> key = Str (py_join ''_'' ps)))"
      by blast
  qed
  with k so sp pi show ?thesis by blast
qed

theorem pixel_rows_witness:
  "kind_of (first_token (index_table (example_args ''pixel128''))) = Pixel \<and>
   build_index (example_env one_alert []) (example_args ''pixel128'') one_alert =
     Inr (\<lparr>schema = [''pixel128'', ''objectId''],
           rows = [[Str ''64270'', Str ''ZTF21abcdefg'']]\<rparr>, ''pixel128'') \<and>
   ang2pix (example_env one_alert []) (Dbl 10) (Dbl 20) 128 = Inr (Long 64270) \<and>
   ws_parts (show_double (example_env one_alert [])) (Long 64270) = Inr [''64270''] \<and>
   schema \<lparr>schema = [''pixel128'', ''objectId''],
           rows = [[Str ''64270'', Str ''ZTF21abcdefg'']]\<rparr> =
     [index_table (example_args ''pixel128''), ''objectId'']"
proof -
  let ?a = "example_args ''pixel128''" and ?env = "example_env one_alert []"
  have h1: "kind_of (first_token (index_table ?a)) = Pixel"
    by (simp add: kind_of_def first_token_def example_args_fields)
  have h2: "build_index ?env ?a one_alert =
     Inr (\<lparr>schema = [''pixel128'', ''objectId''],
           rows = [[Str ''64270'', Str ''ZTF21abcdefg'']]\<rparr>, ''pixel128'')"
    by (simp add: script_evals engine_evals string_evals example_evals)
  have p: "ang2pix ?env (Dbl 10) (Dbl 20) 128 = Inr (Long 64270)"
    by (simp add: example_env_fields)
  have w: "ws_parts (show_double ?env) (Long 64270) = Inr [''64270'']"
    by (simp add: ws_parts_def str_int_def str_nat.simps digit_char_def)
  from pixel_rows [OF h1 h2]
  have "schema \<lparr>schema = [''pixel128'', ''objectId''],
           rows = [[Str ''64270'', Str ''ZTF21abcdefg'']]\<rparr> = [index_table ?a, ''objectId'']"
    by blast
  with h1 h2 p w show ?thesis by blast
qed

text \<open>
  C1, as stated, fails on the scenario it gives: with one alert at ra = 10.0, dec = 20.0
  and the kind \<^verbatim>\<open>pixel128\<close>, the key of the single output row is the pixel index (here
  64270) and not the pixel index followed by \<^verbatim>\<open>_pixel128\<close>.
\<close>

theorem pixel_key_counterexample:
  "main (example_env one_alert []) (example_args ''pixel128'') =
     Inr \<lparr>push_df = \<lparr>schema = [''pixel128'', ''objectId''],
                       rows = [[Str ''64270'', Str ''ZTF21abcdefg'']]\<rparr>,
          table_name = ''ztf.pixel128'', rowkeyname = ''pixel128'', cf = [],
          catfolder = ''/catalogs''\<rparr> \<and>
   ang2pix (example_env one_alert []) (Dbl 10) (Dbl 20) 128 = Inr (Long 64270) \<and>
   Str ''64270'' \<noteq> Str (str_int 64270 @ ''_'' @ ''pixel128'')"
  by (simp add: script_evals engine_evals string_evals example_evals)

subsection \<open>The classification kind\<close>

lemma class_source_Inr:
  assumes "class_source env df = Inr src"
  shows "\<exists>labels.
      list_all2 (\<lambda>r l. extract_fink_classification env (map (cell (schema df) r) class_inputs) = Inr l)
        (rows df) labels \<and>
      src = withColumn ''class'' labels df"
  using assms unfolding class_source_def
  by (auto simp: ebind_Inr_iff emap_Inr_iff)

lemma class_not_common: "''class'' \<notin> set common_cols"
  by (simp add: common_cols_def)

lemma common_projection_attach:
  assumes "length r = length cs" and "c \<notin> set cols"
  shows "map (cell (if c \<in> set cs then cs else cs @ [c]) (attach_cell cs c v r)) cols =
     map (cell cs r) cols"
proof (rule map_cong [OF refl])
  fix x assume "x \<in> set cols"
  with assms(2) have "x \<noteq> c" by auto
  from cell_attach_other [OF this assms(1)]
  show "cell (if c \<in> set cs then cs else cs @ [c]) (attach_cell cs c v r) x = cell cs r x" .
qed

text \<open>
  C7, as amended. For the classification kind, on success, the label of every record is
  computed from the thirteen columns of \<open>class_inputs\<close>, in that order, and stored in the
  column \<^verbatim>\<open>class\<close>; the row-key column carries the identifier's name, the key is
  \<^verbatim>\<open>concat_ws\<close> of the values of the columns the tokens name (so the label alone when the
  identifier is the one token \<^verbatim>\<open>class\<close>), and the other columns are the common
  projection of the record.
\<close>

theorem class_rows:
  assumes "kind_of (first_token (index_table a)) = Class"
    and "build_index env a df = Inr (out, k)"
  shows "length class_inputs = 13 \<and> k = index_table a \<and>
    schema out = index_table a # common_cols \<and>
    list_all2
      (\<lambda>r out_row. \<exists>label key.
         extract_fink_classification env (map (cell (schema df) r) class_inputs) = Inr label \<and>
         row_key (show_double env)
           (if ''class'' \<in> set (schema df) then schema df else schema df @ [''class''])
           (split_from ''_'' [] (index_table a))
           (attach_cell (schema df) ''class'' label r) = Inr key \<and>
         out_row =
           key # map (cell (if ''class'' \<in> set (schema df) then schema df
                            else schema df @ [''class''])
                        (attach_cell (schema df) ''class'' label r)) common_cols \<and>
         (length r = length (schema df) \<longrightarrow>
            out_row = key # map (cell (schema df) r) common_cols \<and>
            (split_from ''_'' [] (index_table a) = [index_table a] \<longrightarrow>
               (\<exists>ps. ws_parts (show_double env) label = Inr ps \<and> key = Str (py_join ''_'' ps)))))
      (rows df) (rows out)"
proof -
  let ?name = "index_table a" and ?columns = "split_from ''_'' [] (index_table a)"
  let ?cs = "if ''class'' \<in> set (schema df) then schema df else schema df @ [''class'']"
  from assms(1) have c0: "first_token ?name = ''class''"
    by (auto simp: kind_of_def split: if_splits)
  with assms(2) have "named ?name (class_index env ?name ?columns df) = Inr (out, k)"
    unfolding build_index_unfold Let_def by simp
  then have k: "k = ?name" and "class_index env ?name ?columns df = Inr out"
    by (simp_all add: named_Inr_iff)
  then obtain src where src: "class_source env df = Inr src"
    and sel: "select (show_double env) (key_and ?name ?columns common_cols) src = Inr out"
    by (auto simp: class_index_def ebind_Inr_iff)
  from class_source_Inr [OF src] obtain labels where
    la: "list_all2 (\<lambda>r l. extract_fink_classification env (map (cell (schema df) r) class_inputs) = Inr l)
        (rows df) labels" and
    s: "src = withColumn ''class'' labels df"
    by blast
  have sch: "schema src = ?cs"
    by (simp add: s withColumn_schema)
  have rs: "list_all2 (\<lambda>r r'. \<exists>v.
       extract_fink_classification env (map (cell (schema df) r) class_inputs) = Inr v \<and>
       r' = attach_cell (schema df) ''class'' v r) (rows df) (rows src)"
    unfolding s by (rule withColumn_rows [OF la])
  from select_key_and [OF sel common_cols_plain]
  have so: "schema out = ?name # common_cols"
    and ro: "list_all2 (\<lambda>r out_row. \<exists>key. row_key (show_double env) ?cs ?columns r = Inr key \<and>
             out_row = key # map (cell ?cs r) common_cols) (rows src) (rows out)"
    unfolding sch by simp_all
  have "list_all2
      (\<lambda>r out_row. \<exists>label key.
         extract_fink_classification env (map (cell (schema df) r) class_inputs) = Inr label \<and>
         row_key (show_double env) ?cs ?columns (attach_cell (schema df) ''class'' label r) = Inr key \<and>
         out_row = key # map (cell ?cs (attach_cell (schema df) ''class'' label r)) common_cols \<and>
         (length r = length (schema df) \<longrightarrow>
            out_row = key # map (cell (schema df) r) common_cols \<and>
            (?columns = [?name] \<longrightarrow>
               (\<exists>ps. ws_parts (show_double env) label = Inr ps \<and> key = Str (py_join ''_'' ps)))))
      (rows df) (rows out)"
  proof (rule list_all2_mono [OF list_all2_compose [OF rs ro]])
    fix r out_row
    assume "\<exists>r'. (\<exists>v. extract_fink_classification env (map (cell (schema df) r) class_inputs) = Inr v \<and>
          r' = attach_cell (schema df) ''class'' v r) \<and>
        (\<exists>key. row_key (show_double env) ?cs ?columns r' = Inr key \<and>
             out_row = key # map (cell ?cs r') common_cols)"
    then obtain v key where
      v: "extract_fink_classification env (map (cell (schema df) r) class_inputs) = Inr v" and
      key: "row_key (show_double env) ?cs ?columns (attach_cell (schema df) ''class'' v r) = Inr key" and
      o: "out_row = key # map (cell ?cs (attach_cell (schema df) ''class'' v r)) common_cols"
      by auto
    have wf: "out_row = key # map (cell (schema df) r) common_cols \<and>
            (?columns = [?name] \<longrightarrow>
               (\<exists>ps. ws_parts (show_double env) v = Inr ps \<and> key = Str (py_join ''_'' ps)))"
      if len: "length r = length (schema df)"
    proof -
      from o common_projection_attach [OF len class_not_common]
      have o': "out_row = key # map (cell (schema df) r) common_cols" by simp
      have single: "\<exists>ps. ws_parts (show_double env) v = Inr ps \<and> key = Str (py_join ''_'' ps)"
        if one: "?columns = [?name]"
      proof -
        from one c0 have n: "?name = ''class''"
          using first_token_hd [of ?name] by simp
        from key one n have "row_key (show_double env) ?cs [''class''] (attach_cell (schema df) ''class'' v r) = Inr key"
          by simp
        from row_key_single [OF this] obtain ps where
          "ws_parts (show_double env) (cell ?cs (attach_cell (schema df) ''class'' v r) ''class'') = Inr ps"
          and "key = Str (py_join ''_'' ps)"
          by auto
        moreover have "cell ?cs (attach_cell (schema df) ''class'' v r) ''class'' = v"
          using cell_attach_same [OF len] .
        ultimately show ?thesis by simp
      qed
      from o' single show ?thesis by blast
    qed
    from v key o wf
    show "\<exists>label key.
         extract_fink_classification env (map (cell (schema df) r) class_inputs) = Inr label \<and>
         row_key (show_double env) ?cs ?columns (attach_cell (schema df) ''class'' label r) = Inr key \<and>
         out_row = key # map (cell ?cs (attach_cell (schema df) ''class'' label r)) common_cols \<and>
         (length r = length (schema df) \<longrightarrow>
            out_row = key # map (cell (schema df) r) common_cols \<and>
            (?columns = [?name] \<longrightarrow>
               (\<exists>ps. ws_parts (show_double env) label = Inr ps \<and> key = Str (py_join ''_'' ps))))"
      by blast
  qed
  moreover have "length class_inputs = 13"
    by (simp add: class_inputs_def)
  ultimately show ?thesis using k so by blast
qed

lemma length_alert_row: "length (alert_row kv) = length common_cols"
  by (simp add: alert_row_def)

lemma resolve_common_class:
  "c \<in> set common_cols \<or> c = ''class'' \<Longrightarrow> resolve (common_cols @ [''class'']) c = Inr ()"
  by (rule resolve_distinct) (auto simp: distinct_common_cols class_not_common)

lemma cell_alert_row_class:
  "cell (common_cols @ [''class'']) (alert_row kv @ [v]) c =
     (if c \<in> set common_cols then cell common_cols (alert_row kv) c
      else if c = ''class'' then v else Null)"
  by (rule cell_append_new) (rule length_alert_row)

lemma common_projection_class:
  "map (cell (common_cols @ [''class'']) (alert_row kv @ [v])) common_cols = alert_row kv"
proof -
  have "map (cell (common_cols @ [''class'']) (alert_row kv @ [v])) common_cols =
      map (cell common_cols (alert_row kv)) common_cols"
    by (rule map_cong [OF refl]) (simp add: cell_alert_row_class)
  then show ?thesis by (simp add: common_projection_alert_row)
qed

lemma class_inputs_common: "c \<in> set class_inputs \<Longrightarrow> c \<in> set common_cols"
  by (auto simp: class_inputs_def common_cols_def)

lemma class_example:
  "build_index (example_env example_night []) (example_args ''class'') example_night =
     Inr (\<lparr>schema = ''class'' # common_cols,
           rows = [Str ''SN candidate'' # alert_row alert1, Str ''SN candidate'' # alert_row alert2,
                   Str ''SN candidate'' # alert_row alert3, Str ''SN candidate'' # alert_row alert4]\<rparr>,
          ''class'')"
proof -
  let ?env = "example_env example_night []" and ?l = "Str ''SN candidate''"
  let ?src = "\<lparr>schema = common_cols @ [''class''],
      rows = [alert_row alert1 @ [?l], alert_row alert2 @ [?l], alert_row alert3 @ [?l],
              alert_row alert4 @ [?l]]\<rparr>"
  have t: "first_token (index_table (example_args ''class'')) = ''class''"
    by (simp add: example_args_fields first_token_def)
  have cols: "split_from ''_'' [] (index_table (example_args ''class'')) = [''class'']"
    by (simp add: example_args_fields)
  have res: "emap (resolve (schema example_night)) class_inputs = Inr (map (\<lambda>c. ()) class_inputs)"
    by (rule emap_map) (simp add: example_night_fields resolve_common class_inputs_common)
  have src: "class_source ?env example_night = Inr ?src"
    unfolding class_source_def res ebind_Inr
    by (simp add: example_env_fields example_night_fields withColumn_def attach_cell_def
        class_not_common)
  have key: "row_key (show_double ?env) (common_cols @ [''class'']) [''class''] (alert_row kv @ [?l]) =
      Inr ?l" for kv
    by (simp add: row_key_def col_def ref_value_def resolve_common_class cell_alert_row_class
        class_not_common concat_ws_def ws_parts_def)
  have sel: "select (show_double ?env) (key_and ''class'' [''class''] common_cols) ?src =
      Inr \<lparr>schema = ''class'' # common_cols,
           rows = [?l # alert_row alert1, ?l # alert_row alert2, ?l # alert_row alert3,
                   ?l # alert_row alert4]\<rparr>"
    by (subst select_key_and_total [where ks = "[?l, ?l, ?l, ?l]"])
       (auto simp: common_cols_plain resolve_common_class col_def ref_column_def key
          common_projection_class)
  show ?thesis
    unfolding build_index_unfold Let_def t cols
    by (simp add: named_def class_index_def src sel example_args_fields)
qed

theorem class_rows_witness:
  "kind_of (first_token (index_table (example_args ''class''))) = Class \<and>
   build_index (example_env example_night []) (example_args ''class'') example_night =
     Inr (\<lparr>schema = ''class'' # common_cols,
           rows = [Str ''SN candidate'' # alert_row alert1, Str ''SN candidate'' # alert_row alert2,
                   Str ''SN candidate'' # alert_row alert3, Str ''SN candidate'' # alert_row alert4]\<rparr>,
          ''class'') \<and>
   length class_inputs = 13 \<and>
   schema \<lparr>schema = ''class'' # common_cols,
           rows = [Str ''SN candidate'' # alert_row alert1, Str ''SN candidate'' # alert_row alert2,
                   Str ''SN candidate'' # alert_row alert3, Str ''SN candidate'' # alert_row alert4]\<rparr> =
     index_table (example_args ''class'') # common_cols"
proof -
  have h1: "kind_of (first_token (index_table (example_args ''class''))) = Class"
    by (simp add: kind_of_def first_token_def example_args_fields)
  from class_rows [OF h1 class_example] h1 class_example show ?thesis
    by blast
qed

text \<open>
  C7, as stated, fails twice: the classifier is handed thirteen columns, not twelve, and
  for the kind \<^verbatim>\<open>class\<close> the key of a row is its label (here \<^verbatim>\<open>SN candidate\<close>), not
  the label followed by \<^verbatim>\<open>_class\<close>.
\<close>

theorem class_key_counterexample:
  "length class_inputs \<noteq> 12 \<and>
   build_index (example_env example_night []) (example_args ''class'') example_night =
     Inr (\<lparr>schema = ''class'' # common_cols,
           rows = [Str ''SN candidate'' # alert_row alert1, Str ''SN candidate'' # alert_row alert2,
                   Str ''SN candidate'' # alert_row alert3, Str ''SN candidate'' # alert_row alert4]\<rparr>,
          ''class'') \<and>
   extract_fink_classification (example_env example_night [])
       (map (cell common_cols (alert_row alert1)) class_inputs) = Inr (Str ''SN candidate'') \<and>
   Str ''SN candidate'' \<noteq> Str (''SN candidate'' @ ''_'' @ ''class'')"
  using class_example by (simp add: class_inputs_def example_env_fields)

subsection \<open>The external-catalogue kind\<close>

lemma concat_cut: "concat (cut ns xs) = xs"
  by (induction ns xs rule: cut.induct) simp_all

lemma cut_nonempty: "[] \<notin> set (cut ns xs)"
  by (induction ns xs rule: cut.induct) simp_all

lemma concat_arrow_batches: "concat (arrow_batches env rs) = rs"
  by (simp add: arrow_batches_def concat_cut)

lemma tns_label_Inr:
  assumes "tns_label type2 m = Inr l"
  shows "(snd m < 1.5 / 3600 \<longrightarrow> fst m < length type2) \<and>
     l = (if snd m < 1.5 / 3600
          then (case type2 ! fst m of None \<Rightarrow> Null | Some t \<Rightarrow> Str t)
          else Str [])"
  using assms by (cases m) (auto simp: tns_label_def split: if_splits)

lemma to_return_Inr:
  assumes "to_return sub_pdf x = Inr l" and "x \<in> set (map fst sub_pdf)"
  shows "\<exists>i<length sub_pdf. sub_pdf ! i = (x, l) \<and> (\<forall>i'<i. fst (sub_pdf ! i') \<noteq> x)"
proof -
  from assms obtain oid others where
    f: "filter (\<lambda>(oid, label). x \<noteq> Null \<and> oid = x) sub_pdf = (oid, l) # others"
    by (auto simp: to_return_def split: list.splits if_splits)
  then obtain us vs where xs: "sub_pdf = us @ (oid, l) # vs"
    and us: "\<forall>u\<in>set us. \<not> (case u of (oid, label) \<Rightarrow> x \<noteq> Null \<and> oid = x)"
    and p: "x \<noteq> Null \<and> oid = x"
    by (auto simp: filter_eq_Cons_iff)
  have "sub_pdf ! length us = (x, l)"
    using xs p by simp
  moreover have "fst (sub_pdf ! i') \<noteq> x" if "i' < length us" for i'
  proof -
    from that have "sub_pdf ! i' \<in> set us"
      using xs by (simp add: nth_append)
    with us p show ?thesis by (auto simp: case_prod_beta)
  qed
  moreover have "length us < length sub_pdf"
    using xs by simp
  ultimately show ?thesis by blast
qed

lemma crossmatch_Inr:
  assumes "crossmatch_with_tns env pdf objectid ra dec = Inr labels"
  shows "labelled_within_tolerance env pdf objectid ra dec labels"
proof -
  let ?type2 = "map tns_type pdf"
  from assms obtain m1 m2 tns where
    m2: "match_to_catalog_sky env (zip ra dec) (zip (map tns_ra pdf) (map tns_declination pdf)) = Inr m2"
    and len: "length m2 = length objectid"
    and tns: "emap (tns_label ?type2) m2 = Inr tns"
    and ret: "emap (to_return (zip objectid tns)) objectid = Inr labels"
    unfolding crossmatch_with_tns_def Let_def
    by (auto simp: ebind_Inr_iff split: if_splits)
  from tns have lt: "list_all2 (\<lambda>m l. tns_label ?type2 m = Inr l) m2 tns"
    by (simp add: emap_Inr_iff)
  then have ltn: "length tns = length objectid"
    using len by (auto dest: list_all2_lengthD)
  from ret have lr: "list_all2 (\<lambda>x l. to_return (zip objectid tns) x = Inr l) objectid labels"
    by (simp add: emap_Inr_iff)
  then have ll: "length labels = length objectid"
    by (auto dest: list_all2_lengthD)
  have rec: "(snd (m2 ! i) < 1.5 / 3600 \<longrightarrow> fst (m2 ! i) < length pdf) \<and>
      tns ! i =
        (if snd (m2 ! i) < 1.5 / 3600
         then (case tns_type (pdf ! fst (m2 ! i)) of None \<Rightarrow> Null | Some t \<Rightarrow> Str t)
         else Str [])"
    if i: "i < length objectid" for i
  proof -
    from lt i len have "tns_label ?type2 (m2 ! i) = Inr (tns ! i)"
      by (simp add: list_all2_conv_all_nth)
    from tns_label_Inr [OF this] show ?thesis by auto
  qed
  have same: "labels = tns" if d: "distinct objectid"
  proof (rule nth_equalityI)
    show "length labels = length tns" using ll ltn by simp
  next
    fix j assume "j < length labels"
    with ll have j: "j < length objectid" by simp
    from lr j have r: "to_return (zip objectid tns) (objectid ! j) = Inr (labels ! j)"
      by (simp add: list_all2_conv_all_nth)
    have "objectid ! j \<in> set (map fst (zip objectid tns))"
      using j ltn by simp
    from to_return_Inr [OF r this] obtain i where
      i: "i < length (zip objectid tns)" and
      at: "zip objectid tns ! i = (objectid ! j, labels ! j)"
      by blast
    from i ltn have il: "i < length objectid" by simp
    from at il ltn have oi: "objectid ! i = objectid ! j" and ti: "tns ! i = labels ! j"
      by simp_all
    from oi d il j have "i = j"
      by (simp add: nth_eq_iff_index_eq)
    with ti show "labels ! j = tns ! j" by simp
  qed
  from m2 len ltn ll rec same show ?thesis
    unfolding labelled_within_tolerance_def by blast
qed

lemma list_all2_filter:
  "list_all2 R xs ys \<Longrightarrow> (\<And>x y. R x y \<Longrightarrow> P x = Q y) \<Longrightarrow>
   list_all2 R (filter P xs) (filter Q ys)"
  by (induction rule: list_all2_induct) auto

lemma tns_not_common: "''tns'' \<notin> set common_cols"
  by (simp add: common_cols_def)

lemma cell_Cons: "cell (n # cs) (x # r) c = (if c = n then x else cell cs r c)"
  by (simp add: cell_def)

lemma dropped_row:
  "length r = length cs \<Longrightarrow> (\<And>n. n \<in> set cs \<Longrightarrow> n \<notin> set gone) \<Longrightarrow>
   map snd (filter (\<lambda>(n, x). n \<notin> set gone) (zip cs r)) = r"
proof (induction cs arbitrary: r)
  case Nil
  then show ?case by simp
next
  case (Cons n cs)
  then obtain x xs where "r = x # xs" by (cases r) auto
  with Cons show ?case by simp
qed

lemma tns_source_Inr:
  assumes "tns_source env a df = Inr src"
  shows "\<exists>pdf labels. tns_catalog env a = Inr pdf \<and> tns_labels env pdf df = Inr labels \<and>
     src = withColumn ''tns'' (concat labels) df"
  using assms unfolding tns_source_def by (auto simp: ebind_Inr_iff)

lemma tns_labels_Inr:
  assumes "tns_labels env pdf df = Inr labels"
  shows "list_all2
     (\<lambda>batch ls. length ls = length batch \<and>
        labelled_within_tolerance env pdf
          (map (\<lambda>r. cell (schema df) r ''objectId'') batch)
          (map (\<lambda>r. cell (schema df) r ''ra'') batch)
          (map (\<lambda>r. cell (schema df) r ''dec'') batch) ls)
     (arrow_batches env (rows df)) labels"
proof -
  from assms have "list_all2
     (\<lambda>batch ls. crossmatch_with_tns env pdf
        (map (\<lambda>r. cell (schema df) r ''objectId'') batch)
        (map (\<lambda>r. cell (schema df) r ''ra'') batch)
        (map (\<lambda>r. cell (schema df) r ''dec'') batch) = Inr ls)
     (arrow_batches env (rows df)) labels"
    by (simp add: tns_labels_def emap_Inr_iff)
  then show ?thesis
  proof (rule list_all2_mono)
    fix batch ls
    assume "crossmatch_with_tns env pdf
        (map (\<lambda>r. cell (schema df) r ''objectId'') batch)
        (map (\<lambda>r. cell (schema df) r ''ra'') batch)
        (map (\<lambda>r. cell (schema df) r ''dec'') batch) = Inr ls"
    from crossmatch_Inr [OF this]
    show "length ls = length batch \<and>
        labelled_within_tolerance env pdf
          (map (\<lambda>r. cell (schema df) r ''objectId'') batch)
          (map (\<lambda>r. cell (schema df) r ''ra'') batch)
          (map (\<lambda>r. cell (schema df) r ''dec'') batch) ls"
      by (auto simp: labelled_within_tolerance_def)
  qed
qed

lemma row_key_Cons:
  assumes "row_key shw cs (c # rest) r = Inr key" and "CHR ''.'' \<notin> set c"
  shows "\<exists>p ps. ws_parts shw (cell cs r c) = Inr p \<and> key = Str (py_join ''_'' (p @ ps))"
  using assms
  by (auto simp: row_key_def col_plain ref_value_def concat_ws_def ebind_def split: sum.splits)
    blast

lemma labelled_key:
  assumes "row_key shw cs (''tns'' # rest) r = Inr key" and "cell cs r ''tns'' = Str t"
  shows "\<exists>ps. key = Str (py_join ''_'' (t # ps))"
proof -
  from row_key_Cons [OF assms(1)] obtain p ps where
    "ws_parts shw (cell cs r ''tns'') = Inr p" and "key = Str (py_join ''_'' (p @ ps))"
    by auto
  with assms(2) show ?thesis by (auto simp: ws_parts_def)
qed

lemma list_all2_conj_filter:
  "list_all2 R (filter P xs) ys \<Longrightarrow> list_all2 (\<lambda>x y. P x \<and> R x y) (filter P xs) ys"
proof -
  assume a: "list_all2 R (filter P xs) ys"
  have "list_all2 (\<lambda>x y. P x \<and> R x y) us ys" if "list_all2 R us ys" and "\<forall>u\<in>set us. P u" for us
    using that by (induction rule: list_all2_induct) auto
  from this [OF a] show ?thesis by simp
qed

lemma tns_index_Inr:
  assumes "kind_of (first_token (index_table a)) = Tns"
    and "build_index env a df = Inr (out, k)"
  shows "k = index_table a \<and> schema out = index_table a # common_cols \<and>
    ''tns'' \<notin> set (schema out) \<and>
    (\<exists>pdf labels.
       tns_catalog env a = Inr pdf \<and> tns_labels env pdf df = Inr labels \<and>
       concat (arrow_batches env (rows df)) = rows df \<and>
       list_all2
         (\<lambda>batch ls. length ls = length batch \<and>
            labelled_within_tolerance env pdf
              (map (\<lambda>r. cell (schema df) r ''objectId'') batch)
              (map (\<lambda>r. cell (schema df) r ''ra'') batch)
              (map (\<lambda>r. cell (schema df) r ''dec'') batch) ls)
         (arrow_batches env (rows df)) labels \<and>
       list_all2
         (\<lambda>r out_row. \<exists>key t ps.
            row_key (show_double env) (schema (withColumn ''tns'' (concat labels) df))
              (split_from ''_'' [] (index_table a)) r = Inr key \<and>
            cell (schema (withColumn ''tns'' (concat labels) df)) r ''tns'' = Str t \<and> t \<noteq> [] \<and>
            key = Str (py_join ''_'' (t # ps)) \<and>
            out_row = key # map (cell (schema (withColumn ''tns'' (concat labels) df)) r) common_cols)
         (filter (\<lambda>r. case cell (schema (withColumn ''tns'' (concat labels) df)) r ''tns'' of
                          Str t \<Rightarrow> t \<noteq> [] | _ \<Rightarrow> False)
            (rows (withColumn ''tns'' (concat labels) df)))
         (rows out))"
proof -
  let ?name = "index_table a" and ?columns = "split_from ''_'' [] (index_table a)"
  from assms(1) have c0: "first_token ?name = ''tns''"
    by (auto simp: kind_of_def split: if_splits)
  then obtain rest where columns: "?columns = ''tns'' # rest"
    using first_token_hd [of ?name] split_from_nonempty [of "''_''" "[]" ?name]
    by (cases ?columns) auto
  from c0 assms(2) have "named ?name (tns_index env a ?name ?columns df) = Inr (out, k)"
    unfolding build_index_unfold Let_def by simp
  then have k: "k = ?name" and "tns_index env a ?name ?columns df = Inr out"
    by (simp_all add: named_Inr_iff)
  then obtain src df1 kept where src: "tns_source env a df = Inr src"
    and sel: "select (show_double env) (key_and ?name ?columns (common_cols @ [''tns''])) src = Inr df1"
    and res: "resolve (schema df1) ''tns'' = Inr ()"
    and flt: "filter_rows (\<lambda>r. neq_str (cell (schema df1) r ''tns'') []) df1 = Inr kept"
    and out: "out = drop_cols [''tns''] kept"
    unfolding tns_index_def by (auto simp: ebind_Inr_iff)
  from tns_source_Inr [OF src] obtain pdf labels where
    cat: "tns_catalog env a = Inr pdf" and lab: "tns_labels env pdf df = Inr labels" and
    s: "src = withColumn ''tns'' (concat labels) df"
    by blast
  let ?cs = "schema (withColumn ''tns'' (concat labels) df)"
  have plain: "CHR ''.'' \<notin> set c" if "c \<in> set (common_cols @ [''tns''])" for c
    using that common_cols_plain by auto
  from select_key_and [OF sel plain]
  have s1: "schema df1 = ?name # common_cols @ [''tns'']"
    and r1: "list_all2 (\<lambda>r row. \<exists>key. row_key (show_double env) ?cs ?columns r = Inr key \<and>
             row = key # map (cell ?cs r) (common_cols @ [''tns''])) (rows src) (rows df1)"
    unfolding s by simp_all
  from res have ne: "?name \<noteq> ''tns''"
    unfolding s1 by (auto simp: resolve_def split: if_splits)
  from filter_rows_Inr [OF flt]
  have s2: "schema kept = ?name # common_cols @ [''tns'']"
    and r2: "rows kept = filter (\<lambda>row. neq_str (cell (?name # common_cols @ [''tns'']) row ''tns'') [] =
        Inr (Some True)) (rows df1)"
    by (simp_all add: s1)
  have so: "schema out = ?name # common_cols"
    using ne tns_not_common by (auto simp: out drop_cols_def s2 filter_id_conv)
  have lab_cell: "cell (?name # common_cols @ [''tns'']) (key # map f common_cols @ [v]) ''tns'' = v"
    for key f v
    using ne by (simp add: cell_Cons cell_append_new tns_not_common)
  have r3: "list_all2 (\<lambda>r row. \<exists>key. row_key (show_double env) ?cs ?columns r = Inr key \<and>
             row = key # map (cell ?cs r) (common_cols @ [''tns'']))
      (filter (\<lambda>r. case cell ?cs r ''tns'' of Str t \<Rightarrow> t \<noteq> [] | _ \<Rightarrow> False) (rows src))
      (rows kept)"
    unfolding r2
  proof (rule list_all2_filter [OF r1])
    fix r row
    assume "\<exists>key. row_key (show_double env) ?cs ?columns r = Inr key \<and>
             row = key # map (cell ?cs r) (common_cols @ [''tns''])"
    then obtain key where "row = key # map (cell ?cs r) common_cols @ [cell ?cs r ''tns'']"
      by auto
    then have "cell (?name # common_cols @ [''tns'']) row ''tns'' = cell ?cs r ''tns''"
      by (simp add: lab_cell)
    then show "(case cell ?cs r ''tns'' of Str t \<Rightarrow> t \<noteq> [] | _ \<Rightarrow> False) =
        (neq_str (cell (?name # common_cols @ [''tns'']) row ''tns'') [] = Inr (Some True))"
      by (cases "cell ?cs r ''tns''") (simp_all add: neq_str_def)
  qed
  have dropped: "map snd (filter (\<lambda>(n, x). n \<noteq> ''tns'') (zip common_cols (map f common_cols))) =
      map f common_cols" for f :: "string \<Rightarrow> datum"
    using dropped_row [of "map f common_cols" common_cols "[''tns'']"] tns_not_common
    by auto
  have ro: "rows out = map (\<lambda>row. map snd (filter (\<lambda>(n, x). n \<notin> set [''tns''])
        (zip (?name # common_cols @ [''tns'']) row))) (rows kept)"
    by (simp add: out drop_cols_def s2)
  have r4: "list_all2
         (\<lambda>r out_row. \<exists>key t ps.
            row_key (show_double env) ?cs ?columns r = Inr key \<and>
            cell ?cs r ''tns'' = Str t \<and> t \<noteq> [] \<and>
            key = Str (py_join ''_'' (t # ps)) \<and>
            out_row = key # map (cell ?cs r) common_cols)
         (filter (\<lambda>r. case cell ?cs r ''tns'' of Str t \<Rightarrow> t \<noteq> [] | _ \<Rightarrow> False) (rows src))
         (rows out)"
    unfolding ro list_all2_map2
  proof (rule list_all2_mono [OF list_all2_conj_filter])
    show "list_all2 (\<lambda>r row. \<exists>key. row_key (show_double env) ?cs ?columns r = Inr key \<and>
             row = key # map (cell ?cs r) (common_cols @ [''tns'']))
      (filter (\<lambda>r. case cell ?cs r ''tns'' of Str t \<Rightarrow> t \<noteq> [] | _ \<Rightarrow> False) (rows src))
      (rows kept)"
      by (rule r3)
  next
    fix r row
    assume a: "(case cell ?cs r ''tns'' of Str t \<Rightarrow> t \<noteq> [] | _ \<Rightarrow> False) \<and>
      (\<exists>key. row_key (show_double env) ?cs ?columns r = Inr key \<and>
             row = key # map (cell ?cs r) (common_cols @ [''tns'']))"
    then obtain key where key: "row_key (show_double env) ?cs ?columns r = Inr key"
      and row: "row = key # map (cell ?cs r) common_cols @ [cell ?cs r ''tns'']"
      by auto
    from a obtain t where t: "cell ?cs r ''tns'' = Str t" "t \<noteq> []"
      by (cases "cell ?cs r ''tns''") auto
    have "map snd (filter (\<lambda>(n, x). n \<notin> set [''tns''])
        (zip (?name # common_cols @ [''tns'']) row)) = key # map (cell ?cs r) common_cols"
      unfolding row using ne dropped
      by simp
    moreover from labelled_key [OF key [unfolded columns] t(1)] obtain ps where
      "key = Str (py_join ''_'' (t # ps))"
      by blast
    ultimately show "\<exists>key t ps.
            row_key (show_double env) ?cs ?columns r = Inr key \<and>
            cell ?cs r ''tns'' = Str t \<and> t \<noteq> [] \<and>
            key = Str (py_join ''_'' (t # ps)) \<and>
            map snd (filter (\<lambda>(n, x). n \<notin> set [''tns''])
              (zip (?name # common_cols @ [''tns'']) row)) = key # map (cell ?cs r) common_cols"
      using key t
      by (intro exI [of _ key] exI [of _ t] exI [of _ ps] conjI)
  qed
  from so tns_not_common ne have nt: "''tns'' \<notin> set (schema out)" by auto
  from k so nt cat lab concat_arrow_batches tns_labels_Inr [OF lab] r4 [unfolded s] show ?thesis
    by blast
qed

lemma list_all2_choice:
  "list_all2 (\<lambda>x y. \<exists>z. Q x y z) xs ys \<Longrightarrow>
   \<exists>zs. length zs = length xs \<and> (\<forall>i<length xs. Q (xs ! i) (ys ! i) (zs ! i))"
proof (induction rule: list_all2_induct)
  case Nil
  then show ?case by simp
next
  case (Cons x xs y ys)
  then obtain z zs where z: "Q x y z" and zs: "length zs = length xs"
    "\<forall>i<length xs. Q (xs ! i) (ys ! i) (zs ! i)"
    by blast
  have "\<forall>i<length (x # xs). Q ((x # xs) ! i) ((y # ys) ! i) ((z # zs) ! i)"
    using z zs(2) by (auto simp: nth_Cons split: nat.splits)
  with zs(1) show ?case
    by (intro exI [of _ "z # zs"]) simp
qed

lemma list_all2_concat:
  "list_all2 (list_all2 P) xss yss \<Longrightarrow> list_all2 P (concat xss) (concat yss)"
  by (induction rule: list_all2_induct) (auto intro: list_all2_appendI)

lemma length_concat_all2:
  "list_all2 (\<lambda>xs ys. length ys = length xs) xss yss \<Longrightarrow> length (concat yss) = length (concat xss)"
  by (induction rule: list_all2_induct) auto

lemma map_zip_third:
  "length ys = length zs \<Longrightarrow>
   map (\<lambda>(x, y, z). f x y) (zip xs (zip ys zs)) = map (\<lambda>(x, y). f x y) (zip xs ys)"
proof (induction ys zs arbitrary: xs rule: list_induct2)
  case Nil
  then show ?case by simp
next
  case (Cons y ys z zs)
  then show ?case by (cases xs) simp_all
qed

lemma list_all2_with:
  "list_all2 R xs ys \<Longrightarrow> \<forall>x\<in>set xs. P x \<Longrightarrow> list_all2 (\<lambda>x y. R x y \<and> P x) xs ys"
  by (induction rule: list_all2_induct) auto

lemma tns_index_rows:
  assumes "kind_of (first_token (index_table a)) = Tns"
    and "build_index env a df = Inr (out, k)"
  shows "k = index_table a \<and> schema out = index_table a # common_cols \<and>
    ''tns'' \<notin> set (schema out) \<and>
    (\<exists>pdf labels matches.
       tns_catalog env a = Inr pdf \<and> tns_labels env pdf df = Inr labels \<and>
       concat (arrow_batches env (rows df)) = rows df \<and>
       list_all2
         (\<lambda>batch ls. length ls = length batch \<and>
            labelled_within_tolerance env pdf
              (map (\<lambda>r. cell (schema df) r ''objectId'') batch)
              (map (\<lambda>r. cell (schema df) r ''ra'') batch)
              (map (\<lambda>r. cell (schema df) r ''dec'') batch) ls)
         (arrow_batches env (rows df)) labels \<and>
       list_all2
         (\<lambda>batch m2.
            match_to_catalog_sky env
              (zip (map (\<lambda>r. cell (schema df) r ''ra'') batch)
                   (map (\<lambda>r. cell (schema df) r ''dec'') batch))
              (zip (map tns_ra pdf) (map tns_declination pdf)) = Inr m2 \<and>
            length m2 = length batch)
         (arrow_batches env (rows df)) matches \<and>
       list_all2
         (\<lambda>(r, l, m) out_row. \<exists>key t ps.
            row_key (show_double env) (schema (withColumn ''tns'' (concat labels) df))
              (split_from ''_'' [] (index_table a)) (attach_cell (schema df) ''tns'' l r) = Inr key \<and>
            cell (schema (withColumn ''tns'' (concat labels) df))
              (attach_cell (schema df) ''tns'' l r) ''tns'' = Str t \<and> t \<noteq> [] \<and>
            key = Str (py_join ''_'' (t # ps)) \<and>
            out_row = key # map (cell (schema (withColumn ''tns'' (concat labels) df))
              (attach_cell (schema df) ''tns'' l r)) common_cols \<and>
            (length r = length (schema df) \<and>
             (\<forall>batch\<in>set (arrow_batches env (rows df)).
                distinct (map (\<lambda>r. cell (schema df) r ''objectId'') batch)) \<longrightarrow>
             l = Str t \<and> snd m < 1.5 / 3600 \<and> fst m < length pdf \<and>
             tns_type (pdf ! fst m) = Some t))
         (filter (\<lambda>(r, l, m).
              case cell (schema (withColumn ''tns'' (concat labels) df))
                     (attach_cell (schema df) ''tns'' l r) ''tns'' of
                Str t \<Rightarrow> t \<noteq> [] | _ \<Rightarrow> False)
            (zip (rows df) (zip (concat labels) (concat matches))))
         (rows out))"
proof -
  let ?bs = "arrow_batches env (rows df)" and ?cs = "schema df"
  let ?oid = "\<lambda>batch. map (\<lambda>r. cell (schema df) r ''objectId'') batch"
  let ?ra = "\<lambda>batch. map (\<lambda>r. cell (schema df) r ''ra'') batch"
  let ?dec = "\<lambda>batch. map (\<lambda>r. cell (schema df) r ''dec'') batch"
  let ?D = "\<forall>batch\<in>set ?bs. distinct (?oid batch)"
  from tns_index_Inr [OF assms] obtain pdf labels where
    names: "k = index_table a" "schema out = index_table a # common_cols"
      "''tns'' \<notin> set (schema out)" and
    cat: "tns_catalog env a = Inr pdf" and lab: "tns_labels env pdf df = Inr labels" and
    cc: "concat ?bs = rows df" and
    B: "list_all2
         (\<lambda>batch ls. length ls = length batch \<and>
            labelled_within_tolerance env pdf (?oid batch) (?ra batch) (?dec batch) ls)
         ?bs labels" and
    R: "list_all2
         (\<lambda>r out_row. \<exists>key t ps.
            row_key (show_double env) (schema (withColumn ''tns'' (concat labels) df))
              (split_from ''_'' [] (index_table a)) r = Inr key \<and>
            cell (schema (withColumn ''tns'' (concat labels) df)) r ''tns'' = Str t \<and> t \<noteq> [] \<and>
            key = Str (py_join ''_'' (t # ps)) \<and>
            out_row = key # map (cell (schema (withColumn ''tns'' (concat labels) df)) r) common_cols)
         (filter (\<lambda>r. case cell (schema (withColumn ''tns'' (concat labels) df)) r ''tns'' of
                          Str t \<Rightarrow> t \<noteq> [] | _ \<Rightarrow> False)
            (rows (withColumn ''tns'' (concat labels) df)))
         (rows out)"
    by blast
  let ?cs' = "schema (withColumn ''tns'' (concat labels) df)"
  let ?cat = "zip (map tns_ra pdf) (map tns_declination pdf)"
  let ?G = "\<lambda>l m. (snd m < 1.5 / 3600 \<longrightarrow> fst m < length pdf) \<and>
      l = (if snd m < 1.5 / 3600
           then (case tns_type (pdf ! fst m) of None \<Rightarrow> Null | Some t \<Rightarrow> Str t)
           else Str [])"
  let ?Q = "\<lambda>batch ls m2.
      match_to_catalog_sky env (zip (?ra batch) (?dec batch)) ?cat = Inr m2 \<and>
      length m2 = length batch \<and> (distinct (?oid batch) \<longrightarrow> list_all2 ?G ls m2)"
  have "list_all2 (\<lambda>batch ls. \<exists>m2. ?Q batch ls m2) ?bs labels"
    using B
  proof (rule list_all2_mono)
    fix batch ls
    assume "length ls = length batch \<and>
      labelled_within_tolerance env pdf (?oid batch) (?ra batch) (?dec batch) ls"
    then obtain m2 recorded where
      m: "match_to_catalog_sky env (zip (?ra batch) (?dec batch)) ?cat = Inr m2" and
      l: "length m2 = length batch" "length recorded = length batch" "length ls = length batch" and
      g: "\<forall>i<length batch. ?G (recorded ! i) (m2 ! i)" and
      d: "distinct (?oid batch) \<longrightarrow> ls = recorded"
      unfolding labelled_within_tolerance_def by auto
    have "list_all2 ?G ls m2" if "distinct (?oid batch)"
      using that d g l by (simp add: list_all2_conv_all_nth)
    with m l show "\<exists>m2. ?Q batch ls m2" by blast
  qed
  from list_all2_choice [OF this] obtain matches where
    lm: "length matches = length ?bs" and
    q: "\<forall>i<length ?bs. ?Q (?bs ! i) (labels ! i) (matches ! i)"
    by blast
  from B have ll: "length labels = length ?bs"
    by (simp add: list_all2_lengthD)
  have M: "list_all2
      (\<lambda>batch m2. match_to_catalog_sky env (zip (?ra batch) (?dec batch)) ?cat = Inr m2 \<and>
         length m2 = length batch) ?bs matches"
    using lm q by (simp add: list_all2_conv_all_nth)
  have "list_all2 (\<lambda>batch ls. length ls = length batch) ?bs labels"
    using B by (rule list_all2_mono) simp
  from length_concat_all2 [OF this] cc have len_l: "length (concat labels) = length (rows df)"
    by simp
  have "list_all2 (\<lambda>batch m2. length m2 = length batch) ?bs matches"
    using M by (rule list_all2_mono) simp
  from length_concat_all2 [OF this] cc have len_m: "length (concat matches) = length (rows df)"
    by simp
  have G: "list_all2 ?G (concat labels) (concat matches)" if D: ?D
  proof (rule list_all2_concat)
    show "list_all2 (list_all2 ?G) labels matches"
    proof (rule list_all2_all_nthI)
      show "length labels = length matches" using ll lm by simp
    next
      fix i assume "i < length labels"
      with ll have i: "i < length ?bs" by simp
      then have "?bs ! i \<in> set ?bs" by simp
      with D have "distinct (?oid (?bs ! i))" by blast
      with q i show "list_all2 ?G (labels ! i) (matches ! i)" by blast
    qed
  qed
  let ?T = "zip (rows df) (zip (concat labels) (concat matches))"
  let ?g = "\<lambda>(r, l, m :: nat \<times> real). attach_cell ?cs ''tns'' l r"
  let ?F = "\<lambda>r. case cell ?cs' r ''tns'' of Str t \<Rightarrow> t \<noteq> [] | _ \<Rightarrow> False"
  have rows': "rows (withColumn ''tns'' (concat labels) df) = map ?g ?T"
    using map_zip_third [of "concat labels" "concat matches"
        "\<lambda>r l. attach_cell ?cs ''tns'' l r" "rows df"] len_l len_m
    by (simp add: withColumn_def)
  have R': "list_all2
      (\<lambda>x out_row. \<exists>key t ps.
            row_key (show_double env) ?cs' (split_from ''_'' [] (index_table a)) (?g x) = Inr key \<and>
            cell ?cs' (?g x) ''tns'' = Str t \<and> t \<noteq> [] \<and>
            key = Str (py_join ''_'' (t # ps)) \<and>
            out_row = key # map (cell ?cs' (?g x)) common_cols)
      (filter (\<lambda>x. ?F (?g x)) ?T) (rows out)"
    using R unfolding rows' filter_map list_all2_map1 by (simp add: comp_def)
  let ?P = "\<lambda>(r, l, m).
      (length r = length ?cs \<longrightarrow> cell ?cs' (attach_cell ?cs ''tns'' l r) ''tns'' = l) \<and>
      (?D \<longrightarrow> ?G l m)"
  have facts: "\<forall>x\<in>set (filter (\<lambda>x. ?F (?g x)) ?T). ?P x"
  proof
    fix x assume "x \<in> set (filter (\<lambda>x. ?F (?g x)) ?T)"
    then have x: "x \<in> set ?T" by simp
    obtain r l m where xt: "x = (r, l, m)" by (cases x) auto
    from x xt have lm': "(l, m) \<in> set (zip (concat labels) (concat matches))"
      by (auto dest: set_zip_rightD)
    have "?G l m" if ?D
      using G [OF that] lm' by (auto simp: list_all2_iff)
    moreover have "cell ?cs' (attach_cell ?cs ''tns'' l r) ''tns'' = l" if "length r = length ?cs"
      using cell_attach_same [OF that, of "''tns''" l] by (simp add: withColumn_schema)
    ultimately show "?P x"
      unfolding xt by simp
  qed
  have rows_out: "list_all2
         (\<lambda>(r, l, m) out_row. \<exists>key t ps.
            row_key (show_double env) ?cs' (split_from ''_'' [] (index_table a))
              (attach_cell ?cs ''tns'' l r) = Inr key \<and>
            cell ?cs' (attach_cell ?cs ''tns'' l r) ''tns'' = Str t \<and> t \<noteq> [] \<and>
            key = Str (py_join ''_'' (t # ps)) \<and>
            out_row = key # map (cell ?cs' (attach_cell ?cs ''tns'' l r)) common_cols \<and>
            (length r = length ?cs \<and> ?D \<longrightarrow>
             l = Str t \<and> snd m < 1.5 / 3600 \<and> fst m < length pdf \<and>
             tns_type (pdf ! fst m) = Some t))
         (filter (\<lambda>(r, l, m). ?F (attach_cell ?cs ''tns'' l r)) ?T)
         (rows out)"
  proof -
    have same: "(\<lambda>x. ?F (?g x)) = (\<lambda>(r, l, m). ?F (attach_cell ?cs ''tns'' l r))"
      by (simp add: fun_eq_iff)
    show ?thesis
      unfolding same [symmetric]
    proof (rule list_all2_mono [OF list_all2_with [OF R' facts]], goal_cases)
      case (1 x out_row)
      note a = 1
      obtain r l m where xt: "x = (r, l, m)" by (cases x) auto
      from a xt obtain key t ps where
        key: "row_key (show_double env) ?cs' (split_from ''_'' [] (index_table a))
              (attach_cell ?cs ''tns'' l r) = Inr key" and
        t: "cell ?cs' (attach_cell ?cs ''tns'' l r) ''tns'' = Str t" "t \<noteq> []" and
        k: "key = Str (py_join ''_'' (t # ps))" and
        o: "out_row = key # map (cell ?cs' (attach_cell ?cs ''tns'' l r)) common_cols"
        by auto
      from a xt have p1: "length r = length ?cs \<longrightarrow> cell ?cs' (attach_cell ?cs ''tns'' l r) ''tns'' = l"
        and p2: "?D \<longrightarrow> ?G l m"
        by auto
      have "l = Str t \<and> snd m < 1.5 / 3600 \<and> fst m < length pdf \<and> tns_type (pdf ! fst m) = Some t"
        if "length r = length ?cs \<and> ?D"
      proof -
        from that p1 t have l: "l = Str t" by simp
        from that p2 have g: "?G l m" by blast
        from g l t(2) have sep: "snd m < 1.5 / 3600"
          by (auto split: if_splits)
        with g l have "fst m < length pdf" and "tns_type (pdf ! fst m) = Some t"
          by (auto split: option.splits)
        with l sep show ?thesis by simp
      qed
      with key t k o show ?case
        unfolding xt prod.case by blast
    qed
  qed
  from names cat lab cc B M rows_out show ?thesis
    by blast
qed

text \<open>
  C4, as amended. For the external-catalogue kind, on success, the output has the row
  key and the common projection and no column \<^verbatim>\<open>tns\<close>; its rows are, in order, the
  projections of exactly the labelled records whose label is a string other than the
  empty one; the label is all the same in the output, as the first component of the row
  key. The batches the cross-match is called on are the records of the input, in order;
  for every alert of a batch it records the type of the nearest catalogue entry when
  that entry lies at a separation below 1.5/3600 degrees and the empty string otherwise,
  and where no two alerts of a batch carry the same object identifier, the label of a
  record is the one recorded for it: a record with a cell for every column then is in
  the output only when the matcher reports, for this record, a separation below
  1.5/3600 degrees, and its label is the type of the catalogue entry the matcher names.
\<close>

theorem tns_rows:
  assumes "kind_of (first_token (index_table a)) = Tns"
    and "build_index env a df = Inr (out, k)"
  shows "k = index_table a \<and> schema out = index_table a # common_cols \<and>
    ''tns'' \<notin> set (schema out) \<and>
    (\<exists>pdf labels matches.
       tns_catalog env a = Inr pdf \<and> tns_labels env pdf df = Inr labels \<and>
       concat (arrow_batches env (rows df)) = rows df \<and>
       list_all2
         (\<lambda>batch ls. length ls = length batch \<and>
            labelled_within_tolerance env pdf
              (map (\<lambda>r. cell (schema df) r ''objectId'') batch)
              (map (\<lambda>r. cell (schema df) r ''ra'') batch)
              (map (\<lambda>r. cell (schema df) r ''dec'') batch) ls)
         (arrow_batches env (rows df)) labels \<and>
       list_all2
         (\<lambda>batch m2.
            match_to_catalog_sky env
              (zip (map (\<lambda>r. cell (schema df) r ''ra'') batch)
                   (map (\<lambda>r. cell (schema df) r ''dec'') batch))
              (zip (map tns_ra pdf) (map tns_declination pdf)) = Inr m2 \<and>
            length m2 = length batch)
         (arrow_batches env (rows df)) matches \<and>
       list_all2
         (\<lambda>(r, l, m) out_row. \<exists>key t ps.
            row_key (show_double env) (schema (withColumn ''tns'' (concat labels) df))
              (split_from ''_'' [] (index_table a)) (attach_cell (schema df) ''tns'' l r) = Inr key \<and>
            cell (schema (withColumn ''tns'' (concat labels) df))
              (attach_cell (schema df) ''tns'' l r) ''tns'' = Str t \<and> t \<noteq> [] \<and>
            key = Str (py_join ''_'' (t # ps)) \<and>
            out_row = key # map (cell (schema (withColumn ''tns'' (concat labels) df))
              (attach_cell (schema df) ''tns'' l r)) common_cols \<and>
            (length r = length (schema df) \<and>
             (\<forall>batch\<in>set (arrow_batches env (rows df)).
                distinct (map (\<lambda>r. cell (schema df) r ''objectId'') batch)) \<longrightarrow>
             l = Str t \<and> snd m < 1.5 / 3600 \<and> fst m < length pdf \<and>
             tns_type (pdf ! fst m) = Some t))
         (filter (\<lambda>(r, l, m).
              case cell (schema (withColumn ''tns'' (concat labels) df))
                     (attach_cell (schema df) ''tns'' l r) ''tns'' of
                Str t \<Rightarrow> t \<noteq> [] | _ \<Rightarrow> False)
            (zip (rows df) (zip (concat labels) (concat matches))))
         (rows out))"
  using assms by (rule tns_index_rows)

lemma resolve_common_tns:
  "c \<in> set common_cols \<or> c = ''tns'' \<Longrightarrow> resolve (common_cols @ [''tns'']) c = Inr ()"
  by (rule resolve_distinct) (auto simp: distinct_common_cols tns_not_common)

lemma cell_alert_row_tns:
  "cell (common_cols @ [''tns'']) (alert_row kv @ [v]) c =
     (if c \<in> set common_cols then cell common_cols (alert_row kv) c
      else if c = ''tns'' then v else Null)"
  by (rule cell_append_new) (rule length_alert_row)

lemma common_projection_tns:
  "map (cell (common_cols @ [''tns'']) (alert_row kv @ [v])) (common_cols @ [''tns'']) =
     alert_row kv @ [v]"
proof -
  have "map (cell (common_cols @ [''tns'']) (alert_row kv @ [v])) common_cols =
      map (cell common_cols (alert_row kv)) common_cols"
    by (rule map_cong [OF refl]) (simp add: cell_alert_row_tns)
  then show ?thesis
    by (simp add: common_projection_alert_row cell_alert_row_tns tns_not_common)
qed

lemma single_visits_fields:
  "schema single_visits = common_cols"
  "rows single_visits = [alert_row alert1, alert_row alert3, alert_row alert4]"
  by (simp_all add: single_visits_def)

lemma tns_single_visits_labels:
  "tns_labels (example_env single_visits [(0, 1 / 3600), (0, 40), (0, 50)])
       [\<lparr>tns_ra = Dbl 10, tns_declination = Dbl 20, tns_type = Some ''SN Ia''\<rparr>] single_visits =
     Inr [[Str ''SN Ia'', Str [], Str []]]"
  by (simp add: tns_labels_def arrow_batches_def example_env_fields single_visits_fields
      crossmatch_with_tns_def Let_def cell_alert_row common_members alerts tns_label_def
      to_return_def)

lemma tns_single_visits:
  "build_index (example_env single_visits [(0, 1 / 3600), (0, 40), (0, 50)])
       (example_args ''tns_candid'') single_visits =
     Inr (\<lparr>schema = ''tns_candid'' # common_cols,
           rows = [Str ''SN Ia_1'' # alert_row alert1]\<rparr>,
          ''tns_candid'')"
proof -
  let ?env = "example_env single_visits [(0, 1 / 3600), (0, 40), (0, 50)]"
  let ?a = "example_args ''tns_candid''"
  let ?pdf = "[\<lparr>tns_ra = Dbl 10, tns_declination = Dbl 20, tns_type = Some ''SN Ia''\<rparr>]"
  let ?src = "\<lparr>schema = common_cols @ [''tns''],
      rows = [alert_row alert1 @ [Str ''SN Ia''], alert_row alert3 @ [Str []], alert_row alert4 @ [Str []]]\<rparr>"
  let ?cs1 = "''tns_candid'' # common_cols @ [''tns'']"
  let ?df1 = "\<lparr>schema = ?cs1,
      rows = [Str ''SN Ia_1'' # alert_row alert1 @ [Str ''SN Ia''],
              Str ''_3'' # alert_row alert3 @ [Str []],
              Str ''_4'' # alert_row alert4 @ [Str []]]\<rparr>"
  have t: "first_token (index_table ?a) = ''tns''"
    by (simp add: example_args_fields first_token_def)
  have cols: "split_from ''_'' [] (index_table ?a) = [''tns'', ''candid'']"
    by (simp add: example_args_fields)
  have cat: "tns_catalog ?env ?a = Inr ?pdf"
    by (simp add: tns_catalog_def example_env_fields Let_def)
  have res: "emap (resolve (schema single_visits)) [''objectId'', ''ra'', ''dec''] = Inr [(), (), ()]"
    by (simp add: single_visits_fields resolve_common common_members)
  have src: "tns_source ?env ?a single_visits = Inr ?src"
    unfolding tns_source_def cat ebind_Inr res tns_single_visits_labels
    by (simp add: single_visits_fields withColumn_def attach_cell_def tns_not_common)
  have keys:
    "row_key (\<lambda>x. str_int (floor x)) (common_cols @ [''tns'']) [''tns'', ''candid'']
       (alert_row alert1 @ [Str ''SN Ia'']) = Inr (Str ''SN Ia_1'')"
    "row_key (\<lambda>x. str_int (floor x)) (common_cols @ [''tns'']) [''tns'', ''candid'']
       (alert_row alert3 @ [Str []]) = Inr (Str ''_3'')"
    "row_key (\<lambda>x. str_int (floor x)) (common_cols @ [''tns'']) [''tns'', ''candid'']
       (alert_row alert4 @ [Str []]) = Inr (Str ''_4'')"
    by (simp_all add: row_key_def col_def ref_value_def resolve_common_tns cell_alert_row_tns
        tns_not_common common_members cell_alert_row alerts concat_ws_def ws_parts_def
        str_int_def str_nat.simps digit_char_def)
  have sel: "select (show_double ?env)
        (key_and ''tns_candid'' [''tns'', ''candid''] (common_cols @ [''tns''])) ?src =
      Inr ?df1"
    by (subst select_key_and_total [where ks = "[Str ''SN Ia_1'', Str ''_3'', Str ''_4'']"])
       (auto simp: common_cols_plain resolve_common_tns col_def ref_column_def common_members keys
          common_projection_tns example_env_fields simp del: map_append)
  have name: "''tns_candid'' \<notin> set common_cols"
    by (simp add: common_cols_def)
  have r1: "resolve ?cs1 ''tns'' = Inr ()"
    by (rule resolve_distinct) (use name in \<open>auto simp: distinct_common_cols tns_not_common\<close>)
  have lab: "cell ?cs1 (key # alert_row kv @ [v]) ''tns'' = v" for key kv v
    by (simp add: cell_Cons cell_alert_row_tns tns_not_common)
  have flt: "filter_rows (\<lambda>r. neq_str (cell ?cs1 r ''tns'') []) ?df1 =
      Inr \<lparr>schema = ?cs1, rows = [Str ''SN Ia_1'' # alert_row alert1 @ [Str ''SN Ia'']]\<rparr>"
    by (subst filter_rows_total) (auto simp: lab neq_str_def)
  have dropped: "map snd (filter (\<lambda>(n, x). n \<noteq> ''tns'') (zip common_cols (alert_row kv))) =
      alert_row kv" for kv
    using dropped_row [of "alert_row kv" common_cols "[''tns'']"] tns_not_common length_alert_row
    by auto
  have drp: "drop_cols [''tns'']
        \<lparr>schema = ?cs1, rows = [Str ''SN Ia_1'' # alert_row alert1 @ [Str ''SN Ia'']]\<rparr> =
      \<lparr>schema = ''tns_candid'' # common_cols,
       rows = [Str ''SN Ia_1'' # alert_row alert1]\<rparr>"
    using tns_not_common
    by (auto simp: drop_cols_def filter_id_conv length_alert_row dropped)
  show ?thesis
    unfolding build_index_unfold Let_def t cols
    by (simp add: named_def tns_index_def src sel r1 flt drp example_args_fields)
qed

lemma tns_example_labels:
  "tns_labels (example_env example_night [(0, 1 / 3600), (0, 1 / 1800), (0, 40), (0, 50)])
       [\<lparr>tns_ra = Dbl 10, tns_declination = Dbl 20, tns_type = Some ''SN Ia''\<rparr>] example_night =
     Inr [[Str ''SN Ia'', Str ''SN Ia'', Str [], Str []]]"
  by (simp add: tns_labels_def arrow_batches_def example_env_fields example_night_fields
      crossmatch_with_tns_def Let_def cell_alert_row common_members alerts tns_label_def
      to_return_def)

lemma tns_example:
  "build_index (example_env example_night [(0, 1 / 3600), (0, 1 / 1800), (0, 40), (0, 50)])
       (example_args ''tns_candid'') example_night =
     Inr (\<lparr>schema = ''tns_candid'' # common_cols,
           rows = [Str ''SN Ia_1'' # alert_row alert1,
                   Str ''SN Ia_2'' # alert_row alert2]\<rparr>,
          ''tns_candid'')"
proof -
  let ?env = "example_env example_night [(0, 1 / 3600), (0, 1 / 1800), (0, 40), (0, 50)]"
  let ?a = "example_args ''tns_candid''"
  let ?pdf = "[\<lparr>tns_ra = Dbl 10, tns_declination = Dbl 20, tns_type = Some ''SN Ia''\<rparr>]"
  let ?src = "\<lparr>schema = common_cols @ [''tns''],
      rows = [alert_row alert1 @ [Str ''SN Ia''], alert_row alert2 @ [Str ''SN Ia''], alert_row alert3 @ [Str []], alert_row alert4 @ [Str []]]\<rparr>"
  let ?cs1 = "''tns_candid'' # common_cols @ [''tns'']"
  let ?df1 = "\<lparr>schema = ?cs1,
      rows = [Str ''SN Ia_1'' # alert_row alert1 @ [Str ''SN Ia''],
              Str ''SN Ia_2'' # alert_row alert2 @ [Str ''SN Ia''],
              Str ''_3'' # alert_row alert3 @ [Str []],
              Str ''_4'' # alert_row alert4 @ [Str []]]\<rparr>"
  have t: "first_token (index_table ?a) = ''tns''"
    by (simp add: example_args_fields first_token_def)
  have cols: "split_from ''_'' [] (index_table ?a) = [''tns'', ''candid'']"
    by (simp add: example_args_fields)
  have cat: "tns_catalog ?env ?a = Inr ?pdf"
    by (simp add: tns_catalog_def example_env_fields Let_def)
  have res: "emap (resolve (schema example_night)) [''objectId'', ''ra'', ''dec''] = Inr [(), (), ()]"
    by (simp add: example_night_fields resolve_common common_members)
  have src: "tns_source ?env ?a example_night = Inr ?src"
    unfolding tns_source_def cat ebind_Inr res tns_example_labels
    by (simp add: example_night_fields withColumn_def attach_cell_def tns_not_common)
  have keys:
    "row_key (\<lambda>x. str_int (floor x)) (common_cols @ [''tns'']) [''tns'', ''candid'']
       (alert_row alert1 @ [Str ''SN Ia'']) = Inr (Str ''SN Ia_1'')"
    "row_key (\<lambda>x. str_int (floor x)) (common_cols @ [''tns'']) [''tns'', ''candid'']
       (alert_row alert2 @ [Str ''SN Ia'']) = Inr (Str ''SN Ia_2'')"
    "row_key (\<lambda>x. str_int (floor x)) (common_cols @ [''tns'']) [''tns'', ''candid'']
       (alert_row alert3 @ [Str []]) = Inr (Str ''_3'')"
    "row_key (\<lambda>x. str_int (floor x)) (common_cols @ [''tns'']) [''tns'', ''candid'']
       (alert_row alert4 @ [Str []]) = Inr (Str ''_4'')"
    by (simp_all add: row_key_def col_def ref_value_def resolve_common_tns cell_alert_row_tns
        tns_not_common common_members cell_alert_row alerts concat_ws_def ws_parts_def
        str_int_def str_nat.simps digit_char_def)
  have sel: "select (show_double ?env)
        (key_and ''tns_candid'' [''tns'', ''candid''] (common_cols @ [''tns''])) ?src =
      Inr ?df1"
    by (subst select_key_and_total [where ks = "[Str ''SN Ia_1'', Str ''SN Ia_2'', Str ''_3'', Str ''_4'']"])
       (auto simp: common_cols_plain resolve_common_tns col_def ref_column_def common_members keys
          common_projection_tns example_env_fields simp del: map_append)
  have name: "''tns_candid'' \<notin> set common_cols"
    by (simp add: common_cols_def)
  have r1: "resolve ?cs1 ''tns'' = Inr ()"
    by (rule resolve_distinct) (use name in \<open>auto simp: distinct_common_cols tns_not_common\<close>)
  have lab: "cell ?cs1 (key # alert_row kv @ [v]) ''tns'' = v" for key kv v
    by (simp add: cell_Cons cell_alert_row_tns tns_not_common)
  have flt: "filter_rows (\<lambda>r. neq_str (cell ?cs1 r ''tns'') []) ?df1 =
      Inr \<lparr>schema = ?cs1, rows = [Str ''SN Ia_1'' # alert_row alert1 @ [Str ''SN Ia''],
                                  Str ''SN Ia_2'' # alert_row alert2 @ [Str ''SN Ia'']]\<rparr>"
    by (subst filter_rows_total) (auto simp: lab neq_str_def)
  have dropped: "map snd (filter (\<lambda>(n, x). n \<noteq> ''tns'') (zip common_cols (alert_row kv))) =
      alert_row kv" for kv
    using dropped_row [of "alert_row kv" common_cols "[''tns'']"] tns_not_common length_alert_row
    by auto
  have drp: "drop_cols [''tns'']
        \<lparr>schema = ?cs1, rows = [Str ''SN Ia_1'' # alert_row alert1 @ [Str ''SN Ia''],
                                  Str ''SN Ia_2'' # alert_row alert2 @ [Str ''SN Ia'']]\<rparr> =
      \<lparr>schema = ''tns_candid'' # common_cols,
       rows = [Str ''SN Ia_1'' # alert_row alert1,
                   Str ''SN Ia_2'' # alert_row alert2]\<rparr>"
    using tns_not_common
    by (auto simp: drop_cols_def filter_id_conv length_alert_row dropped)
  show ?thesis
    unfolding build_index_unfold Let_def t cols
    by (simp add: named_def tns_index_def src sel r1 flt drp example_args_fields)
qed

theorem tns_rows_witness:
  "kind_of (first_token (index_table (example_args ''tns_candid''))) = Tns \<and>
   build_index (example_env single_visits [(0, 1 / 3600), (0, 40), (0, 50)])
       (example_args ''tns_candid'') single_visits =
     Inr (\<lparr>schema = ''tns_candid'' # common_cols,
           rows = [Str ''SN Ia_1'' # alert_row alert1]\<rparr>,
          ''tns_candid'') \<and>
   arrow_batches (example_env single_visits [(0, 1 / 3600), (0, 40), (0, 50)])
       (rows single_visits) = [rows single_visits] \<and>
   distinct (map (\<lambda>r. cell (schema single_visits) r ''objectId'') (rows single_visits)) \<and>
   list_all (\<lambda>r. length r = length (schema single_visits)) (rows single_visits) \<and>
   ''tns'' \<notin> set (schema \<lparr>schema = ''tns_candid'' # common_cols,
           rows = [Str ''SN Ia_1'' # alert_row alert1]\<rparr>)"
proof -
  have h1: "kind_of (first_token (index_table (example_args ''tns_candid''))) = Tns"
    by (simp add: kind_of_def first_token_def example_args_fields)
  have b: "arrow_batches (example_env single_visits [(0, 1 / 3600), (0, 40), (0, 50)])
       (rows single_visits) = [rows single_visits]"
    by (simp add: arrow_batches_def example_env_fields single_visits_fields)
  have d: "distinct (map (\<lambda>r. cell (schema single_visits) r ''objectId'') (rows single_visits))"
    by (simp add: single_visits_fields cell_alert_row common_members alerts)
  have l: "list_all (\<lambda>r. length r = length (schema single_visits)) (rows single_visits)"
    by (simp add: single_visits_fields length_alert_row)
  note c = tns_rows [OF h1 tns_single_visits, THEN conjunct2, THEN conjunct2, THEN conjunct1]
  from h1 tns_single_visits b d l c show ?thesis
    by (intro conjI)
qed

text \<open>
  C4, as stated, fails on the label not being persisted: on the example night the two
  rows of the output carry the label \<^verbatim>\<open>SN Ia\<close> at the head of their row keys. It fails
  on the bound of the separation as well: the second alert lies two arcseconds from the
  catalogue entry nearest to it, which is not below 1.5/3600 degrees, and it is in the
  output all the same.
\<close>

theorem tns_label_counterexample:
  "build_index (example_env example_night [(0, 1 / 3600), (0, 1 / 1800), (0, 40), (0, 50)])
       (example_args ''tns_candid'') example_night =
     Inr (\<lparr>schema = ''tns_candid'' # common_cols,
           rows = [Str (''SN Ia'' @ ''_1'') # alert_row alert1,
                   Str (''SN Ia'' @ ''_2'') # alert_row alert2]\<rparr>,
          ''tns_candid'') \<and>
   tns_labels (example_env example_night [(0, 1 / 3600), (0, 1 / 1800), (0, 40), (0, 50)])
       [\<lparr>tns_ra = Dbl 10, tns_declination = Dbl 20, tns_type = Some ''SN Ia''\<rparr>] example_night =
     Inr [[Str ''SN Ia'', Str ''SN Ia'', Str [], Str []]] \<and>
   match_to_catalog_sky (example_env example_night [(0, 1 / 3600), (0, 1 / 1800), (0, 40), (0, 50)])
       (map (\<lambda>r. (cell common_cols r ''ra'', cell common_cols r ''dec'')) (rows example_night))
       [(Dbl 10, Dbl 20)] =
     Inr [(0, 1 / 3600), (0, 1 / 1800), (0, 40), (0, 50)] \<and>
   \<not> (1 / 1800 < (1.5 / 3600 :: real))"
  using tns_example tns_example_labels
  by (simp add: example_env_fields example_night_fields)

subsection \<open>Row keys\<close>

lemma split_from_sep:
  "c \<notin> set s \<Longrightarrow> split_from [c] acc (s @ c # rest) = (acc @ s) # split_from [c] [] rest"
  by (induction s arbitrary: acc) auto

lemma split_join:
  "ss \<noteq> [] \<Longrightarrow> (\<And>s. s \<in> set ss \<Longrightarrow> c \<notin> set s) \<Longrightarrow> split_from [c] [] (py_join [c] ss) = ss"
proof (induction "[c]" ss rule: py_join.induct)
  case 1
  then show ?case by simp
next
  case (2 p)
  then show ?case by (simp add: split_from_plain)
next
  case (3 p q ps)
  then show ?case by (simp add: split_from_sep)
qed

lemma join_inject:
  assumes "py_join [c] ss = py_join [c] ss'" and "length ss = length ss'"
    and "\<And>s. s \<in> set ss \<Longrightarrow> c \<notin> set s" and "\<And>s. s \<in> set ss' \<Longrightarrow> c \<notin> set s"
  shows "ss = ss'"
proof (cases "ss = []")
  case True
  with assms(2) show ?thesis by simp
next
  case False
  with assms(2) have ne: "ss' \<noteq> []" by auto
  have "ss = split_from [c] [] (py_join [c] ss)"
    by (rule split_join [OF False assms(3), symmetric])
  also have "\<dots> = split_from [c] [] (py_join [c] ss')"
    by (rule arg_cong [OF assms(1)])
  also have "\<dots> = ss'"
    by (rule split_join [OF ne assms(4)])
  finally show ?thesis .
qed

lemma emap_via_map: "emap f xs = emap (\<lambda>y. y) (map f xs)"
  by (induction xs) (simp_all split: sum.splits)

lemma emap_cong_map: "map f xs = map g ys \<Longrightarrow> emap f xs = emap g ys"
  using emap_via_map [of f xs] emap_via_map [of g ys] by simp

lemma emap_bind_Inr:
  "emap (\<lambda>x. ebind (f x) g) xs = Inr ps \<Longrightarrow> \<exists>vs. emap f xs = Inr vs \<and> emap g vs = Inr ps"
proof (induction xs arbitrary: ps)
  case Nil
  then show ?case by simp
next
  case (Cons x xs)
  from Cons.prems obtain p ps' where p: "ebind (f x) g = Inr p"
    and ps': "emap (\<lambda>x. ebind (f x) g) xs = Inr ps'" and ps: "ps = p # ps'"
    by (auto split: sum.splits)
  from p obtain v where v: "f x = Inr v" "g v = Inr p"
    by (auto simp: ebind_Inr_iff)
  from Cons.IH [OF ps'] obtain vs where "emap f xs = Inr vs" "emap g vs = Inr ps'"
    by blast
  with v ps show ?case by simp
qed

lemma ref_key_parts:
  assumes "key_parts shw cs refs r = Inr ps"
  shows "ref_key shw cs refs r = Inr (Str (py_join ''_'' (concat ps)))"
proof -
  from emap_bind_Inr [OF assms [unfolded key_parts_def]] obtain vs where
    "emap (ref_value cs r) refs = Inr vs" and "emap (ws_parts shw) vs = Inr ps"
    by blast
  then show ?thesis
    by (simp add: ref_key_def concat_ws_def)
qed

lemma row_key_ref_key: "row_key shw cs columns r = ref_key shw cs (map col columns) r"
  by (simp add: row_key_def ref_key_def)

lemma plain_parts_concat:
  "plain_parts ps \<Longrightarrow> ps = map (\<lambda>s. [s]) (concat ps) \<and> (\<forall>s\<in>set (concat ps). CHR ''_'' \<notin> set s)"
proof (induction ps)
  case Nil
  then show ?case by simp
next
  case (Cons p ps)
  then obtain s where "p = [s]" and "CHR ''_'' \<notin> set s" and "plain_parts ps"
    by (auto simp: plain_parts_def split: list.splits)
  with Cons.IH show ?case by auto
qed

lemma key_inject:
  assumes "key_parts shw cs refs r = Inr ps" and "key_parts shw cs refs r' = Inr ps'"
    and "plain_parts ps" and "plain_parts ps'"
    and "ref_key shw cs refs r = ref_key shw cs refs r'"
  shows "ps = ps'"
proof -
  from assms(1) have "length ps = length refs"
    unfolding key_parts_def by (rule emap_Inr_length)
  moreover from assms(2) have "length ps' = length refs"
    unfolding key_parts_def by (rule emap_Inr_length)
  ultimately have len: "length ps = length ps'"
    by simp
  from plain_parts_concat [OF assms(3)] plain_parts_concat [OF assms(4)]
  have p: "ps = map (\<lambda>s. [s]) (concat ps)" "\<forall>s\<in>set (concat ps). CHR ''_'' \<notin> set s"
    and p': "ps' = map (\<lambda>s. [s]) (concat ps')" "\<forall>s\<in>set (concat ps'). CHR ''_'' \<notin> set s"
    by blast+
  from p(1) p'(1) len have "length (concat ps) = length (concat ps')"
    by (metis length_map)
  moreover from assms(5) have "py_join ''_'' (concat ps) = py_join ''_'' (concat ps')"
    by (simp add: ref_key_parts [OF assms(1)] ref_key_parts [OF assms(2)])
  ultimately have "concat ps = concat ps'"
    using p(2) p'(2) by (intro join_inject) auto
  with p(1) p'(1) show ?thesis by simp
qed

lemma keys_distinct:
  assumes rel: "list_all2 (\<lambda>r out. ref_key shw cs refs r = Inr (hd out)) (filter P rs) os"
    and plain: "\<forall>r\<in>set rs. \<exists>ps. key_parts shw cs refs r = Inr ps \<and> plain_parts ps"
    and d: "distinct (map (key_parts shw cs refs) rs)"
  shows "distinct (map hd os)"
proof -
  let ?key = "\<lambda>r. case ref_key shw cs refs r of Inr v \<Rightarrow> v | Inl e \<Rightarrow> Null"
  have "map hd os = map ?key xs"
    if "list_all2 (\<lambda>r out. ref_key shw cs refs r = Inr (hd out)) xs os" for xs
    using that by (induction rule: list_all2_induct) auto
  from this [OF rel] have m: "map hd os = map ?key (filter P rs)" .
  from d have drs: "distinct rs" and inj: "inj_on (key_parts shw cs refs) (set rs)"
    by (simp_all add: distinct_map)
  have "inj_on ?key (set (filter P rs))"
  proof (rule inj_onI)
    fix r r'
    assume r: "r \<in> set (filter P rs)" and r': "r' \<in> set (filter P rs)" and eq: "?key r = ?key r'"
    from r r' have rs: "r \<in> set rs" "r' \<in> set rs"
      by simp_all
    from rs(1) plain obtain ps where
      ps: "key_parts shw cs refs r = Inr ps" "plain_parts ps"
      by blast
    from rs(2) plain obtain ps' where
      ps': "key_parts shw cs refs r' = Inr ps'" "plain_parts ps'"
      by blast
    from eq have "ref_key shw cs refs r = ref_key shw cs refs r'"
      by (simp add: ref_key_parts [OF ps(1)] ref_key_parts [OF ps'(1)])
    from key_inject [OF ps(1) ps'(1) ps(2) ps'(2) this]
    have "key_parts shw cs refs r = key_parts shw cs refs r'"
      by (simp add: ps ps')
    with inj rs show "r = r'"
      by (auto dest: inj_onD)
  qed
  with drs m show ?thesis
    by (simp add: distinct_map)
qed

lemma item_value_key:
  "item_value shw cs r (ConcatWs ''_'' refs n) = ref_key shw cs refs r"
  by (simp add: item_value_def ref_key_def ebind_def)

lemma select_key_first:
  assumes "select shw (ConcatWs ''_'' refs n # items) f = Inr g"
  shows "list_all2
     (\<lambda>r out. emap (item_value shw (schema f) r) (ConcatWs ''_'' refs n # items) = Inr out \<and>
        out \<noteq> [] \<and> ref_key shw (schema f) refs r = Inr (hd out))
     (rows f) (rows g)"
  using select_Inr(2) [OF assms]
  by (rule list_all2_mono) (auto simp: item_value_key split: sum.splits)

lemma key_rows_select:
  assumes "select shw (ConcatWs ''_'' refs n # items) f = Inr g"
  shows "list_all2 (\<lambda>r out. ref_key shw (schema f) refs r = Inr (hd out))
     (filter (\<lambda>r. True) (rows f)) (rows g)"
  using select_key_first [OF assms] by (auto elim: list_all2_mono)

lemma key_rows_filtered:
  assumes sel: "select shw (ConcatWs ''_'' refs n # items) f = Inr g"
    and flt: "filter_rows cond g = Inr kept"
  shows "\<exists>P. list_all2 (\<lambda>r out. out \<noteq> [] \<and> ref_key shw (schema f) refs r = Inr (hd out))
     (filter P (rows f)) (rows kept)"
proof -
  let ?R = "\<lambda>r out. emap (item_value shw (schema f) r) (ConcatWs ''_'' refs n # items) = Inr out \<and>
        out \<noteq> [] \<and> ref_key shw (schema f) refs r = Inr (hd out)"
  let ?Q = "\<lambda>out. cond out = Inr (Some True)"
  from filter_rows_Inr [OF flt] have k: "rows kept = filter ?Q (rows g)" by simp
  have "list_all2 ?R (filter (\<lambda>r. \<exists>out. ?R r out \<and> ?Q out) (rows f)) (filter ?Q (rows g))"
    by (rule list_all2_filter [OF select_key_first [OF sel]]) auto
  then have "list_all2 (\<lambda>r out. out \<noteq> [] \<and> ref_key shw (schema f) refs r = Inr (hd out))
      (filter (\<lambda>r. \<exists>out. ?R r out \<and> ?Q out) (rows f)) (rows kept)"
    unfolding k by (rule list_all2_mono) simp
  then show ?thesis by blast
qed

lemma hd_dropped:
  "out \<noteq> [] \<Longrightarrow> cs \<noteq> [] \<Longrightarrow> hd cs \<notin> set gone \<Longrightarrow>
   hd (map snd (filter (\<lambda>(n, x). n \<notin> set gone) (zip cs out))) = hd out"
  by (cases cs; cases out) simp_all

lemma key_rows_dropped:
  assumes "list_all2 (\<lambda>r out. out \<noteq> [] \<and> K r = Inr (hd out)) rs (rows kept)"
    and "schema kept \<noteq> []" and "hd (schema kept) \<notin> set gone"
  shows "list_all2 (\<lambda>r out. K r = Inr (hd out)) rs (rows (drop_cols gone kept))"
  unfolding drop_cols_def frame.simps list_all2_map2
  using assms(1) by (rule list_all2_mono) (simp add: hd_dropped assms(2,3))

lemma key_rows:
  assumes "build_index env a df = Inr (out, k)"
  shows "\<exists>src refs P. key_source env a df = Inr (src, refs) \<and>
     list_all2 (\<lambda>r out_row. ref_key (show_double env) (schema src) refs r = Inr (hd out_row))
       (filter P (rows src)) (rows out)"
proof -
  let ?name = "index_table a" and ?columns = "split_from ''_'' [] (index_table a)"
  let ?c0 = "first_token (index_table a)"
  let ?shw = "show_double env"
  note b = assms [unfolded build_index_unfold Let_def]
  consider (pix) "startswith ?c0 ''pixel''"
    | (cls) "\<not> startswith ?c0 ''pixel''" "?c0 = ''class''"
    | (ssn) "\<not> startswith ?c0 ''pixel''" "?c0 = ''ssnamenr''"
    | (trk) "\<not> startswith ?c0 ''pixel''" "?c0 = ''tracklet''"
    | (upp) "\<not> startswith ?c0 ''pixel''" "?c0 = ''upper''"
    | (uppv) "\<not> startswith ?c0 ''pixel''" "?c0 = ''uppervalid''"
    | (ext) "\<not> startswith ?c0 ''pixel''" "?c0 = ''tns''"
    | (dflt) "\<not> startswith ?c0 ''pixel''" "?c0 \<noteq> ''class''" "?c0 \<noteq> ''ssnamenr''"
        "?c0 \<noteq> ''tracklet''" "?c0 \<noteq> ''upper''" "?c0 \<noteq> ''uppervalid''" "?c0 \<noteq> ''tns''"
    by blast
  then show ?thesis
  proof cases
    case pix
    then have kind: "kind_of ?c0 = Pixel"
      by (simp add: kind_of_def startswith_take eval_nat_numeral)
    from b pix have "pixel_index env ?name ?columns df = Inr out"
      by (simp add: named_Inr_iff)
    then obtain src where src: "pixel_source env ?columns df = Inr src"
      and sel: "select ?shw (key_and ?name ?columns [''objectId'']) src = Inr out"
      by (auto simp: pixel_index_def ebind_Inr_iff)
    have "key_source env a df = Inr (src, map col ?columns)"
      by (simp add: key_source_def kind src)
    with key_rows_select [OF sel [unfolded key_and_def]] show ?thesis by blast
  next
    case cls
    then have kind: "kind_of ?c0 = Class"
      by (simp add: kind_of_def)
    from b cls have "class_index env ?name ?columns df = Inr out"
      by (simp add: named_Inr_iff)
    then obtain src where src: "class_source env df = Inr src"
      and sel: "select ?shw (key_and ?name ?columns common_cols) src = Inr out"
      by (auto simp: class_index_def ebind_Inr_iff)
    have "key_source env a df = Inr (src, map col ?columns)"
      by (simp add: key_source_def kind src)
    with key_rows_select [OF sel [unfolded key_and_def]] show ?thesis by blast
  next
    case ssn
    then have kind: "kind_of ?c0 = Ssnamenr"
      by (simp add: kind_of_def)
    from b ssn have "ssnamenr_index env ?name ?columns df = Inr out"
      by (simp add: named_Inr_iff)
    then obtain src where src: "ssnamenr_source df = Inr src"
      and sel: "select ?shw (key_and ?name ?columns common_cols) src = Inr out"
      by (auto simp: ssnamenr_index_def ebind_Inr_iff)
    have "key_source env a df = Inr (src, map col ?columns)"
      by (simp add: key_source_def kind src)
    with key_rows_select [OF sel [unfolded key_and_def]] show ?thesis by blast
  next
    case trk
    then have kind: "kind_of ?c0 = Tracklet"
      by (simp add: kind_of_def)
    from b trk have "tracklet_index env ?name ?columns df = Inr out"
      by (simp add: named_Inr_iff)
    then obtain src where src: "tracklet_source df = Inr src"
      and sel: "select ?shw (key_and ?name ?columns common_cols) src = Inr out"
      by (auto simp: tracklet_index_def ebind_Inr_iff)
    have "key_source env a df = Inr (src, map col ?columns)"
      by (simp add: key_source_def kind src)
    with key_rows_select [OF sel [unfolded key_and_def]] show ?thesis by blast
  next
    case upp
    then have kind: "kind_of ?c0 = Upper"
      by (simp add: kind_of_def)
    from b upp have "upper_index env df = Inr out"
      by (simp add: named_Inr_iff)
    then obtain df_ex kept where ex: "explode_history env df = Inr df_ex"
      and flt: "filter_rows (\<lambda>r. Inr (Some (\<not> isNotNull (cell (schema df_ex) r ''magpsf'')))) df_ex = Inr kept"
      and out: "out = drop_cols [''magpsf'', ''sigmapsf''] kept"
      by (auto simp: upper_index_def ebind_Inr_iff)
    from ex obtain src where src: "exploded_source df = Inr src"
      and sel: "select ?shw exploded_items src = Inr df_ex"
      by (auto simp: explode_history_def ebind_Inr_iff)
    from filter_rows_Inr [OF flt] explode_history_schema [OF ex]
    have s: "schema kept \<noteq> []" "hd (schema kept) \<notin> set [''magpsf'', ''sigmapsf'']"
      by simp_all
    from key_rows_filtered [OF sel [unfolded exploded_items_def] flt] obtain P where
      "list_all2 (\<lambda>r out_row. out_row \<noteq> [] \<and> ref_key ?shw (schema src) exploded_key r = Inr (hd out_row))
         (filter P (rows src)) (rows kept)"
      by blast
    from key_rows_dropped [OF this s]
    have "list_all2 (\<lambda>r out_row. ref_key ?shw (schema src) exploded_key r = Inr (hd out_row))
         (filter P (rows src)) (rows out)"
      by (simp add: out)
    moreover have "key_source env a df = Inr (src, exploded_key)"
      by (simp add: key_source_def kind src)
    ultimately show ?thesis by blast
  next
    case uppv
    then have kind: "kind_of ?c0 = Uppervalid"
      by (simp add: kind_of_def)
    from b uppv have "uppervalid_index env df = Inr out"
      by (simp add: named_Inr_iff)
    then obtain df_ex where ex: "explode_history env df = Inr df_ex"
      and flt: "filter_rows (\<lambda>r. Inr (Some (isNotNull (cell (schema df_ex) r ''magpsf'')))) df_ex = Inr out"
      by (auto simp: uppervalid_index_def ebind_Inr_iff)
    from ex obtain src where src: "exploded_source df = Inr src"
      and sel: "select ?shw exploded_items src = Inr df_ex"
      by (auto simp: explode_history_def ebind_Inr_iff)
    from key_rows_filtered [OF sel [unfolded exploded_items_def] flt] obtain P where
      "list_all2 (\<lambda>r out_row. out_row \<noteq> [] \<and> ref_key ?shw (schema src) exploded_key r = Inr (hd out_row))
         (filter P (rows src)) (rows out)"
      by blast
    then have "list_all2 (\<lambda>r out_row. ref_key ?shw (schema src) exploded_key r = Inr (hd out_row))
         (filter P (rows src)) (rows out)"
      by (rule list_all2_mono) simp
    moreover have "key_source env a df = Inr (src, exploded_key)"
      by (simp add: key_source_def kind src)
    ultimately show ?thesis by blast
  next
    case ext
    then have kind: "kind_of ?c0 = Tns"
      by (simp add: kind_of_def)
    from b ext have "tns_index env a ?name ?columns df = Inr out"
      by (simp add: named_Inr_iff)
    then obtain src df1 kept where src: "tns_source env a df = Inr src"
      and sel: "select ?shw (key_and ?name ?columns (common_cols @ [''tns''])) src = Inr df1"
      and res: "resolve (schema df1) ''tns'' = Inr ()"
      and flt: "filter_rows (\<lambda>r. neq_str (cell (schema df1) r ''tns'') []) df1 = Inr kept"
      and out: "out = drop_cols [''tns''] kept"
      unfolding tns_index_def by (auto simp: ebind_Inr_iff)
    have plain: "CHR ''.'' \<notin> set c" if "c \<in> set (common_cols @ [''tns''])" for c
      using that common_cols_plain by auto
    from select_key_and(1) [OF sel plain]
    have s1: "schema df1 = ?name # common_cols @ [''tns'']" .
    from res have ne: "?name \<noteq> ''tns''"
      unfolding s1 by (auto simp: resolve_def split: if_splits)
    from filter_rows_Inr [OF flt] s1 ne
    have s: "schema kept \<noteq> []" "hd (schema kept) \<notin> set [''tns'']"
      by simp_all
    from key_rows_filtered [OF sel [unfolded key_and_def] flt] obtain P where
      "list_all2 (\<lambda>r out_row. out_row \<noteq> [] \<and> ref_key ?shw (schema src) (map col ?columns) r = Inr (hd out_row))
         (filter P (rows src)) (rows kept)"
      by blast
    from key_rows_dropped [OF this s]
    have "list_all2 (\<lambda>r out_row. ref_key ?shw (schema src) (map col ?columns) r = Inr (hd out_row))
         (filter P (rows src)) (rows out)"
      by (simp add: out)
    moreover have "key_source env a df = Inr (src, map col ?columns)"
      by (simp add: key_source_def kind src)
    ultimately show ?thesis by blast
  next
    case dflt
    then have kind: "kind_of ?c0 = Default"
      by (simp add: kind_of_def startswith_take eval_nat_numeral)
    from b dflt have sel: "select ?shw (key_and ?name ?columns common_cols) df = Inr out"
      by (simp add: named_Inr_iff default_index_def)
    have "key_source env a df = Inr (df, map col ?columns)"
      by (simp add: key_source_def kind)
    with key_rows_select [OF sel [unfolded key_and_def]] show ?thesis by blast
  qed
qed

text \<open>
  C9, as amended. For every index kind, on success, the key of every row of the output is
  the value of \<^verbatim>\<open>concat_ws('_', ...)\<close> over the key columns of one record of the frame
  the key is computed on (the input, filtered, exploded, or with the pixel, the label or
  the catalogue type attached), and it depends on that record through the values of
  these columns only. Where every key column of every record gives exactly one part, no
  part holds an underscore, and the records differ pairwise in their parts, no two rows
  of the output share a row key.
\<close>

theorem row_keys_distinct:
  assumes "build_index env a df = Inr (out, k)"
  shows "\<exists>src refs.
     key_source env a df = Inr (src, refs) \<and>
     (\<forall>out_row\<in>set (rows out). \<exists>r\<in>set (rows src).
        ref_key (show_double env) (schema src) refs r = Inr (hd out_row)) \<and>
     (\<forall>r r'. map (ref_value (schema src) r) refs = map (ref_value (schema src) r') refs \<longrightarrow>
        ref_key (show_double env) (schema src) refs r =
        ref_key (show_double env) (schema src) refs r') \<and>
     ((\<forall>r\<in>set (rows src). \<exists>ps.
         key_parts (show_double env) (schema src) refs r = Inr ps \<and> plain_parts ps) \<and>
      distinct (map (key_parts (show_double env) (schema src) refs) (rows src)) \<longrightarrow>
      distinct (map hd (rows out)))"
proof -
  from key_rows [OF assms] obtain src refs P where
    s: "key_source env a df = Inr (src, refs)" and
    rel: "list_all2 (\<lambda>r out_row. ref_key (show_double env) (schema src) refs r = Inr (hd out_row))
       (filter P (rows src)) (rows out)"
    by blast
  have from_record: "\<exists>r\<in>set (rows src). ref_key (show_double env) (schema src) refs r = Inr (hd out_row)"
    if "out_row \<in> set (rows out)" for out_row
  proof -
    from that obtain i where i: "i < length (rows out)" and o: "rows out ! i = out_row"
      by (auto simp: in_set_conv_nth)
    from rel i have "i < length (filter P (rows src))"
      by (simp add: list_all2_lengthD)
    moreover from rel i o
    have "ref_key (show_double env) (schema src) refs (filter P (rows src) ! i) = Inr (hd out_row)"
      by (auto simp: list_all2_conv_all_nth)
    ultimately show ?thesis
      by (metis filter_is_subset nth_mem subsetD)
  qed
  have pure: "ref_key (show_double env) (schema src) refs r =
      ref_key (show_double env) (schema src) refs r'"
    if "map (ref_value (schema src) r) refs = map (ref_value (schema src) r') refs" for r r'
    using emap_cong_map [OF that] by (simp add: ref_key_def)
  have unique: "distinct (map hd (rows out))"
    if "\<forall>r\<in>set (rows src). \<exists>ps.
         key_parts (show_double env) (schema src) refs r = Inr ps \<and> plain_parts ps"
      and "distinct (map (key_parts (show_double env) (schema src) refs) (rows src))"
    using rel that by (rule keys_distinct)
  from s from_record pure unique show ?thesis
    by blast
qed

lemma key_members:
  "''cdsxmatch'' \<in> set common_cols" "''gcvs'' \<in> set common_cols"
  by (simp_all add: common_cols_def)

lemma colliding_night_fields:
  "schema colliding_night = common_cols"
  "rows colliding_night =
     [alert_row collide1, alert_row collide2, alert_row collide3, alert_row collide4]"
  by (simp_all add: colliding_night_def)

lemmas collisions = collide1_def collide2_def collide3_def collide4_def

lemma default_example:
  "build_index (example_env example_night []) (example_args ''objectId_candid'') example_night =
     Inr (\<lparr>schema = ''objectId_candid'' # common_cols,
           rows = [Str ''ZTF21aaaaaaa_1'' # alert_row alert1,
                   Str ''ZTF21aaaaaaa_2'' # alert_row alert2,
                   Str ''ZTF21bbbbbbb_3'' # alert_row alert3,
                   Str ''ZTF21ccccccc_4'' # alert_row alert4]\<rparr>,
          ''objectId_candid'')"
proof -
  let ?env = "example_env example_night []"
  let ?a = "example_args ''objectId_candid''"
  have t: "first_token (index_table ?a) = ''objectId''"
    by (simp add: example_args_fields first_token_def)
  have cols: "split_from ''_'' [] (index_table ?a) = [''objectId'', ''candid'']"
    by (simp add: example_args_fields)
  have keys:
    "row_key (show_double ?env) common_cols [''objectId'', ''candid''] (alert_row alert1) = Inr (Str ''ZTF21aaaaaaa_1'')"
    "row_key (show_double ?env) common_cols [''objectId'', ''candid''] (alert_row alert2) = Inr (Str ''ZTF21aaaaaaa_2'')"
    "row_key (show_double ?env) common_cols [''objectId'', ''candid''] (alert_row alert3) = Inr (Str ''ZTF21bbbbbbb_3'')"
    "row_key (show_double ?env) common_cols [''objectId'', ''candid''] (alert_row alert4) = Inr (Str ''ZTF21ccccccc_4'')"
    by (simp_all add: row_key_def col_def ref_value_def resolve_common common_members key_members
        cell_alert_row alerts concat_ws_def ws_parts_def example_env_fields
        str_int_def str_nat.simps digit_char_def)
  have sel: "select (show_double ?env) (key_and ''objectId_candid'' [''objectId'', ''candid''] common_cols) example_night =
      Inr \<lparr>schema = ''objectId_candid'' # common_cols,
           rows = [Str ''ZTF21aaaaaaa_1'' # alert_row alert1,
                   Str ''ZTF21aaaaaaa_2'' # alert_row alert2,
                   Str ''ZTF21bbbbbbb_3'' # alert_row alert3,
                   Str ''ZTF21ccccccc_4'' # alert_row alert4]\<rparr>"
    by (subst select_key_and_total [where ks = "[Str ''ZTF21aaaaaaa_1'', Str ''ZTF21aaaaaaa_2'', Str ''ZTF21bbbbbbb_3'', Str ''ZTF21ccccccc_4'']"])
       (auto simp: common_cols_plain resolve_common col_def ref_column_def common_members
          key_members keys common_projection_alert_row example_night_fields)
  show ?thesis
    unfolding build_index_unfold Let_def t cols
    by (simp add: named_def default_index_def sel example_args_fields)
qed

lemma colliding_example:
  "build_index (example_env colliding_night []) (example_args ''cdsxmatch_gcvs'') colliding_night =
     Inr (\<lparr>schema = ''cdsxmatch_gcvs'' # common_cols,
           rows = [Str ''RRAB'' # alert_row collide1,
                   Str ''RRAB'' # alert_row collide2,
                   Str ''Candidate_EB*_EA'' # alert_row collide3,
                   Str ''Candidate_EB*_EA'' # alert_row collide4]\<rparr>,
          ''cdsxmatch_gcvs'')"
proof -
  let ?env = "example_env colliding_night []"
  let ?a = "example_args ''cdsxmatch_gcvs''"
  have t: "first_token (index_table ?a) = ''cdsxmatch''"
    by (simp add: example_args_fields first_token_def)
  have cols: "split_from ''_'' [] (index_table ?a) = [''cdsxmatch'', ''gcvs'']"
    by (simp add: example_args_fields)
  have keys:
    "row_key (show_double ?env) common_cols [''cdsxmatch'', ''gcvs''] (alert_row collide1) = Inr (Str ''RRAB'')"
    "row_key (show_double ?env) common_cols [''cdsxmatch'', ''gcvs''] (alert_row collide2) = Inr (Str ''RRAB'')"
    "row_key (show_double ?env) common_cols [''cdsxmatch'', ''gcvs''] (alert_row collide3) = Inr (Str ''Candidate_EB*_EA'')"
    "row_key (show_double ?env) common_cols [''cdsxmatch'', ''gcvs''] (alert_row collide4) = Inr (Str ''Candidate_EB*_EA'')"
    by (simp_all add: row_key_def col_def ref_value_def resolve_common common_members key_members
        cell_alert_row collisions concat_ws_def ws_parts_def example_env_fields
        str_int_def str_nat.simps digit_char_def)
  have sel: "select (show_double ?env) (key_and ''cdsxmatch_gcvs'' [''cdsxmatch'', ''gcvs''] common_cols) colliding_night =
      Inr \<lparr>schema = ''cdsxmatch_gcvs'' # common_cols,
           rows = [Str ''RRAB'' # alert_row collide1,
                   Str ''RRAB'' # alert_row collide2,
                   Str ''Candidate_EB*_EA'' # alert_row collide3,
                   Str ''Candidate_EB*_EA'' # alert_row collide4]\<rparr>"
    by (subst select_key_and_total [where ks = "[Str ''RRAB'', Str ''RRAB'', Str ''Candidate_EB*_EA'', Str ''Candidate_EB*_EA'']"])
       (auto simp: common_cols_plain resolve_common col_def ref_column_def common_members
          key_members keys common_projection_alert_row colliding_night_fields)
  show ?thesis
    unfolding build_index_unfold Let_def t cols
    by (simp add: named_def default_index_def sel example_args_fields)
qed

theorem row_keys_distinct_witness:
  "build_index (example_env example_night []) (example_args ''objectId_candid'') example_night =
     Inr (\<lparr>schema = ''objectId_candid'' # common_cols,
           rows = [Str ''ZTF21aaaaaaa_1'' # alert_row alert1,
                   Str ''ZTF21aaaaaaa_2'' # alert_row alert2,
                   Str ''ZTF21bbbbbbb_3'' # alert_row alert3,
                   Str ''ZTF21ccccccc_4'' # alert_row alert4]\<rparr>,
          ''objectId_candid'') \<and>
   key_source (example_env example_night []) (example_args ''objectId_candid'') example_night =
     Inr (example_night, [col ''objectId'', col ''candid'']) \<and>
   map (key_parts (show_double (example_env example_night [])) (schema example_night)
          [col ''objectId'', col ''candid'']) (rows example_night) =
     [Inr [[''ZTF21aaaaaaa''], [''1'']], Inr [[''ZTF21aaaaaaa''], [''2'']],
      Inr [[''ZTF21bbbbbbb''], [''3'']], Inr [[''ZTF21ccccccc''], [''4'']]] \<and>
   plain_parts [[''ZTF21aaaaaaa''], [''1'']] \<and> plain_parts [[''ZTF21aaaaaaa''], [''2'']] \<and>
   plain_parts [[''ZTF21bbbbbbb''], [''3'']] \<and> plain_parts [[''ZTF21ccccccc''], [''4'']] \<and>
   distinct (map hd (rows \<lparr>schema = ''objectId_candid'' # common_cols,
           rows = [Str ''ZTF21aaaaaaa_1'' # alert_row alert1,
                   Str ''ZTF21aaaaaaa_2'' # alert_row alert2,
                   Str ''ZTF21bbbbbbb_3'' # alert_row alert3,
                   Str ''ZTF21ccccccc_4'' # alert_row alert4]\<rparr>))"
proof -
  let ?env = "example_env example_night []" and ?a = "example_args ''objectId_candid''"
  let ?refs = "[col ''objectId'', col ''candid'']"
  let ?out = "\<lparr>schema = ''objectId_candid'' # common_cols,
           rows = [Str ''ZTF21aaaaaaa_1'' # alert_row alert1,
                   Str ''ZTF21aaaaaaa_2'' # alert_row alert2,
                   Str ''ZTF21bbbbbbb_3'' # alert_row alert3,
                   Str ''ZTF21ccccccc_4'' # alert_row alert4]\<rparr>"
  have ks: "key_source ?env ?a example_night = Inr (example_night, ?refs)"
    by (simp add: key_source_def kind_of_def first_token_def example_args_fields)
  have kp:
    "key_parts (show_double ?env) common_cols ?refs (alert_row alert1) =
       Inr [[''ZTF21aaaaaaa''], [''1'']]"
    "key_parts (show_double ?env) common_cols ?refs (alert_row alert2) =
       Inr [[''ZTF21aaaaaaa''], [''2'']]"
    "key_parts (show_double ?env) common_cols ?refs (alert_row alert3) =
       Inr [[''ZTF21bbbbbbb''], [''3'']]"
    "key_parts (show_double ?env) common_cols ?refs (alert_row alert4) =
       Inr [[''ZTF21ccccccc''], [''4'']]"
    by (simp_all add: key_parts_def col_def ref_value_def resolve_common common_members
        cell_alert_row alerts ws_parts_def str_int_def str_nat.simps digit_char_def)
  have plain:
    "plain_parts [[''ZTF21aaaaaaa''], [''1'']]" "plain_parts [[''ZTF21aaaaaaa''], [''2'']]"
    "plain_parts [[''ZTF21bbbbbbb''], [''3'']]" "plain_parts [[''ZTF21ccccccc''], [''4'']]"
    by (simp_all add: plain_parts_def)
  have parts: "map (key_parts (show_double ?env) (schema example_night) ?refs) (rows example_night) =
     [Inr [[''ZTF21aaaaaaa''], [''1'']], Inr [[''ZTF21aaaaaaa''], [''2'']],
      Inr [[''ZTF21bbbbbbb''], [''3'']], Inr [[''ZTF21ccccccc''], [''4'']]]"
    by (simp add: example_night_fields kp)
  have h1: "\<forall>r\<in>set (rows example_night). \<exists>ps.
      key_parts (show_double ?env) (schema example_night) ?refs r = Inr ps \<and> plain_parts ps"
    using kp plain by (simp add: example_night_fields)
  have h2: "distinct (map (key_parts (show_double ?env) (schema example_night) ?refs)
      (rows example_night))"
    unfolding parts by simp
  from row_keys_distinct [OF default_example] obtain src refs where
    s: "key_source ?env ?a example_night = Inr (src, refs)" and
    unique: "(\<forall>r\<in>set (rows src). \<exists>ps.
         key_parts (show_double ?env) (schema src) refs r = Inr ps \<and> plain_parts ps) \<and>
      distinct (map (key_parts (show_double ?env) (schema src) refs) (rows src)) \<longrightarrow>
      distinct (map hd (rows ?out))"
    by blast
  from s ks have "src = example_night" and "refs = ?refs"
    by simp_all
  with unique h1 h2 have "distinct (map hd (rows ?out))"
    by blast
  with default_example ks parts plain show ?thesis
    by (intro conjI)
qed

text \<open>
  C9, as stated, fails on a night on which the two key columns are each unique per
  alert: \<^verbatim>\<open>concat_ws\<close> skips the \<^verbatim>\<open>NULL\<close> of the first two alerts, and an underscore
  inside a value of the last two reads as the separator, so both pairs share a key.
\<close>

theorem row_key_counterexample:
  "build_index (example_env colliding_night []) (example_args ''cdsxmatch_gcvs'') colliding_night =
     Inr (\<lparr>schema = ''cdsxmatch_gcvs'' # common_cols,
           rows = [Str ''RRAB'' # alert_row collide1,
                   Str ''RRAB'' # alert_row collide2,
                   Str ''Candidate_EB*_EA'' # alert_row collide3,
                   Str ''Candidate_EB*_EA'' # alert_row collide4]\<rparr>,
          ''cdsxmatch_gcvs'') \<and>
   map (\<lambda>r. cell (schema colliding_night) r ''cdsxmatch'') (rows colliding_night) =
     [Null, Str ''RRAB'', Str ''Candidate_EB*'', Str ''Candidate''] \<and>
   map (\<lambda>r. cell (schema colliding_night) r ''gcvs'') (rows colliding_night) =
     [Str ''RRAB'', Null, Str ''EA'', Str ''EB*_EA''] \<and>
   \<not> distinct (map hd (rows \<lparr>schema = ''cdsxmatch_gcvs'' # common_cols,
           rows = [Str ''RRAB'' # alert_row collide1,
                   Str ''RRAB'' # alert_row collide2,
                   Str ''Candidate_EB*_EA'' # alert_row collide3,
                   Str ''Candidate_EB*_EA'' # alert_row collide4]\<rparr>))"
  using colliding_example
  by (simp add: colliding_night_fields cell_alert_row key_members collisions)

end
